(* ===== verification/Prelude.thy ===== *)
theory Prelude
  imports Complex_Main "HOL-Library.AList" "HOL-Library.Word"
begin

text \<open>
  Shared vocabulary of the development: the Python values and exceptions the
  extraction code handles, Python dictionaries as association lists with
  insertion order, and the string built-ins the code calls (\<open>in\<close>,
  \<open>lower\<close>, \<open>strip\<close>, \<open>split\<close>, \<open>str(int)\<close>, \<open>int(str)\<close>).
  Strings are \<open>char list\<close>; every pattern the code searches for is ASCII, so
  substring tests on the UTF-8 bytes agree with Python's tests on code points.
\<close>

named_theorems py_simps "evaluation rules of the modelled Python built-ins"

section \<open>Python values and exceptions\<close>

text \<open>
  The dynamically typed values that reach the package from the SDK after the
  Python/.NET bridge has converted them: \<open>float\<close>, \<open>int\<close>, \<open>str\<close>, \<open>bool\<close>
  and \<open>None\<close>. Python floats are modelled as reals (no NaN or infinity).
\<close>

datatype py_value = PyFloat real | PyInt int | PyStr string | PyBool bool | PyNone

datatype py_error =
    ValueError | TypeError | KeyError | IndexError | AttributeError
  | PIPointNotFoundError string
  | SDKError string

type_synonym 'a py_result = "py_error + 'a"

text \<open>Raising and propagating an exception: the bind of the result type.\<close>

definition rbind :: "'a py_result \<Rightarrow> ('a \<Rightarrow> 'b py_result) \<Rightarrow> 'b py_result" where
  "rbind r f = (case r of Inl e \<Rightarrow> Inl e | Inr a \<Rightarrow> f a)"

lemma rbind_simps [simp, py_simps]:
  "rbind (Inl e) f = Inl e"
  "rbind (Inr a) f = f a"
  by (simp_all add: rbind_def)

lemma rbind_Inr_iff: "rbind r f = Inr b \<longleftrightarrow> (\<exists>a. r = Inr a \<and> f a = Inr b)"
  by (cases r) auto

lemma rbind_Inl_iff: "rbind r f = Inl e \<longleftrightarrow> r = Inl e \<or> (\<exists>a. r = Inr a \<and> f a = Inl e)"
  by (cases r) auto

text \<open>Python truthiness (\<open>if x:\<close>).\<close>

fun py_truthy :: "py_value \<Rightarrow> bool" where
  "py_truthy (PyFloat r) = (r \<noteq> 0)"
| "py_truthy (PyInt i) = (i \<noteq> 0)"
| "py_truthy (PyStr s) = (s \<noteq> [])"
| "py_truthy (PyBool b) = b"
| "py_truthy PyNone = False"

section \<open>Dictionaries\<close>

text \<open>
  A Python \<open>dict\<close> keeps insertion order; assigning an existing key keeps its
  position and replaces its value. That is exactly \<open>AList.update\<close>.
\<close>

type_synonym ('k, 'v) pydict = "('k \<times> 'v) list"

abbreviation dict_set :: "'k \<Rightarrow> 'v \<Rightarrow> ('k, 'v) pydict \<Rightarrow> ('k, 'v) pydict" where
  "dict_set \<equiv> AList.update"

abbreviation dict_get :: "('k, 'v) pydict \<Rightarrow> 'k \<Rightarrow> 'v option" where
  "dict_get \<equiv> map_of"

definition dict_get_default :: "('k, 'v) pydict \<Rightarrow> 'k \<Rightarrow> 'v \<Rightarrow> 'v" where
  "dict_get_default d k dflt = (case map_of d k of Some v \<Rightarrow> v | None \<Rightarrow> dflt)"

lemma dict_get_default_simps [simp, py_simps]:
  "dict_get_default [] k dflt = dflt"
  "dict_get_default ((k', v) # d) k dflt = (if k' = k then v else dict_get_default d k dflt)"
  by (simp_all add: dict_get_default_def)

lemma dict_set_keys [simp]: "map fst (dict_set k v d) =
    (if k \<in> set (map fst d) then map fst d else map fst d @ [k])"
  by (induction d) auto

lemma dict_set_distinct [intro, simp]: "distinct (map fst d) \<Longrightarrow> distinct (map fst (dict_set k v d))"
  by (simp add: distinct_update)

text \<open>
  Filling a dictionary in a loop (\<open>for k, v in ...: d[k] = f(v)\<close>): a key maps to
  the value of its last assignment, and the keys are listed in the order of
  their first assignment.
\<close>

definition dedup_first :: "'a list \<Rightarrow> 'a list \<Rightarrow> 'a list" where
  "dedup_first xs acc = fold (\<lambda>x acc. if x \<in> set acc then acc else acc @ [x]) xs acc"

lemma dedup_first_simps [simp]:
  "dedup_first [] acc = acc"
  "dedup_first (x # xs) acc = dedup_first xs (if x \<in> set acc then acc else acc @ [x])"
  by (simp_all add: dedup_first_def)

lemma set_dedup_first [simp]: "set (dedup_first xs acc) = set acc \<union> set xs"
  by (induction xs arbitrary: acc) auto

lemma distinct_dedup_first [simp]: "distinct acc \<Longrightarrow> distinct (dedup_first xs acc)"
  by (induction xs arbitrary: acc) auto

lemma dedup_first_distinct: "distinct (acc @ xs) \<Longrightarrow> dedup_first xs acc = acc @ xs"
  by (induction xs arbitrary: acc) auto

lemma map_of_fold_dict_set:
  "map_of (fold (\<lambda>(k, v) d. dict_set (g k) (f v) d) kvs d0) =
     map_of d0 ++ map_of (rev (map (\<lambda>(k, v). (g k, f v)) kvs))"
  by (induction kvs arbitrary: d0) (auto simp: update_conv' map_add_def fun_eq_iff split: option.splits)

lemma map_of_graph [simp]: "map_of (map (\<lambda>k. (k, g k)) ks) k = (if k \<in> set ks then Some (g k) else None)"
  by (induction ks) auto

lemma zip_map_self: "zip ks (map h ks) = map (\<lambda>k. (k, h k)) ks"
  by (induction ks) auto

lemma keys_fold_dict_set:
  "map fst (fold (\<lambda>(k, v) d. dict_set (g k) (f v) d) kvs d0) = dedup_first (map (\<lambda>(k, v). g k) kvs) (map fst d0)"
  by (induction kvs arbitrary: d0) (auto simp: rev_image_eqI)

text \<open>
  \<open>del d[k]\<close> is \<open>AList.delete\<close>; an \<open>OrderedDict\<close> that moves a key to the end
  (\<open>move_to_end\<close>, or delete and re-insert) is a delete followed by an append.
\<close>

lemma map_fst_delete: "map fst (AList.delete k xs) = removeAll k (map fst xs)"
  by (induction xs) auto

lemma set_delete_sub: "set (AList.delete k xs) \<subseteq> set xs"
  by (induction xs) auto

lemma map_of_delete_snoc [simp]: "map_of (AList.delete k xs @ [(k, e)]) k = Some e"
  by (simp add: map_of_append map_add_def delete_conv)

lemma keys_delete_snoc [simp]: "map fst (AList.delete k xs @ [(k, e)]) = removeAll k (map fst xs) @ [k]"
  by (simp add: map_fst_delete)

lemma map_of_drop_snoc:
  assumes "k \<notin> set (map fst xs)"
  shows "map_of (drop j (xs @ [(k, e)])) k = (if j \<le> length xs then Some e else None)"
proof -
  have "map_of (drop j xs) k = None"
    using assms by (auto simp: map_of_eq_None_iff dest: in_set_dropD)
  then show ?thesis by (simp add: map_of_append map_add_def)
qed

lemma length_removeAll_mem:
  "distinct xs \<Longrightarrow> k \<in> set xs \<Longrightarrow> length (removeAll k xs) = length xs - 1"
  by (simp add: distinct_remove1_removeAll [symmetric] length_remove1)

text \<open>\<open>List.map_filter\<close> (a comprehension \<open>[f(x) for x in xs if ...]\<close>) and \<open>find\<close>.\<close>

lemma set_map_filter_iff: "x \<in> set (List.map_filter f xs) \<longleftrightarrow> (\<exists>a\<in>set xs. f a = Some x)"
  by (induction xs) (auto simp: map_filter_simps split: option.splits)

lemma map_filter_concat: "List.map_filter f (concat xss) = concat (map (List.map_filter f) xss)"
  by (induction xss) (simp_all add: map_filter_def)

lemma map_filter_map_comp: "List.map_filter f (map g xs) = List.map_filter (f \<circ> g) xs"
  by (induction xs) (simp_all add: map_filter_def)

lemma map_filter_zip_map: "List.map_filter f (zip xs (map g xs)) = List.map_filter (\<lambda>x. f (x, g x)) xs"
  by (induction xs) (simp_all add: map_filter_def)

lemma distinct_map_filter_key:
  "distinct xs \<Longrightarrow> (\<And>x y. f x = Some y \<Longrightarrow> key y = x) \<Longrightarrow> distinct (List.map_filter f xs)"
proof (induction xs)
  case (Cons a xs)
  then have d: "distinct (List.map_filter f xs)" by simp
  show ?case
  proof (cases "f a")
    case (Some y)
    have "y \<notin> set (List.map_filter f xs)"
    proof
      assume "y \<in> set (List.map_filter f xs)"
      then obtain x where "x \<in> set xs" "f x = Some y" by (auto simp: set_map_filter_iff)
      with Cons.prems Some show False by (metis distinct.simps(2))
    qed
    with d Some show ?thesis by (simp add: map_filter_def)
  qed (use d in \<open>simp add: map_filter_def\<close>)
qed simp

lemma find_key:
  assumes "distinct (map k xs)" "x \<in> set xs"
  shows "find (\<lambda>y. k y = k x) xs = Some x"
  using assms by (induction xs) (auto simp: image_iff)

section \<open>Strings\<close>

subsection \<open>Substring test: \<open>p in s\<close>\<close>

fun py_in :: "string \<Rightarrow> string \<Rightarrow> bool" where
  "py_in p [] = (p = [])"
| "py_in p (c # s) = (take (length p) (c # s) = p \<or> py_in p s)"

lemma take_eq_prefix: "take (length p) s = p \<longleftrightarrow> (\<exists>b. s = p @ b)"
  by (metis append_eq_conv_conj)

lemma py_in_iff: "py_in p s \<longleftrightarrow> (\<exists>a b. s = a @ p @ b)"
proof (induction s)
  case Nil
  then show ?case by simp
next
  case (Cons c s)
  have "(\<exists>a b. c # s = a @ p @ b) \<longleftrightarrow> (\<exists>b. c # s = p @ b) \<or> (\<exists>a b. s = a @ p @ b)"
    by (auto simp: Cons_eq_append_conv)
  with Cons show ?case by (simp add: take_eq_prefix)
qed

lemma py_in_append [simp]: "py_in p (a @ p @ b)"
  by (auto simp: py_in_iff)

subsection \<open>\<open>str.lower()\<close> on ASCII letters\<close>

definition lower_char :: "char \<Rightarrow> char" where
  "lower_char c = (let n = (of_char c :: nat) in if 65 \<le> n \<and> n \<le> 90 then char_of (n + 32) else c)"

definition py_lower :: "string \<Rightarrow> string" where
  "py_lower s = map lower_char s"

subsection \<open>\<open>str.strip(c)\<close> for a single character\<close>

definition py_strip :: "char \<Rightarrow> string \<Rightarrow> string" where
  "py_strip c s = rev (dropWhile (\<lambda>x. x = c) (rev (dropWhile (\<lambda>x. x = c) s)))"

subsection \<open>\<open>str.split(sep)\<close> and \<open>sep.join(parts)\<close>\<close>

text \<open>
  Python scans left to right and cuts at every non-overlapping occurrence of
  the separator; \<open>cur\<close> is the part read so far. An empty separator raises
  ValueError in Python; every call site of the package passes a non-empty
  literal, and the model then returns the string unsplit.
\<close>

function split_from :: "string \<Rightarrow> string \<Rightarrow> string \<Rightarrow> string list" where
  "split_from sep cur s =
     (if s = [] then [cur]
      else if sep \<noteq> [] \<and> take (length sep) s = sep
        then cur # split_from sep [] (drop (length sep) s)
      else split_from sep (cur @ [hd s]) (tl s))"
  by pat_completeness auto
termination
  by (relation "measure (\<lambda>(sep, cur, s). length s)") auto

declare split_from.simps [simp del]

definition py_split :: "string \<Rightarrow> string \<Rightarrow> string list" where
  "py_split s sep = split_from sep [] s"

fun py_join :: "string \<Rightarrow> string list \<Rightarrow> string" where
  "py_join sep [] = []"
| "py_join sep [p] = p"
| "py_join sep (p # q # ps) = p @ sep @ py_join sep (q # ps)"

lemma py_join_Cons_hd [simp]: "py_join sep ((a @ b) # ps) = a @ py_join sep (b # ps)"
  by (cases ps) auto

lemma split_from_Nil [simp]: "split_from sep cur [] = [cur]"
  by (simp add: split_from.simps)

lemma split_from_nonempty [simp]: "split_from sep cur s \<noteq> []"
proof (induction sep cur s rule: split_from.induct)
  case (1 sep cur s)
  then show ?case by (subst split_from.simps) auto
qed

lemma py_join_split_from: "py_join sep (split_from sep cur s) = cur @ s"
proof (induction sep cur s rule: split_from.induct)
  case (1 sep cur s)
  show ?case
  proof (cases "s = []")
    case True
    then show ?thesis by simp
  next
    case s: False
    show ?thesis
    proof (cases "sep \<noteq> [] \<and> take (length sep) s = sep")
      case True
      then obtain b where b: "s = sep @ b" by (metis append_take_drop_id)
      from True s have "split_from sep cur s = cur # split_from sep [] (drop (length sep) s)"
        by (simp add: split_from.simps [of sep cur s])
      moreover obtain p ps where "split_from sep [] (drop (length sep) s) = p # ps"
        by (meson list.exhaust split_from_nonempty)
      ultimately show ?thesis using "1.IH"(1) s True b by simp
    next
      case False
      from s False have "split_from sep cur s = split_from sep (cur @ [hd s]) (tl s)"
        by (auto simp: split_from.simps [of sep cur s])
      with "1.IH"(2) s False show ?thesis by simp
    qed
  qed
qed

theorem py_join_split: "py_join sep (py_split s sep) = s"
  by (simp add: py_split_def py_join_split_from)


lemma split_from_step:
  "\<not> (sep \<noteq> [] \<and> take (length sep) (x # s) = sep) \<Longrightarrow>
   split_from sep cur (x # s) = split_from sep (cur @ [x]) s"
  by (subst split_from.simps) auto

lemma split_from_cut:
  "sep \<noteq> [] \<Longrightarrow> split_from sep cur (sep @ b) = cur # split_from sep [] b"
  by (subst split_from.simps) auto

lemma split_from_single_none: "c \<notin> set s \<Longrightarrow> split_from [c] cur s = [cur @ s]"
proof (induction s arbitrary: cur)
  case (Cons x s)
  then have "split_from [c] cur (x # s) = split_from [c] (cur @ [x]) s"
    by (intro split_from_step) auto
  with Cons show ?case by simp
qed simp

lemma split_from_single_first:
  "c \<notin> set a \<Longrightarrow> split_from [c] cur (a @ c # b) = (cur @ a) # split_from [c] [] b"
proof (induction a arbitrary: cur)
  case Nil
  then show ?case using split_from_cut [of "[c]" cur b] by simp
next
  case (Cons x a)
  then have "split_from [c] cur (x # (a @ c # b)) = split_from [c] (cur @ [x]) (a @ c # b)"
    by (intro split_from_step) auto
  with Cons show ?case by simp
qed

lemma split_from_join_single:
  "ps \<noteq> [] \<Longrightarrow> \<forall>p\<in>set ps. c \<notin> set p \<Longrightarrow>
   split_from [c] cur (py_join [c] ps) = (cur @ hd ps) # tl ps"
proof (induction ps arbitrary: cur)
  case (Cons p ps)
  note ih = Cons.IH and pr = Cons.prems
  show ?case
  proof (cases ps)
    case Nil
    with pr show ?thesis by (simp add: split_from_single_none)
  next
    case (Cons q qs)
    with pr ih [of "[]"] show ?thesis by (simp add: split_from_single_first)
  qed
qed simp

text \<open>Splitting a join on a separator character that no part contains gives the parts back.\<close>

theorem py_split_join_single:
  "ps \<noteq> [] \<Longrightarrow> \<forall>p\<in>set ps. c \<notin> set p \<Longrightarrow> py_split (py_join [c] ps) [c] = ps"
  using split_from_join_single [of ps c "[]"] by (simp add: py_split_def)

lemma hd_split_from_prefix: "\<exists>t. hd (split_from sep cur s) = cur @ t"
proof (induction sep cur s rule: split_from.induct)
  case (1 sep cur s)
  show ?case
  proof (cases "s = []")
    case False
    show ?thesis
    proof (cases "sep \<noteq> [] \<and> take (length sep) s = sep")
      case True
      with False show ?thesis by (simp add: split_from.simps [of sep cur s])
    next
      case nm: False
      with False "1.IH"(2) obtain t where "hd (split_from sep (cur @ [hd s]) (tl s)) = (cur @ [hd s]) @ t"
        by blast
      with False nm show ?thesis by (subst split_from.simps) auto
    qed
  qed simp
qed

lemma take_prefix_in:
  assumes "take (length sep) (xs @ ys) = sep" "length sep \<le> length xs"
  shows "py_in sep xs"
proof -
  from assms have "take (length sep) xs = sep" by simp
  then have "xs = sep @ drop (length sep) xs" by (metis append_take_drop_id)
  then show ?thesis by (metis py_in_append append_Nil)
qed

lemma take_long_mem:
  "\<not> length sep \<le> length xs \<Longrightarrow> c \<in> set (take (length sep) (xs @ c # rest))"
proof -
  assume "\<not> length sep \<le> length xs"
  then have lt: "length xs < length sep" by simp
  have "take (length sep) (xs @ c # rest) ! length xs = c"
    using lt by (simp add: nth_append)
  moreover have "length xs < length (take (length sep) (xs @ c # rest))"
    using lt by simp
  ultimately show ?thesis by (metis nth_mem)
qed

text \<open>
  The first cut of a split: no occurrence of the separator starts inside
  \<open>a\<close> (such an occurrence would lie inside \<open>a @ butlast sep\<close>).
\<close>

lemma split_from_first:
  assumes "sep \<noteq> []" "\<not> py_in sep (a @ butlast sep)"
  shows "split_from sep cur (a @ sep @ b) = (cur @ a) # split_from sep [] b"
  using assms(2)
proof (induction a arbitrary: cur)
  case Nil
  then show ?case using split_from_cut [OF assms(1)] by simp
next
  case (Cons x a)
  have nin: "\<not> py_in sep (a @ butlast sep)"
    using Cons.prems by (auto simp: py_in_iff) (metis append_Cons append_assoc)
  have "\<not> take (length sep) (x # (a @ sep @ b)) = sep"
  proof
    assume t: "take (length sep) (x # (a @ sep @ b)) = sep"
    have eq: "x # a @ sep @ b = (x # a @ butlast sep) @ (last sep # b)"
      using assms(1) by (metis append_butlast_last_id append_Cons append_assoc append_Nil)
    have "length sep \<le> length (x # a @ butlast sep)" using assms(1) by (cases sep) auto
    with t eq have "py_in sep (x # a @ butlast sep)"
      by (intro take_prefix_in [of sep _ "last sep # b"]) simp_all
    with Cons.prems show False by simp
  qed
  then have "split_from sep cur (x # (a @ sep @ b)) = split_from sep (cur @ [x]) (a @ sep @ b)"
    by (intro split_from_step) auto
  with Cons.IH [OF nin] show ?case by simp
qed

lemma hd_split_from_stop:
  assumes "sep \<noteq> []" "c \<notin> set sep" "\<not> py_in sep n"
  shows "\<exists>t. hd (split_from sep cur (n @ c # rest)) = cur @ n @ c # t"
  using assms(3)
proof (induction n arbitrary: cur)
  case Nil
  have "\<not> take (length sep) (c # rest) = sep"
    using assms(1,2) by (cases sep) auto
  then have "split_from sep cur (c # rest) = split_from sep (cur @ [c]) rest"
    by (intro split_from_step) auto
  moreover obtain t where "hd (split_from sep (cur @ [c]) rest) = (cur @ [c]) @ t"
    using hd_split_from_prefix by blast
  ultimately show ?case by auto
next
  case (Cons x n)
  have nin: "\<not> py_in sep n" using Cons.prems by (auto simp: py_in_iff) (metis append_Cons)
  have "\<not> take (length sep) ((x # n) @ c # rest) = sep"
  proof
    assume t: "take (length sep) ((x # n) @ c # rest) = sep"
    have "length sep \<le> length (x # n)"
    proof (rule ccontr)
      assume "\<not> length sep \<le> length (x # n)"
      then have "c \<in> set (take (length sep) ((x # n) @ c # rest))" by (rule take_long_mem)
      with t assms(2) show False by simp
    qed
    with t have "py_in sep (x # n)" by (intro take_prefix_in [of sep _ "c # rest"]) simp_all
    with Cons.prems show False by simp
  qed
  then have "split_from sep cur (x # (n @ c # rest)) = split_from sep (cur @ [x]) (n @ c # rest)"
    by (intro split_from_step) auto
  with Cons.IH [OF nin, of "cur @ [x]"] show ?case by auto
qed

lemma py_join_hd: "ps \<noteq> [] \<Longrightarrow> \<exists>t. py_join sep ps = hd ps @ t"
  by (induction sep ps rule: py_join.induct) auto

lemma py_join_last: "ps \<noteq> [] \<Longrightarrow> \<exists>t. py_join sep ps = t @ last ps"
  by (induction sep ps rule: py_join.induct) auto

lemma py_strip_framed:
  assumes "s \<noteq> []" "hd s \<noteq> c" "last s \<noteq> c"
  shows "py_strip c (replicate k c @ s) = s"
proof -
  have "dropWhile (\<lambda>x. x = c) (replicate k c @ s) = s"
    using assms(1,2) by (subst dropWhile_append2) (auto simp: neq_Nil_conv)
  moreover obtain b y where "s = b @ [y]" using assms(1) by (cases s rule: rev_cases) auto
  then have "dropWhile (\<lambda>x. x = c) (rev s) = rev s" using assms(3) by simp
  ultimately show ?thesis by (simp add: py_strip_def)
qed

lemma py_strip_join:
  assumes "ps \<noteq> []" "hd ps \<noteq> []" "last ps \<noteq> []"
    "hd (hd ps) \<noteq> c" "last (last ps) \<noteq> c"
  shows "py_strip c (replicate k c @ py_join sep ps) = py_join sep ps"
proof -
  obtain t u where t: "py_join sep ps = hd ps @ t" and u: "py_join sep ps = u @ last ps"
    using py_join_hd [OF assms(1)] py_join_last [OF assms(1)] by blast
  have "py_join sep ps \<noteq> []" "hd (py_join sep ps) = hd (hd ps)"
    using t assms(2) by auto
  moreover have "last (py_join sep ps) = last (last ps)"
    using u assms(3) by simp
  ultimately show ?thesis using assms(4,5) by (intro py_strip_framed) auto
qed
subsection \<open>\<open>str(int)\<close> and \<open>int(str)\<close>\<close>

abbreviation bslash :: char where
  "bslash \<equiv> CHR 0x5C"

definition is_digit :: "char \<Rightarrow> bool" where
  "is_digit c = (let n = (of_char c :: nat) in 48 \<le> n \<and> n \<le> 57)"

definition digit_val :: "char \<Rightarrow> nat" where
  "digit_val c = of_char c - 48"

fun string_of_nat :: "nat \<Rightarrow> string" where
  "string_of_nat n =
     (if n < 10 then [char_of (48 + n)] else string_of_nat (n div 10) @ [char_of (48 + n mod 10)])"

declare string_of_nat.simps [simp del]

definition py_str_int :: "int \<Rightarrow> string" where
  "py_str_int i = (if i < 0 then CHR ''-'' # string_of_nat (nat (- i)) else string_of_nat (nat i))"

definition nat_of_digits :: "string \<Rightarrow> nat" where
  "nat_of_digits ds = foldl (\<lambda>acc c. 10 * acc + digit_val c) 0 ds"

text \<open>
  \<open>int(s)\<close> in base 10: surrounding white space (the characters \<open>str.isspace\<close>
  accepts among the 256 of \<open>char\<close>) is ignored, one optional sign, then
  decimal digits in groups separated by single underscores (PEP 515: an
  underscore only between two digits); anything else raises \<open>ValueError\<close>
  (here \<open>None\<close>). Within \<open>char\<close> no character other than \<open>0\<close>..\<open>9\<close> is a
  Unicode decimal digit, so the reader is exact on these strings.
\<close>

definition is_space :: "char \<Rightarrow> bool" where
  "is_space c \<longleftrightarrow> c \<in> {CHR '' '', CHR 0x09, CHR 0x0A, CHR 0x0B, CHR 0x0C, CHR 0x0D,
                      CHR 0x1C, CHR 0x1D, CHR 0x1E, CHR 0x1F, CHR 0x85, CHR 0xA0}"

definition strip_ws :: "string \<Rightarrow> string" where
  "strip_ws s = rev (dropWhile is_space (rev (dropWhile is_space s)))"

fun digit_groups :: "string \<Rightarrow> bool" where
  "digit_groups [] = False"
| "digit_groups [c] = is_digit c"
| "digit_groups (c # d # r) = (is_digit c \<and> (if d = CHR ''_'' then digit_groups r else digit_groups (d # r)))"

definition digits_value :: "string \<Rightarrow> nat" where
  "digits_value ds = nat_of_digits (removeAll (CHR ''_'') ds)"

definition signed_digits :: "string \<Rightarrow> int option" where
  "signed_digits t =
     (case t of
        c # ds \<Rightarrow>
          if c = CHR ''-'' then (if digit_groups ds then Some (- int (digits_value ds)) else None)
          else if c = CHR ''+'' then (if digit_groups ds then Some (int (digits_value ds)) else None)
          else if digit_groups t then Some (int (digits_value t)) else None
      | [] \<Rightarrow> None)"

definition py_int_of_str :: "string \<Rightarrow> int option" where
  "py_int_of_str s = signed_digits (strip_ws s)"

lemma string_of_nat_digits: "list_all is_digit (string_of_nat n) \<and> string_of_nat n \<noteq> []"
proof (induction n rule: string_of_nat.induct)
  case (1 n)
  have d: "is_digit (char_of (48 + k)) \<and> digit_val (char_of (48 + k)) = k" if "k < 10" for k :: nat
    using that by (auto simp: is_digit_def digit_val_def)
  show ?case using 1 d [of n] d [of "n mod 10"]
    by (simp add: string_of_nat.simps [of n])
qed

lemma nat_of_digits_string_of_nat: "nat_of_digits (string_of_nat n) = n"
proof (induction n rule: string_of_nat.induct)
  case (1 n)
  have d: "digit_val (char_of (48 + k)) = k" if "k < 10" for k :: nat
    using that by (simp add: digit_val_def)
  show ?case
  proof (cases "n < 10")
    case True
    then show ?thesis by (simp add: string_of_nat.simps [of n] nat_of_digits_def d)
  next
    case False
    with "1.IH" have "nat_of_digits (string_of_nat (n div 10)) = n div 10" by simp
    with False show ?thesis
      by (simp add: string_of_nat.simps [of n] nat_of_digits_def d)
  qed
qed

lemma length_string_of_nat_le: "n < 10 ^ k \<Longrightarrow> 0 < k \<Longrightarrow> length (string_of_nat n) \<le> k"
proof (induction n arbitrary: k rule: string_of_nat.induct)
  case (1 n)
  show ?case
  proof (cases "n < 10")
    case True
    with "1.prems" show ?thesis by (simp add: string_of_nat.simps [of n])
  next
    case False
    have "k \<noteq> 1" using "1.prems"(1) False by auto
    moreover obtain k' where k: "k = Suc k'" using "1.prems"(2) by (cases k) auto
    ultimately have k': "0 < k'" by simp
    have "n div 10 < 10 ^ k'" using "1.prems"(1) k by (simp add: less_mult_imp_div_less mult.commute)
    with "1.IH" False k' have "length (string_of_nat (n div 10)) \<le> k'" by simp
    with False k show ?thesis by (simp add: string_of_nat.simps [of n])
  qed
qed

lemma nat_of_digits_zeros: "nat_of_digits (replicate k CHR ''0'' @ ds) = nat_of_digits ds"
proof -
  have "foldl (\<lambda>acc c. 10 * acc + digit_val c) 0 (replicate k CHR ''0'') = 0"
    by (induction k) (simp_all add: digit_val_def)
  then show ?thesis by (simp add: nat_of_digits_def)
qed

lemma digits_zeros: "list_all is_digit (replicate k CHR ''0'')"
  by (induction k) (simp_all add: is_digit_def)

lemma digit_not_space: "is_digit c \<Longrightarrow> \<not> is_space c"
  by (auto simp: is_digit_def is_space_def)

lemma strip_ws_id:
  assumes "s \<noteq> []" "\<not> is_space (hd s)" "\<not> is_space (last s)"
  shows "strip_ws s = s"
proof -
  have "dropWhile is_space s = s" using assms by (cases s) auto
  moreover have "dropWhile is_space (rev s) = rev s" using assms by (cases "rev s") (auto simp: hd_rev)
  ultimately show ?thesis by (simp add: strip_ws_def)
qed

lemma digit_groups_digits: "list_all is_digit ds \<Longrightarrow> ds \<noteq> [] \<Longrightarrow> digit_groups ds"
proof (induction ds rule: digit_groups.induct)
  case (3 c d r)
  then have "d \<noteq> CHR ''_''" by (auto simp: is_digit_def)
  with 3 show ?case by simp
qed simp_all

lemma digits_value_digits: "list_all is_digit ds \<Longrightarrow> digits_value ds = nat_of_digits ds"
proof -
  assume "list_all is_digit ds"
  then have "CHR ''_'' \<notin> set ds" by (auto simp: list_all_iff is_digit_def)
  then show ?thesis by (simp add: digits_value_def)
qed

theorem py_int_of_str_py_str_int [simp]: "py_int_of_str (py_str_int i) = Some i"
proof -
  let ?ds = "string_of_nat (nat \<bar>i\<bar>)"
  have ds: "list_all is_digit ?ds" "?ds \<noteq> []" using string_of_nat_digits by blast+
  then have hl: "\<not> is_space (hd ?ds)" "\<not> is_space (last ?ds)"
    by (auto simp: list_all_iff digit_not_space)
  have g: "digit_groups ?ds" "digits_value ?ds = nat \<bar>i\<bar>"
    using ds by (simp_all add: digit_groups_digits digits_value_digits nat_of_digits_string_of_nat)
  have minus: "\<not> is_space (CHR ''-'')" "\<not> is_digit (CHR ''-'')" "\<not> is_digit (CHR ''+'')"
    by (simp_all add: is_space_def is_digit_def)
  show ?thesis
  proof (cases "i < 0")
    case True
    then have "py_str_int i = CHR ''-'' # ?ds" by (simp add: py_str_int_def)
    moreover have "strip_ws (CHR ''-'' # ?ds) = CHR ''-'' # ?ds"
      using ds hl minus by (intro strip_ws_id) auto
    ultimately show ?thesis using True g by (simp add: py_int_of_str_def signed_digits_def)
  next
    case False
    then have eq: "py_str_int i = ?ds" by (simp add: py_str_int_def)
    obtain c cs where c: "?ds = c # cs" using ds(2) by (cases ?ds) auto
    have "strip_ws ?ds = ?ds" using ds hl by (intro strip_ws_id) auto
    moreover have "c \<noteq> CHR ''-''" "c \<noteq> CHR ''+''" using ds(1) c minus by auto
    ultimately show ?thesis using False g eq c by (simp add: py_int_of_str_def signed_digits_def)
  qed
qed

text \<open>Digit groups are read as Python reads them: \<open>int("1_000") == 1000\<close>, \<open>int(" -7") == -7\<close>, and a doubled or trailing underscore raises.\<close>

lemma py_int_of_str_examples:
  "py_int_of_str ''1_000'' = Some 1000" "py_int_of_str '' -7'' = Some (- 7)"
  "py_int_of_str ''1__0'' = None" "py_int_of_str ''1_'' = None" "py_int_of_str ''_1'' = None"
  by (simp_all add: py_int_of_str_def signed_digits_def strip_ws_def is_space_def digits_value_def
      nat_of_digits_def is_digit_def digit_val_def)

subsection \<open>\<open>float()\<close>, \<open>int()\<close> and \<open>str()\<close> of a value\<close>

text \<open>
  \<open>float(str)\<close>: optional sign, a mantissa of digit groups with at most one
  point and at least one digit, an optional exponent (\<open>e\<close> or \<open>E\<close>, a sign,
  digit groups), surrounding white space allowed. The texts of the non-finite
  floats (\<open>inf\<close>, \<open>nan\<close>) have no value among the reals and read as \<open>None\<close>.
\<close>

definition pow10 :: "int \<Rightarrow> real" where
  "pow10 k = (if 0 \<le> k then 10 ^ nat k else 1 / 10 ^ nat (- k))"

definition py_float_of_str :: "string \<Rightarrow> real option" where
  "py_float_of_str s =
     (let t = strip_ws s;
          (sg, body) = (case t of
                          c # r \<Rightarrow> if c = CHR ''-'' then (- 1 :: real, r)
                                 else if c = CHR ''+'' then (1, r) else (1, t)
                        | [] \<Rightarrow> (1, []));
          is_e = (\<lambda>c. c = CHR ''e'' \<or> c = CHR ''E'');
          mant = takeWhile (\<lambda>c. \<not> is_e c) body;
          ex = (if mant = body then Some 0 else signed_digits (drop 1 (dropWhile (\<lambda>c. \<not> is_e c) body)));
          ip = takeWhile (\<lambda>c. c \<noteq> CHR ''.'') mant;
          fp = drop 1 (dropWhile (\<lambda>c. c \<noteq> CHR ''.'') mant)
      in if (ip = [] \<or> digit_groups ip) \<and> (fp = [] \<or> digit_groups fp) \<and> ip @ fp \<noteq> []
         then (case ex of
                 Some e \<Rightarrow> Some (sg * real (digits_value (ip @ fp)) * pow10 (e - int (length fp)))
               | None \<Rightarrow> None)
         else None)"

fun py_float_value :: "py_value \<Rightarrow> real py_result" where
  "py_float_value (PyFloat r) = Inr r"
| "py_float_value (PyInt i) = Inr (of_int i)"
| "py_float_value (PyBool b) = Inr (if b then 1 else 0)"
| "py_float_value (PyStr s) = (case py_float_of_str s of Some r \<Rightarrow> Inr r | None \<Rightarrow> Inl ValueError)"
| "py_float_value PyNone = Inl TypeError"

text \<open>\<open>int(x)\<close> truncates a float toward zero.\<close>

fun py_int_value :: "py_value \<Rightarrow> int py_result" where
  "py_int_value (PyInt i) = Inr i"
| "py_int_value (PyFloat r) = Inr (if 0 \<le> r then \<lfloor>r\<rfloor> else \<lceil>r\<rceil>)"
| "py_int_value (PyBool b) = Inr (if b then 1 else 0)"
| "py_int_value (PyStr s) = (case py_int_of_str s of Some i \<Rightarrow> Inr i | None \<Rightarrow> Inl ValueError)"
| "py_int_value PyNone = Inl TypeError"

text \<open>\<open>str(x)\<close>; the shortest round-trip text of a float is the parameter \<open>repr\<close>.\<close>

fun py_str_value :: "(real \<Rightarrow> string) \<Rightarrow> py_value \<Rightarrow> string" where
  "py_str_value repr (PyStr s) = s"
| "py_str_value repr (PyInt i) = py_str_int i"
| "py_str_value repr (PyFloat r) = repr r"
| "py_str_value repr (PyBool b) = (if b then ''True'' else ''False'')"
| "py_str_value repr PyNone = ''None''"

end
