(* ===== verification/Types.thy ===== *)
theory Types
  imports Prelude
begin

text \<open>
  The value and configuration records of \<open>pipolars.core.types\<close>, which the
  extractor builds and the converters consume: a time-series sample
  (\<open>PIValue\<close>) with its quality, the point types, the summary-type flags, the
  boundary types, and the time arguments (\<open>datetime\<close>, \<open>AFTime\<close>, strings).
  The module itself is not in the source tree; these definitions follow the
  specification and the unit tests in \<open>tests/unit/test_types.py\<close>.
\<close>

type_synonym instant = int

section \<open>Samples\<close>

datatype data_quality = GOOD | BAD | SUBSTITUTED

record pi_value =
  pv_timestamp :: instant
  pv_value :: py_value
  pv_quality :: data_quality

definition is_good :: "pi_value \<Rightarrow> bool" where
  "is_good v \<longleftrightarrow> pv_quality v = GOOD"

text \<open>The constructor with its default quality (\<open>PIValue(timestamp=t, value=v)\<close>).\<close>

definition mk_pi_value :: "instant \<Rightarrow> py_value \<Rightarrow> pi_value" where
  "mk_pi_value t v = \<lparr>pv_timestamp = t, pv_value = v, pv_quality = GOOD\<rparr>"

section \<open>Point configuration\<close>

datatype point_type = FLOAT16 | FLOAT32 | FLOAT64 | INT16 | INT32 | DIGITAL | TIMESTAMP | STRING | BLOB

record point_config =
  pc_name :: string
  pc_point_id :: int
  pc_point_type :: point_type
  pc_description :: string
  pc_engineering_units :: string
  pc_zero :: real
  pc_span :: real
  pc_display_digits :: int
  pc_typical_value :: "real option"
  pc_value_high_alarm :: "real option"
  pc_value_low_alarm :: "real option"
  pc_value_high_warning :: "real option"
  pc_value_low_warning :: "real option"
  pc_roc_high_value :: "real option"
  pc_roc_low_value :: "real option"
  pc_interface_id :: "int option"
  pc_interface_name :: string
  pc_scan_time :: string
  pc_source_point_id :: "int option"
  pc_source_point_name :: string
  pc_conversion_factor :: "real option"
  pc_device_name :: string
  pc_alias :: string

text \<open>
  \<open>PointConfig(name, point_id, point_type, description, engineering_units,
  zero, span, display_digits, typical_value)\<close>: the keyword arguments the
  extractor passes; every other field takes its dataclass default (\<open>None\<close> or
  the empty string).
\<close>

definition mk_point_config ::
  "string \<Rightarrow> int \<Rightarrow> point_type \<Rightarrow> string \<Rightarrow> string \<Rightarrow> real \<Rightarrow> real \<Rightarrow> int \<Rightarrow> real option \<Rightarrow> point_config" where
  "mk_point_config n pid pt descr units z sp dd tv =
     \<lparr>pc_name = n, pc_point_id = pid, pc_point_type = pt, pc_description = descr,
      pc_engineering_units = units, pc_zero = z, pc_span = sp, pc_display_digits = dd,
      pc_typical_value = tv,
      pc_value_high_alarm = None, pc_value_low_alarm = None,
      pc_value_high_warning = None, pc_value_low_warning = None,
      pc_roc_high_value = None, pc_roc_low_value = None,
      pc_interface_id = None, pc_interface_name = [], pc_scan_time = [],
      pc_source_point_id = None, pc_source_point_name = [],
      pc_conversion_factor = None, pc_device_name = [], pc_alias = []\<rparr>"

section \<open>Summary types\<close>

text \<open>\<open>SummaryType\<close>: an integer flag enumeration, mirrored bit for bit by the SDK's \<open>AFSummaryTypes\<close>.\<close>

datatype summary_type =
  TOTAL | AVERAGE | MINIMUM | MAXIMUM | RANGE | STD_DEV | POPULATION_STD_DEV | COUNT | PERCENT_GOOD

fun st_bit :: "summary_type \<Rightarrow> nat" where
  "st_bit TOTAL = 0"
| "st_bit AVERAGE = 1"
| "st_bit MINIMUM = 2"
| "st_bit MAXIMUM = 3"
| "st_bit RANGE = 4"
| "st_bit STD_DEV = 5"
| "st_bit POPULATION_STD_DEV = 6"
| "st_bit COUNT = 7"
| "st_bit PERCENT_GOOD = 13"

definition st_value :: "summary_type \<Rightarrow> 32 word" where
  "st_value st = 2 ^ st_bit st"

definition all_summary_types :: "summary_type list" where
  "all_summary_types = [TOTAL, AVERAGE, MINIMUM, MAXIMUM, RANGE, STD_DEV, POPULATION_STD_DEV, COUNT, PERCENT_GOOD]"

section \<open>Boundary types and analysis status\<close>

datatype boundary_type = INSIDE | OUTSIDE | INTERPOLATED

datatype analysis_status = RUNNING | STOPPED | ERROR | UNKNOWN

fun status_value :: "analysis_status \<Rightarrow> string" where
  "status_value RUNNING = ''Running''"
| "status_value STOPPED = ''Stopped''"
| "status_value ERROR = ''Error''"
| "status_value UNKNOWN = ''Unknown''"

section \<open>Time arguments\<close>

text \<open>A naive \<open>datetime\<close> and its \<open>isoformat()\<close>.\<close>

record datetime =
  dt_year :: nat
  dt_month :: nat
  dt_day :: nat
  dt_hour :: nat
  dt_minute :: nat
  dt_second :: nat
  dt_microsecond :: nat

definition zpad :: "nat \<Rightarrow> nat \<Rightarrow> string" where
  "zpad w n = replicate (w - length (string_of_nat n)) (CHR ''0'') @ string_of_nat n"

definition isoformat :: "datetime \<Rightarrow> string" where
  "isoformat d =
     zpad 4 (dt_year d) @ ''-'' @ zpad 2 (dt_month d) @ ''-'' @ zpad 2 (dt_day d) @ ''T'' @
     zpad 2 (dt_hour d) @ '':'' @ zpad 2 (dt_minute d) @ '':'' @ zpad 2 (dt_second d) @
     (if dt_microsecond d = 0 then [] else ''.'' @ zpad 6 (dt_microsecond d))"

text \<open>\<open>AFTime\<close>: an unevaluated PI time expression.\<close>

record af_time =
  expression :: string

definition af_time_now :: af_time where "af_time_now = \<lparr>expression = ''*''\<rparr>"
definition af_time_today :: af_time where "af_time_today = \<lparr>expression = ''t''\<rparr>"
definition af_time_yesterday :: af_time where "af_time_yesterday = \<lparr>expression = ''y''\<rparr>"

text \<open>\<open>PITimestamp\<close>: the union of the accepted time arguments.\<close>

datatype pi_timestamp = TsDatetime datetime | TsAFTime af_time | TsStr string

end
