(* ===== verification/Points.thy ===== *)
theory Points
  imports Types
begin

text \<open>
  The point extractor of \<open>src/pipolars/extraction/points.py\<close>
  (class \<open>PIPointExtractor\<close>). It turns a request (tag name, time arguments,
  options) into one call of the vendor SDK on the point's handle and converts
  each returned \<open>AFValue\<close> into a \<open>PIValue\<close> with \<open>_convert_value\<close>.
  The SDK is an interface here: a point handle is a record of the query
  functions the code calls, and the connection is a table of handles. Every
  operation returns \<open>py_error + _\<close>: an unknown tag raises
  \<open>PIPointNotFoundError\<close> before anything else happens, and a time expression the
  SDK rejects raises its \<open>FormatException\<close>.
\<close>

section \<open>The SDK interface\<close>

text \<open>
  The raw \<open>af_value.Value\<close> as the bridge presents it: a digital-state object
  (it has \<open>.Name\<close>), another .NET object (it has \<open>.ToString\<close>; \<open>float(value)\<close>
  either gives a number or raises, and \<open>ToString()\<close> gives its text), or a value
  the bridge already converted to a Python primitive (neither attribute).
\<close>

datatype net_value = NetState string | NetObj "real option" string | NetPrim py_value

record af_value =
  av_timestamp :: instant
  av_value :: net_value
  av_is_good :: bool
  av_substituted :: "bool option"

record af_time_range =
  tr_start :: string
  tr_end :: string

datatype af_boundary = AFInside | AFOutside | AFInterpolated

record pi_point =
  pt_attributes :: "(string, py_value) pydict"
  pt_current :: af_value
  pt_recorded :: "af_time_range \<Rightarrow> af_boundary \<Rightarrow> string option \<Rightarrow> bool \<Rightarrow> int \<Rightarrow> af_value list"
  pt_interpolated :: "af_time_range \<Rightarrow> string \<Rightarrow> string option \<Rightarrow> bool \<Rightarrow> af_value list"
  pt_plot :: "af_time_range \<Rightarrow> int \<Rightarrow> af_value list"
  pt_summary :: "af_time_range \<Rightarrow> 32 word \<Rightarrow> (int \<times> py_value) list"
  pt_summaries :: "af_time_range \<Rightarrow> string \<Rightarrow> 32 word \<Rightarrow> (instant \<times> (int \<times> py_value) list) list"
  pt_recorded_value :: "string \<Rightarrow> af_value"

record pi_connection =
  conn_points :: "(string, pi_point) pydict"

text \<open>
  The SDK's parsers accept or reject a time expression or a time span, and
  \<open>AFTime.LocalTime\<close> reads an instant on the wall clock of the machine's time
  zone. That reading is not monotone: when the clocks go back at the end of
  daylight saving time, an hour of wall-clock readings repeats.
\<close>

record sdk =
  sdk_time_ok :: "string \<Rightarrow> bool"
  sdk_span_ok :: "string \<Rightarrow> bool"
  sdk_local_time :: "instant \<Rightarrow> instant"

record extractor =
  ex_conn :: pi_connection
  ex_sdk :: sdk

definition get_point :: "extractor \<Rightarrow> string \<Rightarrow> pi_point py_result" where
  "get_point ex tag =
     (case map_of (conn_points (ex_conn ex)) tag of
        None \<Rightarrow> Inl (PIPointNotFoundError tag)
      | Some p \<Rightarrow> Inr p)"

section \<open>Options\<close>

record recorded_values_options =
  rvo_boundary_type :: boundary_type
  rvo_filter_expression :: "string option"
  rvo_include_filtered_values :: bool
  rvo_max_count :: int

definition default_recorded_values_options :: recorded_values_options where
  "default_recorded_values_options =
     \<lparr>rvo_boundary_type = INSIDE, rvo_filter_expression = None,
      rvo_include_filtered_values = False, rvo_max_count = 0\<rparr>"

record interpolated_values_options =
  ivo_interval :: string
  ivo_filter_expression :: "string option"
  ivo_include_filtered_values :: bool

definition default_interpolated_values_options :: interpolated_values_options where
  "default_interpolated_values_options =
     \<lparr>ivo_interval = ''1h'', ivo_filter_expression = None, ivo_include_filtered_values = False\<rparr>"

text \<open>\<open>PlotValuesOptions\<close>: declared beside the others; \<open>plot_values\<close> takes its \<open>intervals\<close> argument directly and never reads it.\<close>

record plot_values_options =
  pvo_intervals :: int
  pvo_include_min_max :: bool

definition default_plot_values_options :: plot_values_options where
  "default_plot_values_options = \<lparr>pvo_intervals = 640, pvo_include_min_max = True\<rparr>"

section \<open>Time arguments and value conversion\<close>

definition af_time_of :: "extractor \<Rightarrow> string \<Rightarrow> string py_result" where
  "af_time_of ex s = (if sdk_time_ok (ex_sdk ex) s then Inr s else Inl (SDKError ''FormatException''))"

fun parse_time :: "extractor \<Rightarrow> pi_timestamp \<Rightarrow> string py_result" where
  "parse_time ex (TsDatetime d) = af_time_of ex (isoformat d)"
| "parse_time ex (TsAFTime t) = af_time_of ex (expression t)"
| "parse_time ex (TsStr s) = af_time_of ex s"

definition create_time_range :: "extractor \<Rightarrow> pi_timestamp \<Rightarrow> pi_timestamp \<Rightarrow> af_time_range py_result" where
  "create_time_range ex start stop =
     rbind (parse_time ex start) (\<lambda>s.
     rbind (parse_time ex stop) (\<lambda>e.
     Inr \<lparr>tr_start = s, tr_end = e\<rparr>))"

fun convert_net_value :: "net_value \<Rightarrow> py_value" where
  "convert_net_value (NetState n) = PyStr n"
| "convert_net_value (NetObj (Some r) txt) = PyFloat r"
| "convert_net_value (NetObj None txt) = PyStr txt"
| "convert_net_value (NetPrim v) = v"

definition convert_quality :: "af_value \<Rightarrow> data_quality" where
  "convert_quality av =
     (if \<not> av_is_good av then BAD
      else if av_substituted av = Some True then SUBSTITUTED
      else GOOD)"

definition convert_value :: "extractor \<Rightarrow> af_value \<Rightarrow> pi_value" where
  "convert_value ex av =
     \<lparr>pv_timestamp = sdk_local_time (ex_sdk ex) (av_timestamp av),
      pv_value = convert_net_value (av_value av),
      pv_quality = convert_quality av\<rparr>"

section \<open>Queries\<close>

definition snapshot :: "extractor \<Rightarrow> string \<Rightarrow> pi_value py_result" where
  "snapshot ex tag = rbind (get_point ex tag) (\<lambda>p. Inr (convert_value ex (pt_current p)))"

fun get_points :: "extractor \<Rightarrow> string list \<Rightarrow> pi_point list py_result" where
  "get_points ex [] = Inr []"
| "get_points ex (t # ts) =
     rbind (get_point ex t) (\<lambda>p. rbind (get_points ex ts) (\<lambda>ps. Inr (p # ps)))"

text \<open>
  \<open>PIPointList.CurrentValue()\<close> answers one value per point of the list, in
  list order; the result dictionary is filled by \<open>enumerate(tag_names)\<close>.
\<close>

definition snapshot_dict :: "extractor \<Rightarrow> string list \<Rightarrow> af_value list \<Rightarrow> (string, pi_value) pydict" where
  "snapshot_dict ex tags avs = fold (\<lambda>(t, av) d. dict_set t (convert_value ex av) d) (zip tags avs) []"

definition snapshots :: "extractor \<Rightarrow> string list \<Rightarrow> (string, pi_value) pydict py_result" where
  "snapshots ex tags =
     rbind (get_points ex tags) (\<lambda>ps. Inr (snapshot_dict ex tags (map pt_current ps)))"

fun boundary_map :: "boundary_type \<Rightarrow> af_boundary" where
  "boundary_map INSIDE = AFInside"
| "boundary_map OUTSIDE = AFOutside"
| "boundary_map INTERPOLATED = AFInterpolated"

definition recorded_values ::
  "extractor \<Rightarrow> string \<Rightarrow> pi_timestamp \<Rightarrow> pi_timestamp \<Rightarrow> recorded_values_options option \<Rightarrow> pi_value list py_result" where
  "recorded_values ex tag start stop opts =
     (let options = (case opts of None \<Rightarrow> default_recorded_values_options | Some given \<Rightarrow> given) in
      rbind (get_point ex tag) (\<lambda>p.
      rbind (create_time_range ex start stop) (\<lambda>tr.
      Inr (map (convert_value ex)
        (pt_recorded p tr (boundary_map (rvo_boundary_type options))
           (rvo_filter_expression options) (rvo_include_filtered_values options)
           (rvo_max_count options))))))"

definition af_time_span :: "extractor \<Rightarrow> string \<Rightarrow> string py_result" where
  "af_time_span ex s = (if sdk_span_ok (ex_sdk ex) s then Inr s else Inl (SDKError ''FormatException''))"

definition interpolated_values ::
  "extractor \<Rightarrow> string \<Rightarrow> pi_timestamp \<Rightarrow> pi_timestamp \<Rightarrow> string \<Rightarrow> interpolated_values_options option
   \<Rightarrow> pi_value list py_result" where
  "interpolated_values ex tag start stop interval opts =
     (let options = (case opts of None \<Rightarrow> default_interpolated_values_options | Some given \<Rightarrow> given) in
      rbind (get_point ex tag) (\<lambda>p.
      rbind (create_time_range ex start stop) (\<lambda>tr.
      rbind (af_time_span ex interval) (\<lambda>span.
      Inr (map (convert_value ex)
        (pt_interpolated p tr span (ivo_filter_expression options) (ivo_include_filtered_values options)))))))"

definition plot_values ::
  "extractor \<Rightarrow> string \<Rightarrow> pi_timestamp \<Rightarrow> pi_timestamp \<Rightarrow> int \<Rightarrow> pi_value list py_result" where
  "plot_values ex tag start stop intervals =
     rbind (get_point ex tag) (\<lambda>p.
     rbind (create_time_range ex start stop) (\<lambda>tr.
     Inr (map (convert_value ex) (pt_plot p tr intervals))))"

definition value_at :: "extractor \<Rightarrow> string \<Rightarrow> pi_timestamp \<Rightarrow> pi_value py_result" where
  "value_at ex tag t =
     rbind (get_point ex tag) (\<lambda>p.
     rbind (parse_time ex t) (\<lambda>when.
     Inr (convert_value ex (pt_recorded_value p when))))"


text \<open>
  \<open>get_point_config\<close>: one \<open>GetAttributes\<close> call, then each field read with
  \<open>attrs.get(name, default)\<close> and converted with \<open>int\<close>, \<open>float\<close> or
  \<open>str\<close> in the order of the keyword arguments; a failing conversion raises.
  The typical value is \<open>None\<close> unless the attribute is truthy.
\<close>

definition point_type_map :: "(string, point_type) pydict" where
  "point_type_map =
     [(''Float16'', FLOAT16), (''Float32'', FLOAT32), (''Float64'', FLOAT64),
      (''Int16'', INT16), (''Int32'', INT32), (''Digital'', DIGITAL),
      (''Timestamp'', TIMESTAMP), (''String'', STRING), (''Blob'', BLOB)]"

definition get_point_config ::
  "(real \<Rightarrow> string) \<Rightarrow> extractor \<Rightarrow> string \<Rightarrow> point_config py_result" where
  "get_point_config repr ex tag_name =
     rbind (get_point ex tag_name) (\<lambda>point.
       let attrs = pt_attributes point;
           point_type_str = py_str_value repr (dict_get_default attrs ''pointtype'' (PyStr ''Float32''));
           point_type = dict_get_default point_type_map point_type_str FLOAT64;
           typical = dict_get_default attrs ''typicalvalue'' PyNone
       in rbind (py_int_value (dict_get_default attrs ''pointid'' (PyInt 0))) (\<lambda>point_id.
          rbind (py_float_value (dict_get_default attrs ''zero'' (PyFloat 0))) (\<lambda>zero.
          rbind (py_float_value (dict_get_default attrs ''span'' (PyFloat 100))) (\<lambda>span.
          rbind (py_int_value (dict_get_default attrs ''displaydigits'' (PyInt (- 5)))) (\<lambda>digits.
          rbind (if py_truthy typical then map_sum id Some (py_float_value typical) else Inr None)
            (\<lambda>typical_value.
          Inr (mk_point_config tag_name point_id point_type
                 (py_str_value repr (dict_get_default attrs ''descriptor'' (PyStr [])))
                 (py_str_value repr (dict_get_default attrs ''engunits'' (PyStr [])))
                 zero span digits typical_value)))))))"

section \<open>Concrete inputs for the witnesses\<close>

text \<open>
  A point whose archive is a fixed list of events answers every query with that
  list; an SDK that accepts every non-empty time expression.
\<close>

definition demo_value :: "instant \<Rightarrow> net_value \<Rightarrow> af_value" where
  "demo_value t v = \<lparr>av_timestamp = t, av_value = v, av_is_good = True, av_substituted = None\<rparr>"

definition demo_point :: "af_value \<Rightarrow> af_value list \<Rightarrow> pi_point" where
  "demo_point cur evs =
     \<lparr>pt_attributes = [], pt_current = cur,
      pt_recorded = (\<lambda>_ _ _ _ _. evs),
      pt_interpolated = (\<lambda>_ _ _ _. evs), pt_plot = (\<lambda>_ _. evs),
      pt_summary = (\<lambda>_ _. []), pt_summaries = (\<lambda>_ _ _. []),
      pt_recorded_value = (\<lambda>_. cur)\<rparr>"

definition demo_extractor :: "(string, pi_point) pydict \<Rightarrow> extractor" where
  "demo_extractor pts =
     \<lparr>ex_conn = \<lparr>conn_points = pts\<rparr>,
      ex_sdk = \<lparr>sdk_time_ok = (\<lambda>s. s \<noteq> []), sdk_span_ok = (\<lambda>s. s \<noteq> []), sdk_local_time = id\<rparr>\<rparr>"

definition demo_ex :: extractor where
  "demo_ex = demo_extractor
     [(''A'', demo_point (demo_value 5 (NetObj (Some 1) ''1.0'')) []),
      (''B'', demo_point (demo_value 7 (NetState ''Open'')) [])]"

definition demo_config_point :: pi_point where
  "demo_config_point =
     (demo_point (demo_value 0 (NetPrim (PyFloat 1))) [])
       \<lparr>pt_attributes := [(''pointtype'', PyStr ''Int32''), (''typicalvalue'', PyFloat 0),
                          (''pointid'', PyInt 7)]\<rparr>"

section \<open>Lookup and batch snapshots\<close>

lemma get_point_simps [simp]:
  "map_of (conn_points (ex_conn ex)) tag = None \<Longrightarrow> get_point ex tag = Inl (PIPointNotFoundError tag)"
  "map_of (conn_points (ex_conn ex)) tag = Some p \<Longrightarrow> get_point ex tag = Inr p"
  by (simp_all add: get_point_def)

abbreviation point_of :: "extractor \<Rightarrow> string \<Rightarrow> pi_point option" where
  "point_of ex \<equiv> map_of (conn_points (ex_conn ex))"

lemma get_points_found:
  "\<forall>t\<in>set tags. point_of ex t \<noteq> None \<Longrightarrow> get_points ex tags = Inr (map (\<lambda>t. the (point_of ex t)) tags)"
  by (induction tags) auto

lemma get_points_missing:
  "\<exists>t\<in>set tags. point_of ex t = None \<Longrightarrow>
   get_points ex tags = Inl (PIPointNotFoundError (hd (filter (\<lambda>t. point_of ex t = None) tags)))"
proof (induction tags)
  case (Cons a tags)
  show ?case
  proof (cases "point_of ex a")
    case None
    then show ?thesis by simp
  next
    case (Some p)
    with Cons.prems have "\<exists>t\<in>set tags. point_of ex t = None" by auto
    with Cons.IH Some show ?thesis by simp
  qed
qed simp

lemma snapshot_dict_keys: "map fst (snapshot_dict ex tags avs) = dedup_first (map fst (zip tags avs)) []"
proof -
  have "(\<lambda>(t::string, av::af_value). t) = fst" by auto
  then show ?thesis by (simp add: snapshot_dict_def keys_fold_dict_set)
qed

lemma snapshot_dict_lookup:
  "map_of (snapshot_dict ex tags avs) = map_of (rev (map (\<lambda>(t, av). (t, convert_value ex av)) (zip tags avs)))"
  by (simp add: snapshot_dict_def map_of_fold_dict_set)


text \<open>
  C1. All tags known: the batch answers one entry per distinct tag, in the order the
  tags were first given, each the converted current value of its point.
\<close>

theorem snapshots_all_found:
  assumes "\<forall>t\<in>set tags. point_of ex t \<noteq> None"
  shows "\<exists>d. snapshots ex tags = Inr d \<and> map fst d = dedup_first tags [] \<and>
           (\<forall>t\<in>set tags. map_of d t = map_option (\<lambda>p. convert_value ex (pt_current p)) (point_of ex t))"
proof -
  let ?h = "\<lambda>t. pt_current (the (point_of ex t))"
  have pts: "get_points ex tags = Inr (map (\<lambda>t. the (point_of ex t)) tags)"
    using assms by (rule get_points_found)
  let ?d = "snapshot_dict ex tags (map ?h tags)"
  have "snapshots ex tags = Inr ?d" by (simp add: snapshots_def pts o_def)
  moreover have "map fst ?d = dedup_first tags []"
    by (simp add: snapshot_dict_keys zip_map_self o_def)
  moreover have "map_of ?d t = map_option (\<lambda>p. convert_value ex (pt_current p)) (point_of ex t)"
    if "t \<in> set tags" for t
    using that assms by (auto simp: snapshot_dict_lookup zip_map_self rev_map o_def)
  ultimately show ?thesis by blast
qed

text \<open>
  C2. One unknown tag aborts the whole batch: \<open>snapshots\<close> raises
  \<open>PIPointNotFoundError\<close> for the first unknown tag and returns nothing.
\<close>

theorem snapshots_missing_aborts:
  assumes "\<exists>t\<in>set tags. point_of ex t = None"
  shows "snapshots ex tags = Inl (PIPointNotFoundError (hd (filter (\<lambda>t. point_of ex t = None) tags)))"
  using get_points_missing [OF assms] by (simp add: snapshots_def)


theorem snapshots_all_found_witness:
  "point_of demo_ex ''A'' \<noteq> None \<and> point_of demo_ex ''B'' \<noteq> None \<and>
   (\<exists>d. snapshots demo_ex [''A'', ''B'', ''A''] = Inr d \<and> map fst d = [''A'', ''B''] \<and>
        map_of d ''B'' = Some (convert_value demo_ex (demo_value 7 (NetState ''Open''))))"
proof -
  have h: "\<forall>t\<in>set [''A'', ''B'', ''A'']. point_of demo_ex t \<noteq> None"
    by (simp add: demo_ex_def demo_extractor_def)
  from snapshots_all_found [OF h] show ?thesis
    by (auto simp: demo_ex_def demo_extractor_def demo_point_def)
qed

theorem snapshots_missing_aborts_witness:
  "(\<exists>t\<in>set [''A'', ''Z'', ''Y'']. point_of demo_ex t = None) \<and>
   snapshots demo_ex [''A'', ''Z'', ''Y''] = Inl (PIPointNotFoundError ''Z'')"
proof -
  have h: "\<exists>t\<in>set [''A'', ''Z'', ''Y'']. point_of demo_ex t = None"
    by (simp add: demo_ex_def demo_extractor_def)
  from snapshots_missing_aborts [OF h] h show ?thesis
    by (simp add: demo_ex_def demo_extractor_def)
qed

section \<open>Point configuration\<close>

text \<open>
  C20: for a point without any attribute, \<open>get_point_config\<close> raises nothing and
  returns the documented defaults: id 0, type \<open>Float32\<close>, empty description
  and units, zero 0, span 100, display digits -5 and no typical value.
\<close>
theorem get_point_config_defaults:
  assumes "point_of ex tag = Some p" "pt_attributes p = []"
  shows "get_point_config repr ex tag = Inr (mk_point_config tag 0 FLOAT32 [] [] 0 100 (- 5) None)"
  using assms by (simp add: get_point_config_def point_type_map_def)

theorem get_point_config_defaults_witness:
  "get_point_config (\<lambda>_. []) demo_ex ''A'' = Inr (mk_point_config ''A'' 0 FLOAT32 [] [] 0 100 (- 5) None)"
  using get_point_config_defaults [of demo_ex "''A''" _ "\<lambda>_. []"]
  by (simp add: demo_ex_def demo_extractor_def demo_point_def)

text \<open>
  C21: a typical value stored as 0.0 is reported as unset: the code tests the
  attribute's truthiness, not its presence.
\<close>
theorem get_point_config_zero_typical:
  assumes "point_of ex tag = Some p" "map_of (pt_attributes p) ''typicalvalue'' = Some (PyFloat 0)"
    and "get_point_config repr ex tag = Inr c"
  shows "pc_typical_value c = None"
  using assms
  by (auto simp: get_point_config_def dict_get_default_def mk_point_config_def Let_def
           rbind_Inr_iff)

theorem get_point_config_zero_typical_witness:
  "get_point_config (\<lambda>_. []) (demo_extractor [(''T'', demo_config_point)]) ''T''
     = Inr (mk_point_config ''T'' 7 INT32 [] [] 0 100 (- 5) None)"
  using get_point_config_zero_typical [of "demo_extractor [(''T'', demo_config_point)]" "''T''"
      demo_config_point "\<lambda>_. []"]
  by (simp add: demo_extractor_def demo_config_point_def demo_point_def get_point_config_def point_type_map_def)

text \<open>
  C22: a point id attribute whose text is not an integer makes
  \<open>get_point_config\<close> raise \<open>ValueError\<close>.
\<close>
theorem get_point_config_bad_id:
  assumes "point_of ex tag = Some p" "map_of (pt_attributes p) ''pointid'' = Some (PyStr s)"
    and "py_int_of_str s = None"
  shows "get_point_config repr ex tag = Inl ValueError"
  using assms by (simp add: get_point_config_def dict_get_default_def Let_def)

theorem get_point_config_bad_id_witness:
  "get_point_config (\<lambda>_. []) (demo_extractor [(''T'', demo_config_point\<lparr>pt_attributes := [(''pointid'', PyStr ''x7'')]\<rparr>)]) ''T''
     = Inl ValueError"
  using get_point_config_bad_id [of "demo_extractor [(''T'', demo_config_point\<lparr>pt_attributes := [(''pointid'', PyStr ''x7'')]\<rparr>)]"
      "''T''" "demo_config_point\<lparr>pt_attributes := [(''pointid'', PyStr ''x7'')]\<rparr>" "''x7''" "\<lambda>_. []"]
  by (simp add: demo_extractor_def py_int_of_str_def strip_ws_def is_space_def signed_digits_def is_digit_def)
end
