(* ===== verification/Summary.thy ===== *)
theory Summary
  imports Points
begin

unbundle bit_operations_syntax

text \<open>
  Summary queries of \<open>points.py\<close> (\<open>summary\<close>, \<open>summaries\<close>,
  \<open>_get_summary_name\<close>). The requested \<open>SummaryType\<close>s are OR-ed into one
  \<open>AFSummaryTypes\<close> flag word (a 32-bit .NET enum); the SDK answers one result
  per set flag, tagged with the flag's integer code, and the code names each
  result with a fixed table, falling back to the decimal code.
\<close>

section \<open>Definitions\<close>

datatype summary_arg = SumOne summary_type | SumList "summary_type list"

definition sdk_summary_mask :: "summary_arg \<Rightarrow> 32 word" where
  "sdk_summary_mask arg =
     (case arg of
        SumList sts \<Rightarrow> fold (\<lambda>st m. m OR st_value st) sts 0
      | SumOne st \<Rightarrow> st_value st)"

definition summary_name_map :: "(int \<times> string) list" where
  "summary_name_map =
     [(1, ''total''), (2, ''average''), (4, ''minimum''), (8, ''maximum''), (16, ''range''),
      (32, ''std_dev''), (64, ''pop_std_dev''), (128, ''count''), (8192, ''percent_good'')]"

definition get_summary_name :: "int \<Rightarrow> string" where
  "get_summary_name v = dict_get_default summary_name_map v (py_str_int v)"

definition summary_dict :: "(int \<times> py_value) list \<Rightarrow> (string, py_value) pydict" where
  "summary_dict rs = fold (\<lambda>(code, v) d. dict_set (get_summary_name code) v d) rs []"

definition summary ::
  "extractor \<Rightarrow> string \<Rightarrow> pi_timestamp \<Rightarrow> pi_timestamp \<Rightarrow> summary_arg \<Rightarrow> (string, py_value) pydict py_result" where
  "summary ex tag start stop arg =
     rbind (get_point ex tag) (\<lambda>p.
     rbind (create_time_range ex start stop) (\<lambda>tr.
     Inr (summary_dict (pt_summary p tr (sdk_summary_mask arg)))))"

text \<open>
  One row of \<open>summaries\<close>: a dictionary whose first key is \<open>"timestamp"\<close>
  (the interval's start) followed by the named aggregates.
\<close>

datatype row_value = RowTime instant | RowVal py_value

definition interval_row :: "extractor \<Rightarrow> instant \<Rightarrow> (int \<times> py_value) list \<Rightarrow> (string, row_value) pydict" where
  "interval_row ex ts rs =
     fold (\<lambda>(code, v) d. dict_set (get_summary_name code) (RowVal v) d) rs
       [(''timestamp'', RowTime (sdk_local_time (ex_sdk ex) ts))]"

definition summaries ::
  "extractor \<Rightarrow> string \<Rightarrow> pi_timestamp \<Rightarrow> pi_timestamp \<Rightarrow> string \<Rightarrow> summary_arg
   \<Rightarrow> (string, row_value) pydict list py_result" where
  "summaries ex tag start stop interval arg =
     rbind (get_point ex tag) (\<lambda>p.
     rbind (create_time_range ex start stop) (\<lambda>tr.
     rbind (af_time_span ex interval) (\<lambda>span.
     Inr (map (\<lambda>(ts, rs). interval_row ex ts rs) (pt_summaries p tr span (sdk_summary_mask arg))))))"

text \<open>
  The SDK side, from the specification: \<open>PIPoint.Summary\<close> answers, for every
  flag set in the mask and in the order of the enumeration, the flag's code and
  the aggregate computed upstream (\<open>agg\<close>).
\<close>

definition summary_reference :: "(summary_type \<Rightarrow> py_value) \<Rightarrow> 32 word \<Rightarrow> (int \<times> py_value) list" where
  "summary_reference agg flags =
     map (\<lambda>st. (uint (st_value st), agg st)) (filter (\<lambda>st. flags AND st_value st \<noteq> 0) all_summary_types)"

definition demo_agg :: "summary_type \<Rightarrow> py_value" where
  "demo_agg st = PyInt (int (st_bit st))"

definition demo_summary_point :: pi_point where
  "demo_summary_point =
     (demo_point (demo_value 0 (NetPrim PyNone)) [])
       \<lparr>pt_summary := (\<lambda>_. summary_reference demo_agg),
        pt_summaries := (\<lambda>_ _ flags. [(3600, summary_reference demo_agg flags)])\<rparr>"

definition demo_summary_ex :: extractor where
  "demo_summary_ex = demo_extractor [(''SINUSOID'', demo_summary_point)]"

section \<open>The flag word\<close>

lemma st_bit_less: "st_bit st < 14"
  by (cases st) simp_all

lemma st_bit_inj: "st_bit a = st_bit b \<longleftrightarrow> a = b"
  by (cases a; cases b) simp_all

lemma bit_st_value: "bit (st_value st) n \<longleftrightarrow> n = st_bit st"
  using st_bit_less [of st] by (auto simp: st_value_def bit_exp_iff)

lemma bit_fold_or:
  "bit (fold (\<lambda>st m. m OR st_value st) sts m0) n \<longleftrightarrow> bit m0 n \<or> (\<exists>st\<in>set sts. n = st_bit st)"
  by (induction sts arbitrary: m0) (auto simp: bit_or_iff bit_st_value)

lemma and_st_value: "m AND st_value st \<noteq> 0 \<longleftrightarrow> bit m (st_bit st)"
  by (simp add: st_value_def and_exp_eq_0_iff_not_bit)


text \<open>
  C3. The \<open>AFSummaryTypes\<close> word built from the requested summary types has the
  flag of a summary type set exactly when that type was requested.
\<close>

theorem sdk_summary_mask_flags:
  "(sdk_summary_mask (SumList sts) AND st_value st \<noteq> 0 \<longleftrightarrow> st \<in> set sts) \<and>
   (sdk_summary_mask (SumOne st') AND st_value st \<noteq> 0 \<longleftrightarrow> st = st')"
  by (auto simp: sdk_summary_mask_def and_st_value bit_fold_or bit_st_value st_bit_inj)

section \<open>Result names\<close>

lemma summary_name_map_keys: "map fst summary_name_map = [1, 2, 4, 8, 16, 32, 64, 128, 8192]"
  by (simp add: summary_name_map_def)

lemma summary_name_map_names_distinct: "distinct (map snd summary_name_map)"
  by (simp add: summary_name_map_def)

lemma summary_names_not_int: "(k, n) \<in> set summary_name_map \<Longrightarrow> py_int_of_str n = None"
  by (auto simp: summary_name_map_def py_int_of_str_def strip_ws_def is_space_def
      signed_digits_def is_digit_def)

lemma get_summary_name_cases:
  "get_summary_name v = (case map_of summary_name_map v of Some n \<Rightarrow> n | None \<Rightarrow> py_str_int v)"
  by (simp add: get_summary_name_def dict_get_default_def)

lemma summary_name_known_inj:
  assumes "map_of summary_name_map a = Some n" "map_of summary_name_map b = Some n"
  shows "a = b"
proof -
  from assms have "(a, n) \<in> set summary_name_map" "(b, n) \<in> set summary_name_map"
    by (auto dest: map_of_SomeD)
  with summary_name_map_names_distinct show ?thesis
    by (metis distinct_map inj_onD prod.sel(2) prod.inject)
qed

theorem get_summary_name_inj: "get_summary_name a = get_summary_name b \<longleftrightarrow> a = b"
proof
  assume eq: "get_summary_name a = get_summary_name b"
  show "a = b"
  proof (cases "map_of summary_name_map a")
    case None
    then have pa: "py_int_of_str (get_summary_name a) = Some a" by (simp add: get_summary_name_cases)
    show ?thesis
    proof (cases "map_of summary_name_map b")
      case None
      with pa eq show ?thesis by (simp add: get_summary_name_cases)
    next
      case (Some m)
      then have "py_int_of_str m = None" by (auto dest: map_of_SomeD summary_names_not_int)
      with pa eq Some show ?thesis by (simp add: get_summary_name_cases)
    qed
  next
    case (Some n)
    then have na: "py_int_of_str (get_summary_name a) = None"
      by (auto simp: get_summary_name_cases dest: map_of_SomeD summary_names_not_int)
    show ?thesis
    proof (cases "map_of summary_name_map b")
      case None
      with na eq show ?thesis by (simp add: get_summary_name_cases)
    next
      case (Some m)
      with \<open>map_of summary_name_map a = Some n\<close> eq show ?thesis
        by (auto simp: get_summary_name_cases intro: summary_name_known_inj)
    qed
  qed
qed simp

lemma timestamp_not_summary_name: "get_summary_name v \<noteq> ''timestamp''"
proof
  assume eq: "get_summary_name v = ''timestamp''"
  have nk: "py_int_of_str ''timestamp'' = None"
    by (simp add: py_int_of_str_def strip_ws_def is_space_def signed_digits_def is_digit_def)
  show False
  proof (cases "map_of summary_name_map v")
    case None
    with eq have "py_str_int v = ''timestamp''" by (simp add: get_summary_name_cases)
    then have "py_int_of_str ''timestamp'' = Some v" by (metis py_int_of_str_py_str_int)
    with nk show False by simp
  next
    case (Some n)
    with eq show False by (auto simp: get_summary_name_cases summary_name_map_def split: if_splits)
  qed
qed


lemma st_code_inj: "uint (st_value a) = uint (st_value b) \<longleftrightarrow> a = b"
  by (cases a; cases b) (simp_all add: st_value_def)

lemma summary_type_names_distinct:
  "distinct (map (\<lambda>st. get_summary_name (uint (st_value st))) (filter P all_summary_types))"
proof -
  have "inj_on (\<lambda>st. get_summary_name (uint (st_value st))) (set (filter P all_summary_types))"
    by (auto intro!: inj_onI simp: get_summary_name_inj st_code_inj)
  moreover have "distinct (filter P all_summary_types)" by (simp add: all_summary_types_def)
  ultimately show ?thesis by (simp add: distinct_map)
qed

lemma summary_reference_list:
  "summary_reference agg (sdk_summary_mask (SumList sts)) =
     map (\<lambda>st. (uint (st_value st), agg st)) (filter (\<lambda>st. st \<in> set sts) all_summary_types)"
  by (simp add: summary_reference_def sdk_summary_mask_def and_st_value bit_fold_or st_bit_inj)

text \<open>
  C4. Against an SDK that answers one result per requested flag, \<open>summary\<close> returns
  exactly the names of the requested summary types, once each, in the order of
  the enumeration, each bound to its aggregate.
\<close>

theorem summary_returns_requested:
  assumes "point_of ex tag = Some p"
    and "create_time_range ex start stop = Inr tr"
    and "pt_summary p tr = summary_reference agg"
  shows "\<exists>d. summary ex tag start stop (SumList sts) = Inr d \<and>
           map fst d = map (\<lambda>st. get_summary_name (uint (st_value st))) (filter (\<lambda>st. st \<in> set sts) all_summary_types) \<and>
           (\<forall>st\<in>set sts. map_of d (get_summary_name (uint (st_value st))) = Some (agg st))"
proof -
  let ?sel = "filter (\<lambda>st. st \<in> set sts) all_summary_types"
  let ?rs = "map (\<lambda>st. (uint (st_value st), agg st)) ?sel"
  let ?d = "summary_dict ?rs"
  have run: "summary ex tag start stop (SumList sts) = Inr ?d"
    using assms by (simp add: summary_def summary_reference_list)
  have dist: "distinct (map (\<lambda>st. get_summary_name (uint (st_value st))) ?sel)"
    by (rule summary_type_names_distinct)
  have keys: "map fst ?d = map (\<lambda>st. get_summary_name (uint (st_value st))) ?sel"
    using dist by (simp add: summary_dict_def keys_fold_dict_set dedup_first_distinct o_def)
  have "map_of ?d (get_summary_name (uint (st_value st))) = Some (agg st)" if "st \<in> set sts" for st
  proof -
    let ?kv = "map (\<lambda>st. (get_summary_name (uint (st_value st)), agg st)) ?sel"
    have "map_of ?d = map_of (rev ?kv)"
      by (simp add: summary_dict_def map_of_fold_dict_set rev_map o_def)
    moreover have "map fst (rev ?kv) = rev (map (\<lambda>st. get_summary_name (uint (st_value st))) ?sel)"
      by (simp add: rev_map)
    then have "distinct (map fst (rev ?kv))" using dist by simp
    moreover have "st \<in> set all_summary_types" by (cases st) (simp_all add: all_summary_types_def)
    ultimately show ?thesis using that by simp
  qed
  with run keys show ?thesis by blast
qed


theorem summary_returns_requested_witness:
  "point_of demo_summary_ex ''SINUSOID'' = Some demo_summary_point \<and>
   create_time_range demo_summary_ex (TsStr ''*-1d'') (TsStr ''*'') = Inr \<lparr>tr_start = ''*-1d'', tr_end = ''*''\<rparr> \<and>
   pt_summary demo_summary_point \<lparr>tr_start = ''*-1d'', tr_end = ''*''\<rparr> = summary_reference demo_agg \<and>
   (\<exists>d. summary demo_summary_ex ''SINUSOID'' (TsStr ''*-1d'') (TsStr ''*'') (SumList [COUNT, AVERAGE, MAXIMUM, MINIMUM]) = Inr d \<and>
        map fst d = [''average'', ''minimum'', ''maximum'', ''count''])"
proof -
  have h1: "point_of demo_summary_ex ''SINUSOID'' = Some demo_summary_point"
    by (simp add: demo_summary_ex_def demo_extractor_def)
  have h2: "create_time_range demo_summary_ex (TsStr ''*-1d'') (TsStr ''*'') = Inr \<lparr>tr_start = ''*-1d'', tr_end = ''*''\<rparr>"
    by (simp add: create_time_range_def af_time_of_def demo_summary_ex_def demo_extractor_def)
  have h3: "pt_summary demo_summary_point \<lparr>tr_start = ''*-1d'', tr_end = ''*''\<rparr> = summary_reference demo_agg"
    by (simp add: demo_summary_point_def)
  from summary_returns_requested [OF h1 h2 h3, of "[COUNT, AVERAGE, MAXIMUM, MINIMUM]"]
  obtain d where "summary demo_summary_ex ''SINUSOID'' (TsStr ''*-1d'') (TsStr ''*'')
      (SumList [COUNT, AVERAGE, MAXIMUM, MINIMUM]) = Inr d"
    and "map fst d = [''average'', ''minimum'', ''maximum'', ''count'']"
    by (auto simp: all_summary_types_def get_summary_name_def summary_name_map_def st_value_def)
  then have "\<exists>d. summary demo_summary_ex ''SINUSOID'' (TsStr ''*-1d'') (TsStr ''*'')
      (SumList [COUNT, AVERAGE, MAXIMUM, MINIMUM]) = Inr d \<and> map fst d = [''average'', ''minimum'', ''maximum'', ''count'']"
    by (intro exI conjI)
  with h1 h2 h3 show ?thesis by (intro conjI)
qed

section \<open>Rows of \<open>summaries\<close>\<close>

lemma fold_dict_set_keeps_head:
  assumes "\<forall>(code, v)\<in>set rs. g code \<noteq> k0"
  shows "fold (\<lambda>(code, v) d. dict_set (g code) (f v) d) rs ((k0, v0) # rest) =
           (k0, v0) # fold (\<lambda>(code, v) d. dict_set (g code) (f v) d) rs rest"
  using assms by (induction rs arbitrary: rest) auto

text \<open>
  C5. When the lookup, the range and the interval succeed, \<open>summaries\<close>
  returns one row per interval of the SDK's answer, in its order; each row
  starts with the key \<open>"timestamp"\<close> bound to the wall-clock reading
  (\<open>Key.LocalTime\<close>) of that interval's key, and no aggregate name can
  overwrite it.
\<close>

theorem summaries_timestamp_first:
  assumes "point_of ex tag = Some p" "create_time_range ex start stop = Inr tr"
    and "af_time_span ex interval = Inr sp"
  shows "\<exists>rows. summaries ex tag start stop interval arg = Inr rows \<and>
           map hd rows = map (\<lambda>(k, rs). (''timestamp'', RowTime (sdk_local_time (ex_sdk ex) k)))
                           (pt_summaries p tr sp (sdk_summary_mask arg)) \<and>
           (\<forall>row\<in>set rows. map_of row ''timestamp'' = Some (snd (hd row)))"
proof -
  let ?lt = "sdk_local_time (ex_sdk ex)"
  have row: "hd (interval_row ex k rs) = (''timestamp'', RowTime (?lt k)) \<and>
      map_of (interval_row ex k rs) ''timestamp'' = Some (RowTime (?lt k))" for k rs
  proof -
    have "\<forall>(code, v)\<in>set rs. get_summary_name code \<noteq> ''timestamp''"
      using timestamp_not_summary_name by auto
    then have "interval_row ex k rs = (''timestamp'', RowTime (?lt k)) #
        fold (\<lambda>(code, v) d. dict_set (get_summary_name code) (RowVal v) d) rs []"
      unfolding interval_row_def by (rule fold_dict_set_keeps_head)
    then show ?thesis by simp
  qed
  let ?xs = "pt_summaries p tr sp (sdk_summary_mask arg)"
  let ?rows = "map (\<lambda>(k, rs). interval_row ex k rs) ?xs"
  have "summaries ex tag start stop interval arg = Inr ?rows"
    using assms by (simp add: summaries_def)
  moreover have "map hd ?rows = map (\<lambda>(k, rs). (''timestamp'', RowTime (?lt k))) ?xs"
    using row by (auto simp: case_prod_beta)
  moreover have "\<forall>row\<in>set ?rows. map_of row ''timestamp'' = Some (snd (hd row))"
    using row by auto
  ultimately show ?thesis by blast
qed

theorem summaries_timestamp_first_witness:
  "point_of demo_summary_ex ''SINUSOID'' = Some demo_summary_point \<and>
   create_time_range demo_summary_ex (TsStr ''*-8h'') (TsStr ''*'') = Inr \<lparr>tr_start = ''*-8h'', tr_end = ''*''\<rparr> \<and>
   af_time_span demo_summary_ex ''1h'' = Inr ''1h'' \<and>
   (\<exists>rows. summaries demo_summary_ex ''SINUSOID'' (TsStr ''*-8h'') (TsStr ''*'') ''1h'' (SumList [AVERAGE, MAXIMUM]) = Inr rows \<and>
      map hd rows = [(''timestamp'', RowTime 3600)])"
proof -
  have h1: "point_of demo_summary_ex ''SINUSOID'' = Some demo_summary_point"
    by (simp add: demo_summary_ex_def demo_extractor_def)
  have h2: "create_time_range demo_summary_ex (TsStr ''*-8h'') (TsStr ''*'') = Inr \<lparr>tr_start = ''*-8h'', tr_end = ''*''\<rparr>"
    by (simp add: create_time_range_def af_time_of_def demo_summary_ex_def demo_extractor_def)
  have h3: "af_time_span demo_summary_ex ''1h'' = Inr ''1h''"
    by (simp add: af_time_span_def demo_summary_ex_def demo_extractor_def)
  from summaries_timestamp_first [OF h1 h2 h3, of "SumList [AVERAGE, MAXIMUM]"]
  obtain rows where r: "summaries demo_summary_ex ''SINUSOID'' (TsStr ''*-8h'') (TsStr ''*'') ''1h''
        (SumList [AVERAGE, MAXIMUM]) = Inr rows"
    and "map hd rows = map (\<lambda>(k, rs). (''timestamp'', RowTime (sdk_local_time (ex_sdk demo_summary_ex) k)))
           (pt_summaries demo_summary_point \<lparr>tr_start = ''*-8h'', tr_end = ''*''\<rparr> ''1h''
             (sdk_summary_mask (SumList [AVERAGE, MAXIMUM])))"
    by blast
  then have "map hd rows = [(''timestamp'', RowTime 3600)]"
    by (simp add: demo_summary_point_def demo_summary_ex_def demo_extractor_def)
  with r h1 h2 h3 show ?thesis by auto
qed

section \<open>Errors of the queries, in the order the code raises them\<close>


lemmas query_defs = recorded_values_def interpolated_values_def plot_values_def value_at_def
  summary_def summaries_def

text \<open>
  C34. Every query of the extractor looks the tag up before anything else: for
  an unknown tag, \<open>recorded_values\<close>, \<open>interpolated_values\<close>, \<open>plot_values\<close>,
  \<open>value_at\<close>, \<open>summary\<close> and \<open>summaries\<close> all raise
  \<open>PIPointNotFoundError\<close> for that tag, whatever the time arguments, interval
  and options (even ones the SDK would reject).
\<close>

theorem queries_unknown_tag:
  assumes "point_of ex tag = None"
  shows "recorded_values ex tag start stop ro = Inl (PIPointNotFoundError tag) \<and>
         interpolated_values ex tag start stop interval io = Inl (PIPointNotFoundError tag) \<and>
         plot_values ex tag start stop intervals = Inl (PIPointNotFoundError tag) \<and>
         value_at ex tag start = Inl (PIPointNotFoundError tag) \<and>
         summary ex tag start stop arg = Inl (PIPointNotFoundError tag) \<and>
         summaries ex tag start stop interval arg = Inl (PIPointNotFoundError tag)"
  using assms by (simp add: query_defs Let_def)


theorem queries_unknown_tag_witness:
  "point_of demo_ex ''NOPE'' = None \<and>
   recorded_values demo_ex ''NOPE'' (TsStr '''') (TsStr ''*'') None = Inl (PIPointNotFoundError ''NOPE'') \<and>
   interpolated_values demo_ex ''NOPE'' (TsStr '''') (TsStr ''*'') '''' None = Inl (PIPointNotFoundError ''NOPE'') \<and>
   plot_values demo_ex ''NOPE'' (TsStr '''') (TsStr ''*'') 640 = Inl (PIPointNotFoundError ''NOPE'') \<and>
   value_at demo_ex ''NOPE'' (TsStr '''') = Inl (PIPointNotFoundError ''NOPE'') \<and>
   summary demo_ex ''NOPE'' (TsStr '''') (TsStr ''*'') (SumOne AVERAGE) = Inl (PIPointNotFoundError ''NOPE'') \<and>
   summaries demo_ex ''NOPE'' (TsStr '''') (TsStr ''*'') ''1h'' (SumOne AVERAGE) = Inl (PIPointNotFoundError ''NOPE'')"
proof -
  have h: "point_of demo_ex ''NOPE'' = None" by (simp add: demo_ex_def demo_extractor_def)
  from queries_unknown_tag [OF h] h show ?thesis by blast
qed


end
