(* ===== verification/Recorded.thy ===== *)
theory Recorded
  imports Summary
begin

text \<open>
  Recorded values against a reference archive. The code passes the request to
  \<open>PIPoint.RecordedValues\<close> and converts the answer element by element; what
  the answer contains is the SDK's business. To state the specification's
  promises (ascending timestamps, values inside the range, the count cap) the
  SDK side is modelled here from the specification and the SDK's documented
  behaviour: the archive is a list of events in strictly increasing time; the
  range's expressions resolve to instants with a fixed \<open>resolve\<close> (a fixed
  "now"); \<open>Inside\<close> keeps the events in the range, \<open>Outside\<close> adds the
  last event before and the first event after it; a filter expression keeps the
  events its predicate accepts, or, with \<open>include_filtered_values\<close>, marks the
  rejected ones as the digital state \<open>Filtered\<close>; a positive \<open>max_count\<close>
  keeps that many. A range whose start resolves after its end is answered in
  reverse time order.
\<close>

section \<open>The reference archive\<close>

definition in_window :: "instant \<Rightarrow> instant \<Rightarrow> af_value \<Rightarrow> bool" where
  "in_window lo hi v \<longleftrightarrow> lo \<le> av_timestamp v \<and> av_timestamp v \<le> hi"

definition before_edge :: "instant \<Rightarrow> af_value list \<Rightarrow> af_value list" where
  "before_edge lo evs = (case filter (\<lambda>v. av_timestamp v < lo) evs of [] \<Rightarrow> [] | ys \<Rightarrow> [last ys])"

definition after_edge :: "instant \<Rightarrow> af_value list \<Rightarrow> af_value list" where
  "after_edge hi evs = take 1 (filter (\<lambda>v. hi < av_timestamp v) evs)"

fun window :: "af_boundary \<Rightarrow> instant \<Rightarrow> instant \<Rightarrow> af_value list \<Rightarrow> af_value list" where
  "window AFInside lo hi evs = filter (in_window lo hi) evs"
| "window AFOutside lo hi evs = before_edge lo evs @ filter (in_window lo hi) evs @ after_edge hi evs"
| "window AFInterpolated lo hi evs = filter (in_window lo hi) evs"

definition apply_filter :: "(af_value \<Rightarrow> bool) \<Rightarrow> bool \<Rightarrow> af_value list \<Rightarrow> af_value list" where
  "apply_filter keep incl evs =
     (if incl then map (\<lambda>v. if keep v then v else v\<lparr>av_value := NetState ''Filtered''\<rparr>) evs
      else filter keep evs)"

definition cap_count :: "int \<Rightarrow> 'a list \<Rightarrow> 'a list" where
  "cap_count mc xs = (if 0 < mc then take (nat mc) xs else xs)"

definition archive_recorded ::
  "(string \<Rightarrow> instant) \<Rightarrow> (string option \<Rightarrow> af_value \<Rightarrow> bool) \<Rightarrow> (af_time_range \<Rightarrow> af_value list)
   \<Rightarrow> af_value list \<Rightarrow> af_time_range \<Rightarrow> af_boundary \<Rightarrow> string option \<Rightarrow> bool \<Rightarrow> int \<Rightarrow> af_value list" where
  "archive_recorded resolve keep interp evs tr b flt incl mc =
     (let lo = resolve (tr_start tr); hi = resolve (tr_end tr);
          raw = (if b = AFInterpolated then interp tr
                 else if lo \<le> hi then window b lo hi evs else rev (window b hi lo evs))
      in cap_count mc (apply_filter (keep flt) incl raw))"

definition demo_resolve :: "string \<Rightarrow> instant" where
  "demo_resolve s = (if s = ''*-1d'' then 2 else if s = ''*'' then 6 else 0)"

definition demo_archive :: "af_value list" where
  "demo_archive = map (\<lambda>t. demo_value t (NetObj (Some (of_int t)) [])) [1, 3, 5, 7]"

definition demo_archive_ex :: extractor where
  "demo_archive_ex = demo_extractor
     [(''SINUSOID'', (demo_point (demo_value 7 (NetPrim PyNone)) demo_archive)
        \<lparr>pt_recorded := archive_recorded demo_resolve (\<lambda>_ _. True) (\<lambda>_. []) demo_archive\<rparr>)]"

definition demo_opts :: recorded_values_options where
  "demo_opts = default_recorded_values_options\<lparr>rvo_max_count := 1\<rparr>"

text \<open>A local clock that goes back two units at instant 4, as at the end of daylight saving time.\<close>

definition demo_dst_local :: "instant \<Rightarrow> instant" where
  "demo_dst_local t = (if t < 4 then t + 2 else t)"

definition demo_dst_ex :: extractor where
  "demo_dst_ex = demo_archive_ex\<lparr>ex_sdk :=
     \<lparr>sdk_time_ok = (\<lambda>s. s \<noteq> []), sdk_span_ok = (\<lambda>s. s \<noteq> []), sdk_local_time = demo_dst_local\<rparr>\<rparr>"

section \<open>Timestamps through the pipeline\<close>

abbreviation stamps :: "af_value list \<Rightarrow> instant list" where
  "stamps \<equiv> map av_timestamp"

lemma pv_timestamp_convert [simp]: "pv_timestamp (convert_value ex v) = sdk_local_time (ex_sdk ex) (av_timestamp v)"
  by (simp add: convert_value_def)

lemma stamps_convert: "map pv_timestamp (map (convert_value ex) xs) = map (sdk_local_time (ex_sdk ex)) (stamps xs)"
  by simp

lemma sorted_wrt_map_pair:
  assumes "sorted_wrt (<) (map g xs)" "sorted_wrt R (map f xs)"
    and "x \<in> set xs" "y \<in> set xs" "g x < (g y :: 'b :: linorder)"
  shows "R (f x) (f y)"
  using assms by (induction xs) (auto simp: sorted_wrt_map)

lemma sorted_strict_mono_map:
  "strict_mono h \<Longrightarrow> sorted_wrt (<) xs \<Longrightarrow> sorted_wrt (<) (map h xs)"
  by (auto simp: sorted_wrt_map strict_mono_def elim: sorted_wrt_mono_rel [rotated])

lemma stamps_apply_filter:
  "stamps (apply_filter keep incl evs) = (if incl then stamps evs else stamps (filter keep evs))"
proof -
  have "(\<lambda>v. av_timestamp (if keep v then v else v\<lparr>av_value := NetState ''Filtered''\<rparr>)) = av_timestamp"
    by auto
  then show ?thesis by (simp add: apply_filter_def comp_def)
qed

lemma sorted_apply_filter:
  "sorted_wrt R (stamps evs) \<Longrightarrow> sorted_wrt R (stamps (apply_filter keep incl evs))"
  by (auto simp: stamps_apply_filter sorted_wrt_map intro: sorted_wrt_filter)

lemma set_stamps_apply_filter: "set (stamps (apply_filter keep incl evs)) \<subseteq> set (stamps evs)"
  by (auto simp: stamps_apply_filter)

lemma sorted_cap_count: "sorted_wrt R xs \<Longrightarrow> sorted_wrt R (cap_count mc xs)"
  by (simp add: cap_count_def)

lemma set_cap_count: "set (cap_count mc xs) \<subseteq> set xs"
  by (auto simp: cap_count_def dest: in_set_takeD)

lemma length_cap_count: "0 < mc \<Longrightarrow> length (cap_count mc xs) \<le> nat mc"
  by (simp add: cap_count_def)

lemma stamps_cap_count [simp]: "stamps (cap_count mc xs) = cap_count mc (stamps xs)"
  by (simp add: cap_count_def take_map)

lemma sorted_pipeline:
  "sorted_wrt R (stamps xs) \<Longrightarrow> sorted_wrt R (stamps (cap_count mc (apply_filter keep incl xs)))"
  by (simp only: stamps_cap_count) (intro sorted_cap_count sorted_apply_filter)

lemma before_edge_facts:
  "length (before_edge lo evs) \<le> 1 \<and> (\<forall>v\<in>set (before_edge lo evs). av_timestamp v < lo)"
proof (cases "filter (\<lambda>v. av_timestamp v < lo) evs = []")
  case False
  then have "last (filter (\<lambda>v. av_timestamp v < lo) evs) \<in> set (filter (\<lambda>v. av_timestamp v < lo) evs)"
    by (rule last_in_set)
  with False show ?thesis by (auto simp: before_edge_def split: list.splits)
qed (simp add: before_edge_def)

lemma after_edge_facts:
  "length (after_edge hi evs) \<le> 1 \<and> (\<forall>v\<in>set (after_edge hi evs). hi < av_timestamp v)"
  by (auto simp: after_edge_def dest: in_set_takeD)

lemma sorted_window:
  assumes "sorted_wrt (<) (stamps evs)" "lo \<le> hi"
  shows "sorted_wrt (<) (stamps (window b lo hi evs))"
proof (cases b)
  case AFOutside
  let ?mid = "filter (in_window lo hi) evs"
  have mid: "sorted_wrt (<) (stamps ?mid)"
    using assms(1) by (simp add: sorted_wrt_map sorted_wrt_filter)
  from before_edge_facts [of lo evs] have b0: "length (before_edge lo evs) \<le> 1"
    and b2: "\<forall>v\<in>set (before_edge lo evs). av_timestamp v < lo" by blast+
  from after_edge_facts [of hi evs] have a0: "length (after_edge hi evs) \<le> 1"
    and a2: "\<forall>v\<in>set (after_edge hi evs). hi < av_timestamp v" by blast+
  have b1: "sorted_wrt (<) (stamps (before_edge lo evs))" using b0 by (intro sorted_wrt01) simp
  have a1: "sorted_wrt (<) (stamps (after_edge hi evs))" using a0 by (intro sorted_wrt01) simp
  have "sorted_wrt (<) (stamps ?mid @ stamps (after_edge hi evs))"
    using mid a1 a2 by (force simp: sorted_wrt_append in_window_def)
  then have "sorted_wrt (<) (stamps (before_edge lo evs) @ stamps ?mid @ stamps (after_edge hi evs))"
    using b1 b2 a2 assms(2) by (force simp: sorted_wrt_append in_window_def)
  with AFOutside show ?thesis by simp
qed (use assms in \<open>simp_all add: sorted_wrt_map sorted_wrt_filter\<close>)


lemma window_in_range:
  "v \<in> set (window AFInside lo hi evs) \<Longrightarrow> lo \<le> av_timestamp v \<and> av_timestamp v \<le> hi"
  by (simp add: in_window_def)

lemma archive_recorded_forward:
  assumes "lo = resolve (tr_start tr)" "hi = resolve (tr_end tr)" "lo \<le> hi" "b \<noteq> AFInterpolated"
  shows "archive_recorded resolve keep interp evs tr b flt incl mc =
           cap_count mc (apply_filter (keep flt) incl (window b lo hi evs))"
  using assms by (simp add: archive_recorded_def Let_def)

lemma archive_recorded_backward:
  assumes "lo = resolve (tr_start tr)" "hi = resolve (tr_end tr)" "hi < lo" "b \<noteq> AFInterpolated"
  shows "archive_recorded resolve keep interp evs tr b flt incl mc =
           cap_count mc (apply_filter (keep flt) incl (rev (window b hi lo evs)))"
  using assms by (simp add: archive_recorded_def Let_def)

lemma recorded_values_run:
  assumes "point_of ex tag = Some p" "create_time_range ex start stop = Inr tr"
  shows "recorded_values ex tag start stop (Some opts) =
           Inr (map (convert_value ex) (pt_recorded p tr (boundary_map (rvo_boundary_type opts))
              (rvo_filter_expression opts) (rvo_include_filtered_values opts) (rvo_max_count opts)))"
  using assms by (simp add: recorded_values_def)

lemma recorded_values_None:
  "recorded_values ex tag start stop None = recorded_values ex tag start stop (Some default_recorded_values_options)"
  by (simp add: recorded_values_def)

lemma boundary_map_interpolated: "boundary_map b = AFInterpolated \<longleftrightarrow> b = INTERPOLATED"
  by (cases b) simp_all

lemma recorded_values_archive_run:
  assumes "point_of ex tag = Some p"
    and "pt_recorded p = archive_recorded resolve keep interp evs"
    and "create_time_range ex start stop = Inr tr"
    and "resolve (tr_start tr) \<le> resolve (tr_end tr)"
    and "rvo_boundary_type opts \<noteq> INTERPOLATED"
  shows "recorded_values ex tag start stop (Some opts) =
           Inr (map (convert_value ex) (cap_count (rvo_max_count opts)
             (apply_filter (keep (rvo_filter_expression opts)) (rvo_include_filtered_values opts)
               (window (boundary_map (rvo_boundary_type opts)) (resolve (tr_start tr)) (resolve (tr_end tr)) evs))))"
proof -
  have "boundary_map (rvo_boundary_type opts) \<noteq> AFInterpolated" using assms(5) by (simp add: boundary_map_interpolated)
  with assms(2,4) recorded_values_run [OF assms(1,3), of opts] show ?thesis by (simp add: archive_recorded_forward)
qed

text \<open>
  C6. Against the reference archive, with a range whose start does not
  resolve after its end and a boundary type other than \<open>INTERPOLATED\<close>,
  \<open>recorded_values\<close> returns the values of archive events whose instants
  ascend strictly (no duplicates), lie in the range with \<open>INSIDE\<close>, and number
  at most a positive \<open>max_count\<close>; each timestamp is the wall-clock reading
  (\<open>Timestamp.LocalTime\<close>) of its instant, so the timestamps ascend strictly
  whenever the local clock is strictly monotone.
\<close>

theorem recorded_values_ascending:
  assumes "point_of ex tag = Some p"
    and "pt_recorded p = archive_recorded resolve keep interp evs"
    and "sorted_wrt (<) (map av_timestamp evs)"
    and "create_time_range ex start stop = Inr tr"
    and "resolve (tr_start tr) \<le> resolve (tr_end tr)"
    and "rvo_boundary_type opts \<noteq> INTERPOLATED"
  shows "\<exists>vs us. recorded_values ex tag start stop (Some opts) = Inr vs \<and>
           map pv_timestamp vs = map (sdk_local_time (ex_sdk ex)) us \<and> sorted_wrt (<) us \<and>
           (rvo_boundary_type opts = INSIDE \<longrightarrow>
              (\<forall>u\<in>set us. resolve (tr_start tr) \<le> u \<and> u \<le> resolve (tr_end tr))) \<and>
           (0 < rvo_max_count opts \<longrightarrow> length vs \<le> nat (rvo_max_count opts)) \<and>
           (strict_mono (sdk_local_time (ex_sdk ex)) \<longrightarrow> sorted_wrt (<) (map pv_timestamp vs))"
proof -
  let ?lo = "resolve (tr_start tr)" and ?hi = "resolve (tr_end tr)"
  let ?w = "window (boundary_map (rvo_boundary_type opts)) ?lo ?hi evs"
  let ?ans = "cap_count (rvo_max_count opts)
                (apply_filter (keep (rvo_filter_expression opts)) (rvo_include_filtered_values opts) ?w)"
  let ?vs = "map (convert_value ex) ?ans" and ?us = "stamps ?ans"
  have ts: "map pv_timestamp ?vs = map (sdk_local_time (ex_sdk ex)) ?us" by (rule stamps_convert)
  have sorted: "sorted_wrt (<) ?us" using sorted_window [OF assms(3,5)] by (rule sorted_pipeline)
  moreover have "\<forall>u\<in>set ?us. ?lo \<le> u \<and> u \<le> ?hi" if ins: "rvo_boundary_type opts = INSIDE"
  proof
    fix u assume "u \<in> set ?us"
    then have "u \<in> set (stamps ?w)"
      using set_cap_count set_stamps_apply_filter by (fastforce simp del: stamps_cap_count)
    with ins show "?lo \<le> u \<and> u \<le> ?hi" by (auto simp: in_window_def)
  qed
  moreover have "length ?vs \<le> nat (rvo_max_count opts)" if "0 < rvo_max_count opts"
    using length_cap_count [OF that] by simp
  moreover have "sorted_wrt (<) (map pv_timestamp ?vs)" if "strict_mono (sdk_local_time (ex_sdk ex))"
    unfolding ts using that sorted by (rule sorted_strict_mono_map)
  ultimately show ?thesis
    using recorded_values_archive_run [OF assms(1,2,4,5,6)] ts by blast
qed

text \<open>
  C7. The specification promises strictly ascending timestamps, but the code
  reports wall-clock readings: when two archive events inside the range are
  read on the local clock in the wrong order or at the same time (the clock
  went back at the end of daylight saving time between them), the default
  call of \<open>recorded_values\<close> returns timestamps that do not ascend strictly.
\<close>

theorem recorded_values_dst_not_ascending:
  assumes "point_of ex tag = Some p"
    and "pt_recorded p = archive_recorded resolve keep interp evs"
    and "keep None = (\<lambda>_. True)"
    and "sorted_wrt (<) (map av_timestamp evs)"
    and "create_time_range ex start stop = Inr tr"
    and "a \<in> set evs" "b \<in> set evs"
    and "resolve (tr_start tr) \<le> av_timestamp a" "av_timestamp a < av_timestamp b"
    and "av_timestamp b \<le> resolve (tr_end tr)"
    and "sdk_local_time (ex_sdk ex) (av_timestamp b) \<le> sdk_local_time (ex_sdk ex) (av_timestamp a)"
  shows "\<exists>vs. recorded_values ex tag start stop None = Inr vs \<and> \<not> sorted_wrt (<) (map pv_timestamp vs)"
proof -
  let ?lo = "resolve (tr_start tr)" and ?hi = "resolve (tr_end tr)"
  let ?w = "filter (in_window ?lo ?hi) evs"
  have le: "?lo \<le> ?hi" using assms(8-10) by linarith
  have run: "recorded_values ex tag start stop None = Inr (map (convert_value ex) ?w)"
    using recorded_values_archive_run [OF assms(1,2,5) le, of default_recorded_values_options] assms(3)
    by (simp add: recorded_values_None default_recorded_values_options_def apply_filter_def cap_count_def)
  have inw: "a \<in> set ?w" "b \<in> set ?w" using assms(6-10) by (auto simp: in_window_def)
  have sw: "sorted_wrt (<) (map av_timestamp ?w)"
    using assms(4) by (simp add: sorted_wrt_map sorted_wrt_filter)
  have "\<not> sorted_wrt (<) (map (pv_timestamp \<circ> convert_value ex) ?w)"
  proof
    assume "sorted_wrt (<) (map (pv_timestamp \<circ> convert_value ex) ?w)"
    from sorted_wrt_map_pair [OF sw this inw assms(9)] assms(11) show False by simp
  qed
  with run show ?thesis by simp
qed

lemmas demo_archive_simps =
  demo_archive_ex_def demo_extractor_def demo_point_def demo_archive_def demo_value_def
  create_time_range_def af_time_of_def demo_resolve_def demo_opts_def default_recorded_values_options_def

theorem recorded_values_ascending_witness:
  "point_of demo_archive_ex ''SINUSOID'' = Some ((demo_point (demo_value 7 (NetPrim PyNone)) demo_archive)
      \<lparr>pt_recorded := archive_recorded demo_resolve (\<lambda>_ _. True) (\<lambda>_. []) demo_archive\<rparr>) \<and>
   sorted_wrt (<) (map av_timestamp demo_archive) \<and>
   create_time_range demo_archive_ex (TsStr ''*-1d'') (TsStr ''*'') = Inr \<lparr>tr_start = ''*-1d'', tr_end = ''*''\<rparr> \<and>
   demo_resolve ''*-1d'' \<le> demo_resolve ''*'' \<and>
   recorded_values demo_archive_ex ''SINUSOID'' (TsStr ''*-1d'') (TsStr ''*'') (Some demo_opts) =
     Inr [convert_value demo_archive_ex (demo_value 3 (NetObj (Some 3) []))]"
proof -
  let ?p = "(demo_point (demo_value 7 (NetPrim PyNone)) demo_archive)
      \<lparr>pt_recorded := archive_recorded demo_resolve (\<lambda>_ _. True) (\<lambda>_. []) demo_archive\<rparr>"
  let ?tr = "\<lparr>tr_start = ''*-1d'', tr_end = ''*''\<rparr>"
  have h1: "point_of demo_archive_ex ''SINUSOID'' = Some ?p" by (simp add: demo_archive_ex_def demo_extractor_def)
  have h2: "pt_recorded ?p = archive_recorded demo_resolve (\<lambda>_ _. True) (\<lambda>_. []) demo_archive" by simp
  have h3: "sorted_wrt (<) (map av_timestamp demo_archive)" by (simp add: demo_archive_def demo_value_def)
  have h4: "create_time_range demo_archive_ex (TsStr ''*-1d'') (TsStr ''*'') = Inr ?tr"
    by (simp add: demo_archive_simps)
  have h5: "demo_resolve (tr_start ?tr) \<le> demo_resolve (tr_end ?tr)" by (simp add: demo_resolve_def)
  have h6: "rvo_boundary_type demo_opts \<noteq> INTERPOLATED" by (simp add: demo_archive_simps)
  from recorded_values_ascending [OF h1 h2 h3 h4 h5 h6] obtain vs
    where "recorded_values demo_archive_ex ''SINUSOID'' (TsStr ''*-1d'') (TsStr ''*'') (Some demo_opts) = Inr vs"
    by blast
  moreover have "recorded_values demo_archive_ex ''SINUSOID'' (TsStr ''*-1d'') (TsStr ''*'') (Some demo_opts) =
     Inr [convert_value demo_archive_ex (demo_value 3 (NetObj (Some 3) []))]"
    by (simp add: recorded_values_def archive_recorded_def in_window_def apply_filter_def cap_count_def
        demo_archive_simps)
  ultimately show ?thesis using h1 h3 h4 h5 by (simp add: demo_resolve_def)
qed

theorem recorded_values_dst_not_ascending_witness:
  "recorded_values demo_dst_ex ''SINUSOID'' (TsStr ''*-1d'') (TsStr ''*'') None =
     Inr [convert_value demo_dst_ex (demo_value 3 (NetObj (Some 3) [])),
          convert_value demo_dst_ex (demo_value 5 (NetObj (Some 5) []))] \<and>
   map pv_timestamp [convert_value demo_dst_ex (demo_value 3 (NetObj (Some 3) [])),
          convert_value demo_dst_ex (demo_value 5 (NetObj (Some 5) []))] = [5, 5] \<and>
   (\<exists>vs. recorded_values demo_dst_ex ''SINUSOID'' (TsStr ''*-1d'') (TsStr ''*'') None = Inr vs \<and>
        \<not> sorted_wrt (<) (map pv_timestamp vs))"
proof -
  let ?p = "(demo_point (demo_value 7 (NetPrim PyNone)) demo_archive)
      \<lparr>pt_recorded := archive_recorded demo_resolve (\<lambda>_ _. True) (\<lambda>_. []) demo_archive\<rparr>"
  let ?tr = "\<lparr>tr_start = ''*-1d'', tr_end = ''*''\<rparr>"
  let ?a = "demo_value 3 (NetObj (Some 3) [])" and ?b = "demo_value 5 (NetObj (Some 5) [])"
  have h1: "point_of demo_dst_ex ''SINUSOID'' = Some ?p" by (simp add: demo_dst_ex_def demo_archive_ex_def demo_extractor_def)
  have h2: "pt_recorded ?p = archive_recorded demo_resolve (\<lambda>_ _. True) (\<lambda>_. []) demo_archive" by simp
  have h3: "(\<lambda>_ _. True) None = (\<lambda>_. True)" by simp
  have h4: "sorted_wrt (<) (map av_timestamp demo_archive)" by (simp add: demo_archive_def demo_value_def)
  have h5: "create_time_range demo_dst_ex (TsStr ''*-1d'') (TsStr ''*'') = Inr ?tr"
    by (simp add: demo_dst_ex_def demo_archive_simps)
  have h6: "?a \<in> set demo_archive" "?b \<in> set demo_archive" by (simp_all add: demo_archive_def)
  have h7: "demo_resolve (tr_start ?tr) \<le> av_timestamp ?a" "av_timestamp ?a < av_timestamp ?b"
      "av_timestamp ?b \<le> demo_resolve (tr_end ?tr)"
    by (simp_all add: demo_resolve_def demo_value_def)
  have h8: "sdk_local_time (ex_sdk demo_dst_ex) (av_timestamp ?b) \<le> sdk_local_time (ex_sdk demo_dst_ex) (av_timestamp ?a)"
    by (simp add: demo_dst_ex_def demo_dst_local_def demo_value_def)
  have ex: "\<exists>vs. recorded_values demo_dst_ex ''SINUSOID'' (TsStr ''*-1d'') (TsStr ''*'') None = Inr vs \<and>
        \<not> sorted_wrt (<) (map pv_timestamp vs)"
    by (rule recorded_values_dst_not_ascending [OF h1 h2 h3 h4 h5 h6 h7 h8])
  have run: "recorded_values demo_dst_ex ''SINUSOID'' (TsStr ''*-1d'') (TsStr ''*'') None = Inr [convert_value demo_dst_ex ?a, convert_value demo_dst_ex ?b]"
    by (simp add: recorded_values_def archive_recorded_def in_window_def apply_filter_def cap_count_def
        demo_dst_ex_def demo_archive_simps)
  have "map pv_timestamp [convert_value demo_dst_ex ?a, convert_value demo_dst_ex ?b] = [5, 5]"
    by (simp add: demo_dst_ex_def demo_dst_local_def demo_value_def)
  with run ex show ?thesis by blast
qed

end
