(* ===== verification/Iterator.thy ===== *)
theory Iterator
  imports Recorded
begin

text \<open>
  \<open>PIPointExtractor.recorded_values_iterator\<close> is a Python generator. Calling it
  runs nothing; the first \<open>next()\<close> looks the point up, builds the time range
  and the paging configuration and asks the SDK for the paged enumeration of the
  inside-boundary recorded values; every \<open>next()\<close> then yields one converted
  value, and the generator stops when the enumeration ends. An exception raised
  by the set-up escapes from that first \<open>next()\<close> and finishes the generator.
  The SDK side of the paging (from the specification and the SDK documentation
  of \<open>PIPagingConfiguration\<close>): the events stay on the server and are fetched
  \<open>page_size\<close> at a time into a client-side buffer; a page size that is not
  positive is rejected when the configuration is built.
\<close>

section \<open>The paged enumeration (SDK side)\<close>

record pager =
  pg_buffer :: "af_value list"
  pg_server :: "af_value list"
  pg_size :: nat

definition pager_next :: "pager \<Rightarrow> (af_value \<times> pager) option" where
  "pager_next pg =
     (case pg_buffer pg of
        v # vs \<Rightarrow> Some (v, pg\<lparr>pg_buffer := vs\<rparr>)
      | [] \<Rightarrow>
          (case take (pg_size pg) (pg_server pg) of
             [] \<Rightarrow> None
           | v # vs \<Rightarrow> Some (v, pg\<lparr>pg_buffer := vs, pg_server := drop (pg_size pg) (pg_server pg)\<rparr>)))"

definition paging_configuration :: "int \<Rightarrow> nat py_result" where
  "paging_configuration page_size =
     (if 0 < page_size then Inr (nat page_size) else Inl (SDKError ''ArgumentOutOfRangeException''))"

section \<open>The generator\<close>

datatype gen_state = GenNew string pi_timestamp pi_timestamp int | GenActive pager | GenDone

datatype gen_event = Yielded pi_value | Stopped | Raised py_error

definition iterator_setup :: "extractor \<Rightarrow> string \<Rightarrow> pi_timestamp \<Rightarrow> pi_timestamp \<Rightarrow> int \<Rightarrow> pager py_result" where
  "iterator_setup ex tag start stop page_size =
     rbind (get_point ex tag) (\<lambda>p.
     rbind (create_time_range ex start stop) (\<lambda>tr.
     rbind (paging_configuration page_size) (\<lambda>n.
     Inr \<lparr>pg_buffer = [], pg_server = pt_recorded p tr AFInside None False 0, pg_size = n\<rparr>)))"

definition step_active :: "extractor \<Rightarrow> pager \<Rightarrow> gen_event \<times> gen_state" where
  "step_active ex pg =
     (case pager_next pg of
        None \<Rightarrow> (Stopped, GenDone)
      | Some (v, pg') \<Rightarrow> (Yielded (convert_value ex v), GenActive pg'))"

fun gen_next :: "extractor \<Rightarrow> gen_state \<Rightarrow> gen_event \<times> gen_state" where
  "gen_next ex (GenNew tag start stop page_size) =
     (case iterator_setup ex tag start stop page_size of
        Inl e \<Rightarrow> (Raised e, GenDone)
      | Inr pg \<Rightarrow> step_active ex pg)"
| "gen_next ex (GenActive pg) = step_active ex pg"
| "gen_next ex GenDone = (Stopped, GenDone)"

definition recorded_values_iterator :: "string \<Rightarrow> pi_timestamp \<Rightarrow> pi_timestamp \<Rightarrow> int \<Rightarrow> gen_state" where
  "recorded_values_iterator tag start stop page_size = GenNew tag start stop page_size"

text \<open>
  A consumer pulling at most \<open>n\<close> values: it stops at the first \<open>next()\<close> that
  does not yield, and reports that event.
\<close>

fun pull :: "nat \<Rightarrow> extractor \<Rightarrow> gen_state \<Rightarrow> pi_value list \<times> gen_event option \<times> gen_state" where
  "pull 0 ex g = ([], None, g)"
| "pull (Suc n) ex g =
     (case gen_next ex g of
        (Yielded v, g') \<Rightarrow> (let (vs, ev, g'') = pull n ex g' in (v # vs, ev, g''))
      | (ev, g') \<Rightarrow> ([], Some ev, g'))"


section \<open>The pager refines a list of pending events\<close>

definition pending :: "pager \<Rightarrow> af_value list" where
  "pending pg = pg_buffer pg @ pg_server pg"

definition pager_ok :: "pager \<Rightarrow> bool" where
  "pager_ok pg \<longleftrightarrow> 0 < pg_size pg \<and> length (pg_buffer pg) < pg_size pg"

lemma pager_next_None: "pager_ok pg \<Longrightarrow> pager_next pg = None \<longleftrightarrow> pending pg = []"
  by (auto simp: pager_next_def pending_def pager_ok_def split: list.splits)

lemma pager_next_Some:
  assumes "pager_ok pg" "pager_next pg = Some (v, pg')"
  shows "pending pg = v # pending pg' \<and> pager_ok pg' \<and> pg_size pg' = pg_size pg"
proof (cases "pg_buffer pg")
  case Nil
  then obtain vs where t: "take (pg_size pg) (pg_server pg) = v # vs"
    and pg': "pg' = pg\<lparr>pg_buffer := vs, pg_server := drop (pg_size pg) (pg_server pg)\<rparr>"
    using assms(2) by (auto simp: pager_next_def split: list.splits)
  have "pg_server pg = v # vs @ drop (pg_size pg) (pg_server pg)"
    using append_take_drop_id [of "pg_size pg" "pg_server pg"] t by simp
  moreover have "length vs < pg_size pg"
  proof -
    have "length (take (pg_size pg) (pg_server pg)) \<le> pg_size pg" by simp
    with t show ?thesis by simp
  qed
  ultimately show ?thesis using Nil pg' assms(1) by (simp add: pending_def pager_ok_def)
next
  case (Cons w ws)
  with assms show ?thesis by (auto simp: pager_next_def pending_def pager_ok_def)
qed

definition gen_ok :: "gen_state \<Rightarrow> bool" where
  "gen_ok g = (case g of GenActive pg \<Rightarrow> pager_ok pg | _ \<Rightarrow> True)"

definition gen_pending :: "gen_state \<Rightarrow> af_value list" where
  "gen_pending g = (case g of GenActive pg \<Rightarrow> pending pg | _ \<Rightarrow> [])"

lemma step_active_Nil:
  assumes "pager_ok pg" "pending pg = []"
  shows "step_active ex pg = (Stopped, GenDone)"
proof -
  have "pager_next pg = None" using assms by (simp add: pager_next_None)
  then show ?thesis by (simp add: step_active_def)
qed

lemma step_active_Cons:
  assumes "pager_ok pg" "pending pg = v # vs"
  shows "\<exists>pg'. step_active ex pg = (Yielded (convert_value ex v), GenActive pg') \<and>
           pager_ok pg' \<and> pending pg' = vs \<and> pg_size pg' = pg_size pg"
proof -
  from assms have "pager_next pg \<noteq> None" by (simp add: pager_next_None)
  then obtain w pg' where a: "pager_next pg = Some (w, pg')" by auto
  from pager_next_Some [OF assms(1) a] assms(2) show ?thesis
    by (simp add: step_active_def a)
qed

lemma pull_active:
  assumes "pager_ok pg"
  shows "fst (pull n ex (GenActive pg)) = map (convert_value ex) (take n (pending pg)) \<and>
         (if length (pending pg) < n
          then snd (pull n ex (GenActive pg)) = (Some Stopped, GenDone)
          else fst (snd (pull n ex (GenActive pg))) = None \<and>
               gen_ok (snd (snd (pull n ex (GenActive pg)))) \<and>
               gen_pending (snd (snd (pull n ex (GenActive pg)))) = drop n (pending pg))"
  using assms
proof (induction n arbitrary: pg)
  case 0
  then show ?case by (simp add: gen_ok_def gen_pending_def)
next
  case (Suc n)
  show ?case
  proof (cases "pending pg")
    case Nil
    with Suc.prems show ?thesis by (simp add: step_active_Nil)
  next
    case (Cons v vs)
    with step_active_Cons [OF Suc.prems Cons] obtain pg' where
      st: "step_active ex pg = (Yielded (convert_value ex v), GenActive pg')"
      and ok: "pager_ok pg'" and pd: "pending pg' = vs"
      by blast
    from Suc.IH [OF ok] st Cons pd show ?thesis by (simp add: split_def)
  qed
qed


section \<open>Set-up and the first pull\<close>

lemma iterator_setup_ok:
  assumes "recorded_values ex tag start stop None = Inr vs" "0 < page_size"
  shows "\<exists>pg. iterator_setup ex tag start stop page_size = Inr pg \<and> pager_ok pg \<and>
           pg_size pg = nat page_size \<and> map (convert_value ex) (pending pg) = vs"
  using assms
  by (auto simp: recorded_values_def iterator_setup_def paging_configuration_def pager_ok_def
      pending_def default_recorded_values_options_def rbind_Inr_iff)

lemma pull_new:
  "iterator_setup ex tag start stop page_size = Inr pg \<Longrightarrow>
   pull (Suc m) ex (GenNew tag start stop page_size) = pull (Suc m) ex (GenActive pg)"
  by simp

text \<open>
  C8. Pulled until it stops, the generator yields exactly the list that
  \<open>recorded_values\<close> returns with default options, and then stops: enough
  \<open>next()\<close> calls always end it.
\<close>

theorem iterator_drains_to_recorded_values:
  assumes "recorded_values ex tag start stop None = Inr vs" "0 < page_size" "length vs < n"
  shows "pull n ex (recorded_values_iterator tag start stop page_size) = (vs, Some Stopped, GenDone)"
proof -
  obtain pg where su: "iterator_setup ex tag start stop page_size = Inr pg" and ok: "pager_ok pg"
    and pd: "map (convert_value ex) (pending pg) = vs"
    using iterator_setup_ok [OF assms(1,2)] by blast
  obtain m where n: "n = Suc m" using assms(3) by (cases n) auto
  have len: "length (pending pg) < n" using assms(3) pd by auto
  have "pull n ex (GenActive pg) = (vs, Some Stopped, GenDone)"
    using pull_active [OF ok, of n ex] len pd by (simp add: prod_eq_iff)
  then show ?thesis using su n by (simp add: recorded_values_iterator_def)
qed

text \<open>
  C9. The consumer sets the pace: after \<open>k\<close> pulls (at most the number of
  values) it has received exactly the first \<open>k\<close> values, the generator has not
  stopped, and it holds precisely the values still to come.
\<close>

theorem iterator_pull_prefix:
  assumes "recorded_values ex tag start stop None = Inr vs" "0 < page_size" "0 < k" "k \<le> length vs"
  shows "\<exists>g. pull k ex (recorded_values_iterator tag start stop page_size) = (take k vs, None, g) \<and>
           map (convert_value ex) (gen_pending g) = drop k vs"
proof -
  obtain pg where su: "iterator_setup ex tag start stop page_size = Inr pg" and ok: "pager_ok pg"
    and pd: "map (convert_value ex) (pending pg) = vs"
    using iterator_setup_ok [OF assms(1,2)] by blast
  obtain m where k: "k = Suc m" using assms(3) by (cases k) auto
  have len: "\<not> length (pending pg) < k" using assms(4) pd by auto
  let ?r = "pull k ex (GenActive pg)"
  have "fst ?r = take k vs" "fst (snd ?r) = None" "map (convert_value ex) (gen_pending (snd (snd ?r))) = drop k vs"
    using pull_active [OF ok, of k ex] len by (simp_all add: pd [symmetric] take_map drop_map)
  then have "?r = (take k vs, None, snd (snd ?r)) \<and> map (convert_value ex) (gen_pending (snd (snd ?r))) = drop k vs"
    by (simp add: prod_eq_iff)
  then show ?thesis using su k by (auto simp: recorded_values_iterator_def)
qed

section \<open>Reachable states and the buffer bound\<close>

inductive gen_reach :: "extractor \<Rightarrow> gen_state \<Rightarrow> gen_state \<Rightarrow> bool" for ex g0 where
  start: "gen_reach ex g0 g0"
| step: "gen_reach ex g0 g \<Longrightarrow> gen_next ex g = (ev, g') \<Longrightarrow> gen_reach ex g0 g'"

definition gen_inv :: "int \<Rightarrow> gen_state \<Rightarrow> bool" where
  "gen_inv page_size g =
     (case g of
        GenNew _ _ _ ps \<Rightarrow> ps = page_size
      | GenActive pg \<Rightarrow> pager_ok pg \<and> pg_size pg = nat page_size
      | GenDone \<Rightarrow> True)"

lemma step_active_inv:
  assumes "pager_ok pg" "step_active ex pg = (ev, g')"
  shows "g' = GenDone \<or> (\<exists>pg'. g' = GenActive pg' \<and> pager_ok pg' \<and> pg_size pg' = pg_size pg)"
proof (cases "pending pg")
  case Nil
  with assms show ?thesis by (simp add: step_active_Nil)
next
  case (Cons v vs)
  from step_active_Cons [OF assms(1) Cons, of ex] assms(2) show ?thesis by auto
qed

lemma iterator_setup_inv:
  "iterator_setup ex tag start stop ps = Inr pg \<Longrightarrow> pager_ok pg \<and> pg_size pg = nat ps"
  by (auto simp: iterator_setup_def paging_configuration_def pager_ok_def rbind_Inr_iff split: if_splits)

lemma gen_next_inv:
  assumes "gen_inv ps g" "gen_next ex g = (ev, g')"
  shows "gen_inv ps g'"
proof (cases g)
  case (GenNew tag start stop ps')
  show ?thesis
  proof (cases "iterator_setup ex tag start stop ps'")
    case (Inl e)
    with assms GenNew show ?thesis by (simp add: gen_inv_def)
  next
    case (Inr pg)
    with assms GenNew have "pager_ok pg \<and> pg_size pg = nat ps" "step_active ex pg = (ev, g')"
      by (auto simp: gen_inv_def dest: iterator_setup_inv)
    then show ?thesis using step_active_inv by (fastforce simp: gen_inv_def)
  qed
next
  case (GenActive pg)
  with assms have "pager_ok pg \<and> pg_size pg = nat ps" "step_active ex pg = (ev, g')"
    by (simp_all add: gen_inv_def)
  then show ?thesis using step_active_inv by (fastforce simp: gen_inv_def)
next
  case GenDone
  with assms show ?thesis by (simp add: gen_inv_def)
qed

lemma gen_reach_inv:
  "gen_reach ex (recorded_values_iterator tag start stop page_size) g \<Longrightarrow> gen_inv page_size g"
proof (induction rule: gen_reach.induct)
  case start
  then show ?case by (simp add: recorded_values_iterator_def gen_inv_def)
next
  case (step g ev g')
  then show ?case by (blast intro: gen_next_inv)
qed

text \<open>
  C10. In every state the generator reaches from a fresh call, the client holds
  fewer buffered events than the page size: memory does not grow with the range.
\<close>

theorem iterator_buffer_bounded:
  assumes "gen_reach ex (recorded_values_iterator tag start stop page_size) g" "g = GenActive pg"
  shows "length (pg_buffer pg) < nat page_size"
  using gen_reach_inv [OF assms(1)] assms(2) by (simp add: gen_inv_def pager_ok_def)

text \<open>
  C11. Creating the generator raises nothing, even for an unknown tag: the
  \<open>PIPointNotFoundError\<close> escapes from the first \<open>next()\<close>, after which the
  generator is finished and stops.
\<close>

theorem iterator_error_deferred:
  assumes "point_of ex tag = None" "0 < n"
  shows "pull n ex (recorded_values_iterator tag start stop page_size) =
           ([], Some (Raised (PIPointNotFoundError tag)), GenDone) \<and>
         gen_next ex GenDone = (Stopped, GenDone)"
proof -
  obtain m where "n = Suc m" using assms(2) by (cases n) auto
  with assms(1) show ?thesis
    by (simp add: recorded_values_iterator_def iterator_setup_def)
qed


section \<open>Witnesses\<close>

lemmas demo_iter_simps = demo_archive_simps recorded_values_def archive_recorded_def in_window_def
  apply_filter_def cap_count_def recorded_values_iterator_def iterator_setup_def paging_configuration_def
  step_active_def pager_next_def

lemma demo_recorded_default:
  "recorded_values demo_archive_ex ''SINUSOID'' (TsStr ''*-1d'') (TsStr ''*'') None =
     Inr [convert_value demo_archive_ex (demo_value 3 (NetObj (Some 3) [])), convert_value demo_archive_ex (demo_value 5 (NetObj (Some 5) []))]"
  by (simp add: demo_iter_simps)

theorem iterator_drains_to_recorded_values_witness:
  "recorded_values demo_archive_ex ''SINUSOID'' (TsStr ''*-1d'') (TsStr ''*'') None =
     Inr [convert_value demo_archive_ex (demo_value 3 (NetObj (Some 3) [])), convert_value demo_archive_ex (demo_value 5 (NetObj (Some 5) []))] \<and>
   pull 3 demo_archive_ex (recorded_values_iterator ''SINUSOID'' (TsStr ''*-1d'') (TsStr ''*'') 1) =
     ([convert_value demo_archive_ex (demo_value 3 (NetObj (Some 3) [])), convert_value demo_archive_ex (demo_value 5 (NetObj (Some 5) []))],
      Some Stopped, GenDone)"
  using demo_recorded_default iterator_drains_to_recorded_values [OF demo_recorded_default, of 1 3] by simp

theorem iterator_pull_prefix_witness:
  "\<exists>g. pull 1 demo_archive_ex (recorded_values_iterator ''SINUSOID'' (TsStr ''*-1d'') (TsStr ''*'') 10000) =
         ([convert_value demo_archive_ex (demo_value 3 (NetObj (Some 3) []))], None, g) \<and>
       map (convert_value demo_archive_ex) (gen_pending g) = [convert_value demo_archive_ex (demo_value 5 (NetObj (Some 5) []))]"
  using iterator_pull_prefix [OF demo_recorded_default, of 10000 1] by simp

theorem iterator_buffer_bounded_witness:
  "gen_reach demo_archive_ex (recorded_values_iterator ''SINUSOID'' (TsStr ''*-1d'') (TsStr ''*'') 2)
     (GenActive \<lparr>pg_buffer = [demo_value 5 (NetObj (Some 5) [])], pg_server = [], pg_size = 2\<rparr>) \<and>
   length [demo_value 5 (NetObj (Some 5) [])] < nat 2"
proof -
  let ?g0 = "recorded_values_iterator ''SINUSOID'' (TsStr ''*-1d'') (TsStr ''*'') 2"
  let ?pg = "\<lparr>pg_buffer = [demo_value 5 (NetObj (Some 5) [])], pg_server = [], pg_size = 2\<rparr>"
  have "gen_next demo_archive_ex ?g0 = (Yielded (convert_value demo_archive_ex (demo_value 3 (NetObj (Some 3) []))), GenActive ?pg)"
    by (simp add: demo_iter_simps)
  then have r: "gen_reach demo_archive_ex ?g0 (GenActive ?pg)"
    by (rule gen_reach.step [OF gen_reach.start])
  have "length (pg_buffer ?pg) < nat 2" by (rule iterator_buffer_bounded [OF r refl])
  with r show ?thesis by simp
qed

theorem iterator_error_deferred_witness:
  "point_of demo_archive_ex ''NOPE'' = None \<and>
   pull 1 demo_archive_ex (recorded_values_iterator ''NOPE'' (TsStr ''*-1d'') (TsStr ''*'') 10000) =
     ([], Some (Raised (PIPointNotFoundError ''NOPE'')), GenDone)"
proof -
  have h: "point_of demo_archive_ex ''NOPE'' = None" by (simp add: demo_archive_ex_def demo_extractor_def)
  from iterator_error_deferred [OF h, of 1] h show ?thesis by simp
qed

end
