(* ===== verification/Analyses.thy ===== *)
theory Analyses
  imports Prelude "HOL-Library.Sublist"
begin

text \<open>
  The analysis extraction script \<open>src/examples/extract_analyses.py\<close>: the
  helpers that derive a plant name and a plant category from an element path,
  the event-frame template name from a rule's configuration string, the enabled
  flag from a status text and \<open>safe_str\<close>; the recursive element traversal of
  \<open>search_analyses_in_elements\<close> with the worklist traversal the
  specification recommends; and the batch loops over databases and analyses.
\<close>

section \<open>String helpers\<close>

text \<open>
  \<open>safe_str\<close>: \<open>None\<close> for \<open>None\<close> and for an object whose \<open>str()\<close> raises,
  else its text.
\<close>

datatype py_obj = ObjNone | ObjStr string | ObjStrRaises

fun safe_str :: "py_obj \<Rightarrow> string option" where
  "safe_str ObjNone = None"
| "safe_str (ObjStr s) = Some s"
| "safe_str ObjStrRaises = None"

definition extract_plant_name :: "string \<Rightarrow> string option" where
  "extract_plant_name element_path =
     (if element_path = [] then None
      else let parts = py_split (py_strip bslash element_path) [bslash] in
        if 4 \<le> length parts then Some (parts ! 3)
        else if 3 \<le> length parts then Some (parts ! 2)
        else None)"

definition determine_plant_category :: "string \<Rightarrow> int option" where
  "determine_plant_category element_path =
     (if element_path = [] then None
      else let path_lower = py_lower element_path in
        if py_in ''hydro'' path_lower then Some 1
        else if py_in ''thermal'' path_lower \<or> py_in ''coal'' path_lower then Some 2
        else if py_in ''solar'' path_lower \<or> py_in ''ges'' path_lower then Some 3
        else if py_in ''wind'' path_lower \<or> py_in ''res'' path_lower then Some 4
        else if py_in ''gas'' path_lower then Some 5
        else Some 0)"

text \<open>
  The event-frame template name: the text after the first \<open>EFTNAME=\<close> up to the
  next \<open>EFTNAME=\<close>, cut at the first \<open>;\<close>.
\<close>

definition eft_name_of :: "string option \<Rightarrow> string option" where
  "eft_name_of config_str =
     (case config_str of
        Some cs \<Rightarrow>
          if cs \<noteq> [] \<and> py_in ''EFTNAME='' cs then
            let parts = py_split cs ''EFTNAME='' in
            if 1 < length parts then Some (hd (py_split (parts ! 1) '';''))
            else None
          else None
      | None \<Rightarrow> None)"

definition is_enabled_of :: "string option \<Rightarrow> bool option" where
  "is_enabled_of status_str =
     (case status_str of
        Some s \<Rightarrow> if s \<noteq> [] then Some (s = ''Enabled'') else None
      | None \<Rightarrow> None)"

section \<open>Element traversal\<close>

text \<open>
  An AF element: its \<open>Analyses\<close> collection (\<open>Inl\<close> when reading it raises;
  an element without the attribute has none), whether reading its \<open>Name\<close>
  succeeds, whether reading \<open>Elements\<close> and its \<open>Count\<close> succeeds, and its
  child elements. The extraction of one analysis (\<open>extract_analysis_info\<close>)
  is a parameter \<open>ext\<close> returning \<open>None\<close> when it raises; the loop then prints
  and continues. \<open>limit\<close> is the interpreter's remaining recursion budget in
  calls of \<open>traverse_elements\<close>: the call at depth \<open>limit\<close> raises
  \<open>RecursionError\<close> before doing anything, and the caller's
  \<open>except Exception: pass\<close> around the recursion swallows it.
\<close>

datatype 'a element =
  Element (el_analyses: "'a list py_result") (el_name_ok: bool) (el_elements_ok: bool)
    (el_children: "'a element list")

definition element_rows :: "('a \<Rightarrow> 'b option) \<Rightarrow> 'a list py_result \<Rightarrow> 'b list" where
  "element_rows ext ans = (case ans of Inr xs \<Rightarrow> List.map_filter ext xs | Inl _ \<Rightarrow> [])"

text \<open>
  \<open>traverse_elements\<close> appends to the enclosing \<open>analyses_list\<close>; the model
  returns what one call appends and whether an exception escapes from it. The
  handler of a failed \<open>Analyses\<close> read prints \<open>element.Name\<close>; when that read
  raises too, the exception leaves the loop, and with it the element's children
  and its later siblings are never visited. The caller swallows it (the
  recursion's \<open>except Exception: pass\<close>, or the \<open>try\<close> around the root call),
  keeping what was appended before.
\<close>

fun traverse_elements :: "('a \<Rightarrow> 'b option) \<Rightarrow> nat \<Rightarrow> nat \<Rightarrow> 'a element list \<Rightarrow> 'b list \<times> bool" where
  "traverse_elements ext limit depth [] = ([], False)"
| "traverse_elements ext limit depth (Element ans nm eok kids # es) =
     (if isl ans \<and> \<not> nm then ([], True)
      else
        (let sub = (if eok \<and> kids \<noteq> [] \<and> Suc depth < limit
                    then fst (traverse_elements ext limit (Suc depth) kids) else []);
             rest = traverse_elements ext limit depth es
         in (element_rows ext ans @ sub @ fst rest, snd rest)))"

definition search_analyses_in_elements ::
  "('a \<Rightarrow> 'b option) \<Rightarrow> nat \<Rightarrow> 'a element list \<Rightarrow> 'b list" where
  "search_analyses_in_elements ext limit roots =
     (if 0 < limit then fst (traverse_elements ext limit 0 roots) else [])"

text \<open>
  The explicit worklist traversal the specification recommends: a stack of
  elements, children pushed in front of the remaining siblings (pre-order);
  an element whose reads fail contributes what could be read.
\<close>

function walk_elements :: "('a \<Rightarrow> 'b option) \<Rightarrow> 'a element list \<Rightarrow> 'b list" where
  "walk_elements ext [] = []"
| "walk_elements ext (Element ans nm eok kids # stack) =
     element_rows ext ans @ walk_elements ext ((if eok then kids else []) @ stack)"
  by pat_completeness auto
termination
  by (relation "measure (\<lambda>(ext, stack). size_list size stack)") auto

fun height :: "'a element list \<Rightarrow> nat" where
  "height [] = 0"
| "height (Element ans nm eok kids # es) = max (Suc (height kids)) (height es)"

fun preorder :: "'a element list \<Rightarrow> 'a list" where
  "preorder [] = []"
| "preorder (Element ans nm eok kids # es) =
     (case ans of Inr xs \<Rightarrow> xs | Inl _ \<Rightarrow> []) @ (if eok then preorder kids else []) @ preorder es"

text \<open>No element has both its \<open>Analyses\<close> and its \<open>Name\<close> read raising.\<close>

fun no_reraise :: "'a element list \<Rightarrow> bool" where
  "no_reraise [] = True"
| "no_reraise (Element ans nm eok kids # es) = ((\<not> isl ans \<or> nm) \<and> no_reraise kids \<and> no_reraise es)"

text \<open>A chain of \<open>n + 1\<close> nested elements with one analysis at the bottom.\<close>

fun chain :: "nat \<Rightarrow> 'a \<Rightarrow> 'a element" where
  "chain 0 a = Element (Inr [a]) True True []"
| "chain (Suc n) a = Element (Inr []) True True [chain n a]"

section \<open>Batch extraction\<close>

text \<open>
  A database: its name as \<open>str(db.Name)\<close> reads it, its \<open>Analyses\<close>
  collection (\<open>Inl\<close> when reading it or its \<open>Count\<close> raises) and its root
  elements. A PI system: the outcome of \<open>Connect()\<close> (with the \<open>Name\<close> read of
  the message after it) and of reading its \<open>Databases\<close> and their \<open>Count\<close>.
  The observable connection events form a trace.
\<close>

record 'a af_database =
  db_name :: "string py_result"
  db_analyses :: "'a list py_result"
  db_elements :: "'a element list"

record 'a pi_system =
  sys_connect :: "unit py_result"
  sys_databases :: "'a af_database list py_result"

datatype af_event = Connect | Disconnect

text \<open>
  \<open>extract_analyses_from_all_databases\<close>: the server lookup (\<open>ValueError\<close>
  before the \<open>try\<close>), then connect, read the databases and, for each, its name
  (outside the per-database \<open>try\<close>: a failure ends the whole loop), then inside
  that \<open>try\<close> its analyses, each extracted under its own \<open>try\<close>. The
  \<open>finally\<close> block disconnects whatever happened.
\<close>

definition db_rows :: "('a \<Rightarrow> string \<Rightarrow> 'b option) \<Rightarrow> string \<Rightarrow> 'a af_database \<Rightarrow> 'b list" where
  "db_rows raw name db =
     (case db_analyses db of
        Inl e \<Rightarrow> []
      | Inr ans \<Rightarrow> List.map_filter (\<lambda>a. raw a name) ans)"

fun databases_rows :: "('a \<Rightarrow> string \<Rightarrow> 'b option) \<Rightarrow> 'a af_database list \<Rightarrow> 'b list py_result" where
  "databases_rows raw [] = Inr []"
| "databases_rows raw (db # dbs) =
     rbind (db_name db) (\<lambda>name.
     rbind (databases_rows raw dbs) (\<lambda>rest. Inr (db_rows raw name db @ rest)))"

definition extract_analyses_from_all_databases ::
  "(string \<Rightarrow> 'a pi_system option) \<Rightarrow> ('a \<Rightarrow> string \<Rightarrow> 'b option) \<Rightarrow> string
   \<Rightarrow> af_event list \<times> 'b list py_result" where
  "extract_analyses_from_all_databases systems raw af_server =
     (case systems af_server of
        None \<Rightarrow> ([], Inl ValueError)
      | Some sys \<Rightarrow>
          ([Connect, Disconnect],
           rbind (sys_connect sys) (\<lambda>_.
           rbind (sys_databases sys) (\<lambda>dbs. databases_rows raw dbs))))"

text \<open>
  \<open>extract_analyses\<close>: without a database name, every database; with one,
  the connection context manager (\<open>open_db\<close>, whose failure propagates, as
  does the failure of the \<open>Name\<close> reads of its messages) and the database's
  \<open>Analyses\<close> collection, falling back to the element traversal when reading
  it raises \<open>AttributeError\<close>; any other error propagates after the context
  manager disconnects.
\<close>

definition extract_analyses ::
  "(string \<Rightarrow> 'a pi_system option) \<Rightarrow> (string \<Rightarrow> string \<Rightarrow> 'a af_database py_result)
   \<Rightarrow> ('a \<Rightarrow> string \<Rightarrow> 'b option) \<Rightarrow> ('a \<Rightarrow> 'b option) \<Rightarrow> nat
   \<Rightarrow> string \<Rightarrow> string option \<Rightarrow> af_event list \<times> 'b list py_result" where
  "extract_analyses systems open_db raw ext limit af_server database =
     (case database of
        None \<Rightarrow> extract_analyses_from_all_databases systems raw af_server
      | Some d \<Rightarrow>
          (case open_db af_server d of
             Inl e \<Rightarrow> ([], Inl e)
           | Inr db \<Rightarrow>
               ([Connect, Disconnect],
                rbind (db_name db) (\<lambda>_.
                case db_analyses db of
                  Inr ans \<Rightarrow> Inr (List.map_filter ext ans)
                | Inl AttributeError \<Rightarrow> Inr (search_analyses_in_elements ext limit (db_elements db))
                | Inl e \<Rightarrow> Inl e))))"


section \<open>Demonstration inputs\<close>

text \<open>An element whose reads all succeed.\<close>

definition el :: "'a list \<Rightarrow> 'a element list \<Rightarrow> 'a element" where
  "el xs kids = Element (Inr xs) True True kids"

definition demo_tree :: "nat element list" where
  "demo_tree = [el [1] [el [2, 3] [], el [] [el [4] []]], el [5] []]"

text \<open>A root level whose second element fails both its \<open>Analyses\<close> and its \<open>Name\<close> read.\<close>

definition demo_reraise_tree :: "nat element list" where
  "demo_reraise_tree = [el [1] [], Element (Inl KeyError) False True [el [2] []], el [3] []]"

definition demo_db :: "nat af_database" where
  "demo_db = \<lparr>db_name = Inr ''DB1'', db_analyses = Inl AttributeError, db_elements = demo_tree\<rparr>"

definition demo_systems :: "string \<Rightarrow> nat pi_system option" where
  "demo_systems s =
     (if s = ''GENCOPI'' then
        Some \<lparr>sys_connect = Inr (),
              sys_databases = Inr
                [\<lparr>db_name = Inr ''DB1'', db_analyses = Inr [1, 2, 3], db_elements = []\<rparr>,
                 \<lparr>db_name = Inr ''DB2'', db_analyses = Inl KeyError, db_elements = []\<rparr>]\<rparr>
      else None)"

text \<open>The same server with a third database whose name cannot be read.\<close>

definition demo_bad_name_systems :: "string \<Rightarrow> nat pi_system option" where
  "demo_bad_name_systems s =
     (if s = ''GENCOPI'' then
        Some \<lparr>sys_connect = Inr (),
              sys_databases = Inr
                [\<lparr>db_name = Inr ''DB1'', db_analyses = Inr [1, 2, 3], db_elements = []\<rparr>,
                 \<lparr>db_name = Inl KeyError, db_analyses = Inr [4], db_elements = []\<rparr>]\<rparr>
      else None)"

definition demo_raw :: "nat \<Rightarrow> string \<Rightarrow> (string \<times> nat) option" where
  "demo_raw a n = (if a = 2 then None else Some (n, a))"

section \<open>Properties\<close>

subsection \<open>Path and configuration parsing\<close>

lemma plant_path_strip:
  assumes "\<forall>p\<in>set ps. bslash \<notin> set p" "ps \<noteq> []" "hd ps \<noteq> []" "last ps \<noteq> []"
  shows "py_split (py_strip bslash (replicate k bslash @ py_join [bslash] ps)) [bslash] = ps"
proof -
  have "hd (hd ps) \<noteq> bslash" using assms(1,2,3) by (metis hd_in_set)
  moreover have "last (last ps) \<noteq> bslash" using assms(1,2,4) by (metis last_in_set)
  ultimately show ?thesis using assms by (simp add: py_strip_join py_split_join_single)
qed

text \<open>C17: for an element path made of two backslashes and the parts server, database, category, plant and any further parts joined by backslashes, where the parts contain no backslash, with a non-empty server part and a non-empty last part, \<open>extract_plant_name\<close> returns the fourth part.\<close>

theorem extract_plant_name_from_path:
  assumes "\<forall>p\<in>set (srv # db # cat # plant # rest). bslash \<notin> set p"
    and "srv \<noteq> []" and "last (plant # rest) \<noteq> []"
  shows "extract_plant_name (bslash # bslash # py_join [bslash] (srv # db # cat # plant # rest)) = Some plant"
proof -
  have "py_split (py_strip bslash (replicate 2 bslash @ py_join [bslash] (srv # db # cat # plant # rest))) [bslash]
        = srv # db # cat # plant # rest"
    using assms by (intro plant_path_strip) simp_all
  then show ?thesis by (simp add: extract_plant_name_def numeral_2_eq_2)
qed

lemma extract_plant_name_from_path_witness:
  "extract_plant_name (bslash # bslash # py_join [bslash] [''GENCOPI'', ''Fleet'', ''Hydro'', ''Plant1'']) = Some ''Plant1''"
  using extract_plant_name_from_path [of "''GENCOPI''" "''Fleet''" "''Hydro''" "''Plant1''" "[]"]
  by (simp add:)

text \<open>C19: \<open>determine_plant_category\<close> never returns the gas category 5 for a path whose lower-cased text contains \<open>res\<close>, as in \<open>Pressure\<close> or \<open>Reservoir\<close>: the wind test matches first.\<close>

theorem category_res_never_gas:
  "py_in ''res'' (py_lower p) \<Longrightarrow> determine_plant_category p \<noteq> Some 5"
  by (auto simp: determine_plant_category_def Let_def)

lemma category_res_never_gas_witness:
  "py_in ''res'' (py_lower (''Gas'' @ [bslash] @ ''Pressure''))
   \<and> determine_plant_category (''Gas'' @ [bslash] @ ''Pressure'') = Some 4"
  using category_res_never_gas [of "''Gas'' @ [bslash] @ ''Pressure''"]
  by (simp add: determine_plant_category_def py_lower_def lower_char_def)

text \<open>C18: when the configuration string has its first \<open>EFTNAME=\<close> after a prefix \<open>a\<close> and the name \<open>n\<close> holds neither a semicolon nor another \<open>EFTNAME=\<close>, the event-frame template name read from it is \<open>n\<close>.\<close>

theorem eft_name_of_config:
  assumes "\<not> py_in ''EFTNAME='' (a @ ''EFTNAME'')" "CHR '';'' \<notin> set n" "\<not> py_in ''EFTNAME='' n"
  shows "eft_name_of (Some (a @ ''EFTNAME='' @ n @ '';'' @ rest)) = Some n"
proof -
  have sp: "py_split (a @ ''EFTNAME='' @ n @ '';'' @ rest) ''EFTNAME=''
            = a # split_from ''EFTNAME='' [] (n @ CHR '';'' # rest)"
    using split_from_first [of "''EFTNAME=''" a "[]" "n @ '';'' @ rest"] assms(1)
    by (simp add: py_split_def)
  obtain t where t: "hd (split_from ''EFTNAME='' [] (n @ CHR '';'' # rest)) = n @ CHR '';'' # t"
    using hd_split_from_stop [of "''EFTNAME=''" "CHR '';''" n "[]" rest] assms(3) by auto
  have "hd (py_split (n @ CHR '';'' # t) '';'') = n"
    using split_from_single_first [of "CHR '';''" n "[]" t] assms(2) by (simp add: py_split_def)
  moreover have "a @ ''EFTNAME='' @ n @ '';'' @ rest \<noteq> []" by simp
  moreover have "py_in ''EFTNAME='' (a @ ''EFTNAME='' @ n @ '';'' @ rest)" by (rule py_in_append)
  ultimately show ?thesis using sp t
    by (simp add: eft_name_of_def Let_def hd_conv_nth [symmetric])
qed

lemma eft_name_of_config_witness:
  "eft_name_of (Some (''Rule=x;'' @ ''EFTNAME='' @ ''Trip'' @ '';'' @ ''Severity=2'')) = Some ''Trip''"
  using eft_name_of_config [of "''Rule=x;''" "''Trip''" "''Severity=2''"] by simp


subsection \<open>Traversal\<close>

lemma height_eq_0 [simp]: "height es = 0 \<longleftrightarrow> es = []"
  by (cases es rule: height.cases) auto

lemma map_filter_app: "List.map_filter f (xs @ ys) = List.map_filter f xs @ List.map_filter f ys"
  by (simp add: map_filter_def)

lemma walk_elements_append: "walk_elements ext (xs @ ys) = walk_elements ext xs @ walk_elements ext ys"
  by (induction ext xs rule: walk_elements.induct) simp_all

lemma element_rows_map_filter:
  "element_rows ext ans = List.map_filter ext (case ans of Inr xs \<Rightarrow> xs | Inl _ \<Rightarrow> [])"
  by (simp add: element_rows_def map_filter_simps split: sum.split)

lemma walk_elements_map_filter: "walk_elements ext es = List.map_filter ext (preorder es)"
  by (induction es rule: preorder.induct) (simp_all add: walk_elements_append map_filter_app element_rows_map_filter)

lemma traverse_elements_walk:
  "height es + depth \<le> limit \<Longrightarrow> no_reraise es \<Longrightarrow> traverse_elements ext limit depth es = (walk_elements ext es, False)"
proof (induction ext limit depth es rule: traverse_elements.induct)
  case (2 ext limit depth ans nm eok kids es)
  have "kids \<noteq> [] \<Longrightarrow> 0 < height kids" by (metis height_eq_0 neq0_conv)
  with "2.prems" have "(if eok \<and> kids \<noteq> [] \<and> Suc depth < limit
                         then fst (traverse_elements ext limit (Suc depth) kids) else [])
             = walk_elements ext (if eok then kids else [])"
    using "2.IH"(1) by (cases "kids = []") auto
  with 2 show ?case by (simp add: walk_elements_append)
qed simp

lemma search_walk:
  "height roots \<le> limit \<Longrightarrow> no_reraise roots \<Longrightarrow>
   search_analyses_in_elements ext limit roots = walk_elements ext roots"
  by (cases roots) (auto simp: search_analyses_in_elements_def traverse_elements_walk)

lemma traverse_elements_append:
  "traverse_elements ext limit depth (xs @ ys) =
     (if snd (traverse_elements ext limit depth xs) then traverse_elements ext limit depth xs
      else (fst (traverse_elements ext limit depth xs) @ fst (traverse_elements ext limit depth ys),
            snd (traverse_elements ext limit depth ys)))"
  by (induction ext limit depth xs rule: traverse_elements.induct) (simp_all add: Let_def)

lemma subseq_map_filter: "subseq xs ys \<Longrightarrow> subseq (List.map_filter f xs) (List.map_filter f ys)"
  by (induction rule: list_emb.induct) (auto simp: map_filter_simps split: option.splits)

lemma traverse_elements_subseq: "subseq (fst (traverse_elements ext limit depth es)) (walk_elements ext es)"
proof (induction ext limit depth es rule: traverse_elements.induct)
  case (2 ext limit depth ans nm eok kids es)
  show ?case
  proof (cases "isl ans \<and> \<not> nm")
    case False
    then have "subseq (if eok \<and> kids \<noteq> [] \<and> Suc depth < limit
                    then fst (traverse_elements ext limit (Suc depth) kids) else [])
                (walk_elements ext (if eok then kids else []))"
      using 2(1) by auto
    with False 2(2) show ?thesis by (simp add: walk_elements_append list_emb_append_mono Let_def)
  qed simp
qed simp

lemma traverse_chain:
  "limit \<le> Suc (depth + n) \<Longrightarrow> fst (traverse_elements ext limit depth [chain (Suc n) a]) = []"
proof (induction n arbitrary: depth)
  case (Suc n)
  have "chain (Suc (Suc n)) a = Element (Inr []) True True [chain (Suc n) a]" by simp
  then show ?case using Suc.IH [of "Suc depth"] Suc.prems
    by (simp add: map_filter_simps element_rows_def del: chain.simps)
qed (simp add: map_filter_simps element_rows_def)

lemma preorder_chain [simp]: "preorder [chain n a] = [a]"
  by (induction n) auto

lemma no_reraise_chain [simp]: "no_reraise [chain n a]"
  by (induction n) auto

text \<open>C12: when the element tree is no higher than the recursion budget and no element fails both its \<open>Analyses\<close> and its \<open>Name\<close> read, the recursive traversal of \<open>search_analyses_in_elements\<close> collects the same analyses, in the same order, as the worklist traversal.\<close>

theorem search_equiv_walk:
  "height roots \<le> limit \<Longrightarrow> no_reraise roots \<Longrightarrow>
   search_analyses_in_elements ext limit roots = walk_elements ext roots"
  using search_walk by blast

theorem search_equiv_walk_witness:
  "height demo_tree \<le> 3 \<and> no_reraise demo_tree \<and>
   search_analyses_in_elements Some 3 demo_tree = walk_elements Some demo_tree \<and>
   walk_elements Some demo_tree = [1, 2, 3, 4, 5]"
proof -
  have h: "height demo_tree \<le> 3" "no_reraise demo_tree" by (simp_all add: demo_tree_def el_def)
  from search_equiv_walk [OF h, of Some] h show ?thesis
    by (simp add: demo_tree_def el_def element_rows_def map_filter_simps)
qed

text \<open>C14: for every recursion budget and every outcome of the element reads, the recursive traversal collects a subsequence of what the worklist traversal collects: it never invents or reorders results.\<close>

theorem search_subseq_walk:
  "subseq (search_analyses_in_elements ext limit roots) (walk_elements ext roots)"
  by (simp add: search_analyses_in_elements_def traverse_elements_subseq)

text \<open>C13: an analysis at the bottom of a chain of elements as deep as the recursion budget is silently lost by the recursive traversal (the \<open>RecursionError\<close> is swallowed), while the worklist traversal finds it.\<close>

theorem search_drops_deep_chain:
  "search_analyses_in_elements ext limit [chain limit a] = []
   \<and> walk_elements ext [chain limit a] = List.map_filter ext [a]"
proof (cases limit)
  case (Suc n)
  then show ?thesis
    using traverse_chain [of limit 0 n ext a]
    by (simp add: search_analyses_in_elements_def walk_elements_map_filter)
qed (simp add: search_analyses_in_elements_def walk_elements_map_filter)

text \<open>
  C25: an element whose \<open>Analyses\<close> read raises and whose \<open>Name\<close> read raises
  in the handler ends the traversal of its level: the analyses of its
  children and of all its later siblings (and their subtrees) are lost, while
  the worklist traversal still collects them.
\<close>

theorem search_reraise_drops_siblings:
  assumes "height pre \<le> limit" "no_reraise pre"
  shows "search_analyses_in_elements ext limit (pre @ Element (Inl e) False eok kids # post) = walk_elements ext pre
         \<and> walk_elements ext (pre @ Element (Inl e) False eok kids # post)
             = walk_elements ext pre @ walk_elements ext ((if eok then kids else []) @ post)"
proof -
  have w: "traverse_elements ext limit 0 pre = (walk_elements ext pre, False)"
    using assms by (intro traverse_elements_walk) simp_all
  have "search_analyses_in_elements ext limit (pre @ Element (Inl e) False eok kids # post) = walk_elements ext pre"
  proof (cases "0 < limit")
    case True
    then show ?thesis by (simp add: search_analyses_in_elements_def traverse_elements_append w)
  next
    case False
    with assms(1) have "pre = []" by simp
    with False show ?thesis by (simp add: search_analyses_in_elements_def)
  qed
  then show ?thesis by (simp add: walk_elements_append element_rows_def)
qed

theorem search_reraise_drops_siblings_witness:
  "height [el [1::nat] []] \<le> 3 \<and> no_reraise [el [1::nat] []] \<and>
   search_analyses_in_elements Some 3 demo_reraise_tree = [1] \<and>
   walk_elements Some demo_reraise_tree = [1, 2, 3]"
proof -
  have h: "height [el [1::nat] []] \<le> 3" "no_reraise [el [1::nat] []]" by (simp_all add: el_def)
  from search_reraise_drops_siblings [OF h, of Some KeyError True "[el [2] []]" "[el [3] []]"] h
  show ?thesis by (simp add: demo_reraise_tree_def el_def element_rows_def map_filter_simps)
qed

subsection \<open>Batch extraction\<close>

lemma databases_rows_names:
  "map db_name dbs = map Inr names \<Longrightarrow>
   databases_rows raw dbs = Inr (concat (map2 (\<lambda>db n. db_rows raw n db) dbs names))"
  by (induction dbs arbitrary: names) auto

lemma databases_rows_name_error:
  "\<forall>d\<in>set pre. \<exists>n. db_name d = Inr n \<Longrightarrow> db_name db = Inl e \<Longrightarrow>
   databases_rows raw (pre @ db # post) = Inl e"
  by (induction pre) (auto simp: rbind_def split: sum.splits)

lemma databases_rows_from:
  "databases_rows raw dbs = Inr rows \<Longrightarrow> r \<in> set rows \<Longrightarrow> \<exists>a n. raw a n = Some r"
proof (induction dbs arbitrary: rows)
  case (Cons db dbs)
  then obtain n rest where "db_name db = Inr n" "databases_rows raw dbs = Inr rest"
    and rows: "rows = db_rows raw n db @ rest"
    by (auto simp: rbind_Inr_iff)
  with Cons show ?case by (auto simp: db_rows_def set_map_filter_iff split: sum.splits)
qed simp

text \<open>C16: when the server is found, the connection succeeds, the databases can be listed and every database name can be read, \<open>extract_analyses_from_all_databases\<close> connects and disconnects once and returns, database by database in order, exactly the successful extractions of the analyses of the databases whose collection could be read; a failing analysis or collection is skipped, not fatal.\<close>

theorem all_databases_rows:
  assumes "systems s = Some sys" "sys_connect sys = Inr ()" "sys_databases sys = Inr dbs"
    and "map db_name dbs = map Inr names"
  shows "extract_analyses_from_all_databases systems raw s =
           ([Connect, Disconnect],
            Inr (concat (map2 (\<lambda>db n. case db_analyses db of Inl _ \<Rightarrow> [] | Inr ans \<Rightarrow> List.map_filter (\<lambda>a. raw a n) ans)
                   dbs names)))"
  using assms databases_rows_names [OF assms(4), of raw]
  by (simp add: extract_analyses_from_all_databases_def db_rows_def)

text \<open>
  C30: the name of each database is read outside the per-database \<open>try\<close>:
  one database whose \<open>Name\<close> cannot be read aborts the whole extraction with
  that exception, and the rows of every database, also those read before it,
  are lost.
\<close>

theorem all_databases_name_error:
  assumes "systems s = Some sys" "sys_connect sys = Inr ()" "sys_databases sys = Inr (pre @ db # post)"
    and "\<forall>d\<in>set pre. \<exists>n. db_name d = Inr n" "db_name db = Inl e"
  shows "extract_analyses_from_all_databases systems raw s = ([Connect, Disconnect], Inl e)"
  using assms databases_rows_name_error [OF assms(4,5), of raw post]
  by (simp add: extract_analyses_from_all_databases_def)

text \<open>C15: when the database's \<open>Analyses\<close> collection raises \<open>AttributeError\<close>, its name can be read, and the element tree fits the recursion budget with no element failing both its \<open>Analyses\<close> and \<open>Name\<close> reads, \<open>extract_analyses\<close> returns the successful extractions of every analysis of the tree in pre-order, and disconnects.\<close>

theorem extract_analyses_fallback:
  "open_db srv d = Inr db \<Longrightarrow> db_name db = Inr n \<Longrightarrow> db_analyses db = Inl AttributeError \<Longrightarrow>
   height (db_elements db) \<le> limit \<Longrightarrow> no_reraise (db_elements db) \<Longrightarrow>
   extract_analyses systems open_db raw ext limit srv (Some d)
     = ([Connect, Disconnect], Inr (List.map_filter ext (preorder (db_elements db))))"
  by (simp add: extract_analyses_def search_walk walk_elements_map_filter)

theorem extract_analyses_fallback_witness:
  "extract_analyses (\<lambda>_. None) (\<lambda>_ _. Inr demo_db) (\<lambda>_ _. None) Some 3 ''GENCOPI'' (Some ''DB1'')
     = ([Connect, Disconnect], Inr [1, 2, 3, 4, 5])"
  using extract_analyses_fallback [of "\<lambda>_ _. Inr demo_db" "''GENCOPI''" "''DB1''" demo_db "''DB1''" 3
      "\<lambda>_. None" "\<lambda>_ _. None" Some]
  by (simp add: demo_db_def demo_tree_def el_def map_filter_simps)

theorem all_databases_rows_witness:
  "demo_systems ''GENCOPI'' = Some (the (demo_systems ''GENCOPI'')) \<and>
   extract_analyses_from_all_databases demo_systems demo_raw ''GENCOPI''
     = ([Connect, Disconnect], Inr [(''DB1'', 1), (''DB1'', 3)])"
proof -
  let ?sys = "the (demo_systems ''GENCOPI'')"
  have h1: "demo_systems ''GENCOPI'' = Some ?sys" by (simp add: demo_systems_def)
  have h2: "sys_connect ?sys = Inr ()" by (simp add: demo_systems_def)
  have h3: "sys_databases ?sys = Inr [\<lparr>db_name = Inr ''DB1'', db_analyses = Inr [1, 2, 3], db_elements = []\<rparr>,
                 \<lparr>db_name = Inr ''DB2'', db_analyses = Inl KeyError, db_elements = []\<rparr>]"
    by (simp add: demo_systems_def)
  have h4: "map db_name [\<lparr>db_name = Inr ''DB1'', db_analyses = Inr [1::nat, 2, 3], db_elements = []\<rparr>,
                 \<lparr>db_name = Inr ''DB2'', db_analyses = Inl KeyError, db_elements = []\<rparr>] = map Inr [''DB1'', ''DB2'']"
    by simp
  from all_databases_rows [where systems = demo_systems and s = "''GENCOPI''" and sys = ?sys and dbs = "[\<lparr>db_name = Inr ''DB1'', db_analyses = Inr [1, 2, 3], db_elements = []\<rparr>,
                 \<lparr>db_name = Inr ''DB2'', db_analyses = Inl KeyError, db_elements = []\<rparr>]"
      and names = "[''DB1'', ''DB2'']" and raw = demo_raw, OF h1 h2 h3 h4] h1 show ?thesis
    by (simp add: demo_raw_def map_filter_simps)
qed

theorem all_databases_name_error_witness:
  "extract_analyses_from_all_databases demo_bad_name_systems demo_raw ''GENCOPI'' = ([Connect, Disconnect], Inl KeyError)"
proof -
  let ?sys = "the (demo_bad_name_systems ''GENCOPI'')"
  let ?d1 = "\<lparr>db_name = Inr ''DB1'', db_analyses = Inr [1::nat, 2, 3], db_elements = []\<rparr>"
  let ?d2 = "\<lparr>db_name = Inl KeyError, db_analyses = Inr [4::nat], db_elements = []\<rparr>"
  have h1: "demo_bad_name_systems ''GENCOPI'' = Some ?sys" by (simp add: demo_bad_name_systems_def)
  have h2: "sys_connect ?sys = Inr ()" by (simp add: demo_bad_name_systems_def)
  have h3: "sys_databases ?sys = Inr ([?d1] @ ?d2 # [])" by (simp add: demo_bad_name_systems_def)
  have h4: "\<forall>d\<in>set [?d1]. \<exists>n. db_name d = Inr n" by simp
  have h5: "db_name ?d2 = Inl KeyError" by simp
  show ?thesis by (rule all_databases_name_error [where systems = demo_bad_name_systems and s = "''GENCOPI''" and sys = ?sys and raw = demo_raw and pre = "[?d1]" and db = ?d2 and post = "[]", OF h1 h2 h3 h4 h5])
qed

end
