(* ===== verification/PiPoints.thy ===== *)
theory PiPoints
  imports Types
begin

text \<open>
  The point extraction script \<open>src/examples/extract_pipoints.py\<close>: the
  conversion of a .NET \<open>DateTime\<close> (\<open>convert_net_datetime\<close>), the conversion of
  one attribute value read from \<open>GetAttributes\<close>, the dictionary built for one
  point with its nested \<open>try\<close> blocks, and the batch loop of
  \<open>extract_pi_points\<close> with its per-point fallback entry.
\<close>

section \<open>.NET date and time\<close>

record net_datetime =
  nd_year :: int
  nd_month :: int
  nd_day :: int
  nd_hour :: int
  nd_minute :: int
  nd_second :: int
  nd_millisecond :: int

definition is_leap :: "int \<Rightarrow> bool" where
  "is_leap y \<longleftrightarrow> y mod 4 = 0 \<and> (y mod 100 \<noteq> 0 \<or> y mod 400 = 0)"

definition days_in_month :: "int \<Rightarrow> int \<Rightarrow> int" where
  "days_in_month y m =
     (if m = 2 then (if is_leap y then 29 else 28)
      else if m \<in> {4, 6, 9, 11} then 30 else 31)"

text \<open>The range checks of Python's \<open>datetime(...)\<close> constructor, which raises \<open>ValueError\<close>.\<close>

definition datetime_args_ok :: "int \<Rightarrow> int \<Rightarrow> int \<Rightarrow> int \<Rightarrow> int \<Rightarrow> int \<Rightarrow> int \<Rightarrow> bool" where
  "datetime_args_ok y mo d h mi s us \<longleftrightarrow>
     1 \<le> y \<and> y \<le> 9999 \<and> 1 \<le> mo \<and> mo \<le> 12 \<and> 1 \<le> d \<and> d \<le> days_in_month y mo \<and>
     0 \<le> h \<and> h < 24 \<and> 0 \<le> mi \<and> mi < 60 \<and> 0 \<le> s \<and> s < 60 \<and> 0 \<le> us \<and> us < 1000000"

definition convert_net_datetime :: "net_datetime \<Rightarrow> datetime option" where
  "convert_net_datetime nd =
     (let us = nd_millisecond nd * 1000 in
      if datetime_args_ok (nd_year nd) (nd_month nd) (nd_day nd) (nd_hour nd) (nd_minute nd)
           (nd_second nd) us
      then Some \<lparr>dt_year = nat (nd_year nd), dt_month = nat (nd_month nd), dt_day = nat (nd_day nd),
                 dt_hour = nat (nd_hour nd), dt_minute = nat (nd_minute nd),
                 dt_second = nat (nd_second nd), dt_microsecond = nat us\<rparr>
      else None)"

section \<open>Attribute values\<close>

text \<open>
  A value read from the attribute dictionary: a Python value (pythonnet has
  already converted the .NET primitive; it has no \<open>ToString\<close>), or a .NET
  object, given by the outcomes of \<open>str(value)\<close>, \<open>float(value)\<close>,
  \<open>int(value)\<close> and \<open>str(value.ToString())\<close> (\<open>Inl\<close> for the exception each
  raises).
\<close>

datatype attr_value =
  AttrPy py_value
| AttrNet "string py_result" "real py_result" "int py_result" "string py_result"

text \<open>\<open>except (ValueError, TypeError)\<close>: the handler runs for those two, any other exception propagates.\<close>

definition except_value_type :: "'a py_result \<Rightarrow> 'a py_result \<Rightarrow> 'a py_result" where
  "except_value_type r handler =
     (case r of
        Inl e \<Rightarrow> if e = ValueError \<or> e = TypeError then handler else Inl e
      | Inr v \<Rightarrow> Inr v)"

text \<open>
  The conversion of one attribute value (lines 160-171): a .NET object is read
  as a float when its text holds a point, else as an int; when \<open>str()\<close> or the
  conversion raises \<open>ValueError\<close> or \<open>TypeError\<close>, its \<open>ToString()\<close> text. An
  exception that escapes (from \<open>ToString()\<close>, or any other) reaches the
  per-attribute handler, which stores \<open>None\<close>.
\<close>

fun convert_attribute :: "attr_value \<Rightarrow> py_value py_result" where
  "convert_attribute (AttrPy v) = Inr v"
| "convert_attribute (AttrNet s f i t) =
     except_value_type
       (rbind s (\<lambda>str_val. if py_in ''.'' str_val then map_sum id PyFloat f else map_sum id PyInt i))
       (rbind t (\<lambda>txt. Inr (PyStr txt)))"

text \<open>
  \<open>cv_val\<close> of the current value: \<open>float(cv_val)\<close>, else (on \<open>ValueError\<close> or
  \<open>TypeError\<close>) its text when it is truthy; a .NET object is truthy.
\<close>

fun current_value_of :: "attr_value \<Rightarrow> py_value py_result" where
  "current_value_of (AttrPy v) =
     (case py_float_value v of
        Inr r \<Rightarrow> Inr (PyFloat r)
      | Inl _ \<Rightarrow> Inr (case v of PyStr s \<Rightarrow> if s \<noteq> [] then PyStr s else PyNone | _ \<Rightarrow> PyNone))"
| "current_value_of (AttrNet s f i t) =
     except_value_type (map_sum id PyFloat f) (rbind s (\<lambda>txt. Inr (PyStr txt)))"

definition point_attributes :: "string list" where
  "point_attributes =
     [''pointid'', ''tag'', ''pointtype'', ''pointtypex'', ''descriptor'', ''engunits'', ''zero'',
      ''span'', ''displaydigits'', ''typicalvalue'', ''pointsource'', ''sourcetag'', ''step'',
      ''future'', ''compressing'', ''compdev'', ''compdevpercent'', ''compmin'', ''compmax'',
      ''excdev'', ''excdevpercent'', ''excmin'', ''excmax'', ''filtercode'', ''shutdown'',
      ''archiving'', ''scan'', ''location1'', ''location2'', ''location3'', ''location4'',
      ''location5'', ''userint1'', ''userint2'', ''userreal1'', ''userreal2'', ''digitalset'',
      ''ptclassname'', ''ptclassid'', ''ptsecurity'', ''datasecurity'', ''squession'',
      ''totalcode'', ''exdesc'', ''instrumenttag'', ''creationdate'', ''creator'',
      ''changedate'', ''changer'', ''ptowner'', ''ptgroup'', ''ptaccess'', ''recno'']"

section \<open>One point\<close>

text \<open>
  The values of the output dictionary: a Python value, the text of an
  exception (\<open>str(e)\<close>), a converted date or a nested dictionary.
\<close>

datatype info_value =
  IVal py_value | IErr py_error | IDate "datetime option" | IDict "(string \<times> info_value) list"

record net_current =
  nc_value :: attr_value
  nc_timestamp :: net_datetime
  nc_is_good :: bool

text \<open>
  A PI point handle as the script sees it: \<open>None\<close> for a missing Python
  attribute, \<open>Inl\<close> for a read or call that raises. \<open>np_attrs\<close> is
  \<open>GetAttributes\<close>: for each name the dictionary holds, reading the entry may
  raise. \<open>np_current\<close> is \<open>CurrentValue()\<close>, \<open>np_class\<close> the point class's
  \<open>Name\<close> and \<open>ID\<close> when the class is present, \<open>np_server\<close> the server name.
\<close>

record net_point =
  np_name :: "string py_result option"
  np_id :: "int py_result option"
  np_attrs :: "(string \<times> attr_value py_result) list py_result"
  np_current :: "net_current option py_result"
  np_class :: "(string option \<times> int option) option py_result"
  np_server :: "string option py_result"

type_synonym point_info = "(string, info_value) pydict"

definition attribute_entry :: "(string \<times> attr_value py_result) list \<Rightarrow> string \<Rightarrow> info_value" where
  "attribute_entry attrs a =
     (case map_of attrs a of
        Some (Inr v) \<Rightarrow> (case convert_attribute v of Inr x \<Rightarrow> IVal x | Inl _ \<Rightarrow> IVal PyNone)
      | Some (Inl _) \<Rightarrow> IVal PyNone
      | None \<Rightarrow> IVal PyNone)"

definition add_attributes ::
  "(string \<times> attr_value py_result) list py_result \<Rightarrow> point_info \<Rightarrow> point_info" where
  "add_attributes r info =
     (case r of
        Inl e \<Rightarrow> dict_set ''attributes_error'' (IErr e) info
      | Inr attrs \<Rightarrow> fold (\<lambda>a d. dict_set a (attribute_entry attrs a) d) point_attributes info)"

definition add_current :: "net_current option py_result \<Rightarrow> point_info \<Rightarrow> point_info" where
  "add_current r info =
     (case r of
        Inl _ \<Rightarrow> dict_set ''current_value'' (IVal PyNone) info
      | Inr None \<Rightarrow> info
      | Inr (Some cv) \<Rightarrow>
          (case current_value_of (nc_value cv) of
             Inl _ \<Rightarrow> dict_set ''current_value'' (IVal PyNone) info
           | Inr cv_val \<Rightarrow>
               dict_set ''current_value''
                 (IDict [(''value'', IVal cv_val),
                         (''timestamp'', IDate (convert_net_datetime (nc_timestamp cv))),
                         (''is_good'', IVal (PyBool (nc_is_good cv)))]) info))"

definition opt_val :: "('a \<Rightarrow> py_value) \<Rightarrow> 'a option \<Rightarrow> info_value" where
  "opt_val f x = (case x of Some v \<Rightarrow> IVal (f v) | None \<Rightarrow> IVal PyNone)"

definition add_class :: "(string option \<times> int option) option py_result \<Rightarrow> point_info \<Rightarrow> point_info" where
  "add_class r info =
     (case r of
        Inl _ \<Rightarrow> dict_set ''point_class'' (IVal PyNone) info
      | Inr None \<Rightarrow> info
      | Inr (Some (nm, cid)) \<Rightarrow>
          dict_set ''point_class'' (IDict [(''name'', opt_val PyStr nm), (''id'', opt_val PyInt cid)]) info)"

definition add_server :: "string option py_result \<Rightarrow> point_info \<Rightarrow> point_info" where
  "add_server r info =
     (case r of
        Inl _ \<Rightarrow> dict_set ''server_name'' (IVal PyNone) info
      | Inr None \<Rightarrow> info
      | Inr (Some s) \<Rightarrow> dict_set ''server_name'' (IVal (PyStr s)) info)"

text \<open>
  The entries one point adds to \<open>points_list\<close>. Only reading \<open>Name\<close> and
  \<open>ID\<close> is outside an inner \<open>try\<close>; when it raises, the fallback appends a
  stub with the name (or \<open>Unknown\<close>) and the error, unless reading the name
  raises again, in which case nothing is appended.
\<close>

definition point_rows :: "net_point \<Rightarrow> point_info list" where
  "point_rows p =
     (case np_name p of
        None \<Rightarrow> [[(''name'', IVal (PyStr ''Unknown'')), (''error'', IErr AttributeError)]]
      | Some (Inl e) \<Rightarrow> []
      | Some (Inr n) \<Rightarrow>
          (case np_id p of
             Some (Inl e) \<Rightarrow> [[(''name'', IVal (PyStr n)), (''error'', IErr e)]]
           | _ \<Rightarrow>
               [add_server (np_server p) (add_class (np_class p) (add_current (np_current p)
                  (add_attributes (np_attrs p)
                    [(''name'', IVal (PyStr n)), (''id'', opt_val PyInt (case np_id p of Some (Inr i) \<Rightarrow> Some i | _ \<Rightarrow> None))])))]))"

section \<open>The batch\<close>

text \<open>
  \<open>extract_pi_points\<close>: the connection context manager (\<open>open_conn\<close>,
  from the specification) and \<open>search_points(pattern, max_count)\<close>; a failure
  of either propagates, every per-point failure is absorbed.
\<close>

definition extract_pi_points ::
  "(string \<Rightarrow> unit py_result) \<Rightarrow> (string \<Rightarrow> int \<Rightarrow> net_point list py_result)
   \<Rightarrow> string \<Rightarrow> string \<Rightarrow> int \<Rightarrow> point_info list py_result" where
  "extract_pi_points open_conn search_points pi_server pattern max_count =
     rbind (open_conn pi_server) (\<lambda>_.
       rbind (search_points pattern max_count) (\<lambda>points.
         Inr (concat (map point_rows points))))"

definition shown_name :: "net_point \<Rightarrow> string option" where
  "shown_name p = (case np_name p of None \<Rightarrow> Some ''Unknown'' | Some (Inr n) \<Rightarrow> Some n | Some (Inl _) \<Rightarrow> None)"

section \<open>Concrete inputs for the witnesses\<close>

definition demo_net_point :: net_point where
  "demo_net_point =
     \<lparr>np_name = Some (Inr ''SINUSOID''), np_id = Some (Inr 12),
      np_attrs = Inr [(''tag'', Inr (AttrPy (PyStr ''SINUSOID''))),
                      (''zero'', Inr (AttrNet (Inr ''0.5'') (Inr 0.5) (Inl ValueError) (Inr ''0.5''))),
                      (''step'', Inl TypeError)],
      np_current = Inl (SDKError ''timeout''), np_class = Inr None, np_server = Inr (Some ''GENCOPI'')\<rparr>"

definition demo_net_points :: "net_point list" where
  "demo_net_points =
     [demo_net_point, demo_net_point\<lparr>np_name := Some (Inl TypeError)\<rparr>,
      demo_net_point\<lparr>np_name := None\<rparr>,
      demo_net_point\<lparr>np_name := Some (Inr ''CDT158''), np_id := Some (Inl ValueError)\<rparr>]"

section \<open>Properties\<close>


lemma fold_dict_set_keys:
  "distinct ks \<Longrightarrow> set ks \<inter> set (map fst d) = {} \<Longrightarrow>
   map fst (fold (\<lambda>a d. dict_set a (f a) d) ks d) = map fst d @ ks"
proof (induction ks arbitrary: d)
  case (Cons a ks)
  have k: "map fst (dict_set a (f a) d) = map fst d @ [a]" using Cons.prems by simp
  then have "set ks \<inter> set (map fst (dict_set a (f a) d)) = {}" using Cons.prems by auto
  with Cons.IH [of "dict_set a (f a) d"] Cons.prems k show ?case by (simp del: dict_set_keys)
qed simp

lemma fold_dict_set_lookup:
  "map_of (fold (\<lambda>a d. dict_set a (f a) d) ks d) k = (if k \<in> set ks then Some (f k) else map_of d k)"
  by (induction ks arbitrary: d) (auto simp: update_conv')

lemma dict_set_keys_prefix: "\<exists>t. map fst (dict_set k v d) = map fst d @ t"
  by (auto simp del: map_map)

lemma add_keys_prefix:
  "\<exists>t. map fst (add_current r d) = map fst d @ t"
  "\<exists>t. map fst (add_class c d) = map fst d @ t"
  "\<exists>t. map fst (add_server s d) = map fst d @ t"
  by (auto simp: add_current_def add_class_def add_server_def split: sum.splits option.splits prod.splits
           simp del: dict_set_keys intro: dict_set_keys_prefix exI [of _ "[]"])

lemma add_lookup_other:
  "k \<notin> {''current_value''} \<Longrightarrow> map_of (add_current r d) k = map_of d k"
  "k \<notin> {''point_class''} \<Longrightarrow> map_of (add_class c d) k = map_of d k"
  "k \<notin> {''server_name''} \<Longrightarrow> map_of (add_server s d) k = map_of d k"
  by (auto simp: add_current_def add_class_def add_server_def update_conv'
           split: sum.splits option.splits prod.splits)

lemma point_attributes_facts:
  "distinct point_attributes"
  "''name'' \<notin> set point_attributes" "''id'' \<notin> set point_attributes"
  "''current_value'' \<notin> set point_attributes" "''point_class'' \<notin> set point_attributes"
  "''server_name'' \<notin> set point_attributes" "''attributes_error'' \<noteq> ''name''"
  by (simp_all add: point_attributes_def)

lemma add_attributes_lookup_name: "map_of (add_attributes r d) ''name'' = map_of d ''name''"
  using point_attributes_facts(2)
  by (auto simp: add_attributes_def fold_dict_set_lookup update_conv' split: sum.splits)

lemma point_info_name:
  "map_of (add_server s (add_class c (add_current r (add_attributes a d)))) ''name'' = map_of d ''name''"
  by (simp add: add_lookup_other add_attributes_lookup_name)

lemma point_rows_name:
  "map (\<lambda>info. map_of info ''name'') (point_rows p) =
   (case shown_name p of None \<Rightarrow> [] | Some n \<Rightarrow> [Some (IVal (PyStr n))])"
  by (auto simp: point_rows_def shown_name_def point_info_name split: option.splits sum.splits)

lemma rows_names:
  "map (\<lambda>info. map_of info ''name'') (concat (map point_rows pts))
   = map (\<lambda>n. Some (IVal (PyStr n))) (List.map_filter shown_name pts)"
proof (induction pts)
  case (Cons p pts)
  then show ?case
    using point_rows_name [of p] by (simp add: map_filter_simps split: option.splits)
qed (simp add: map_filter_simps)

text \<open>
  C23: when the point's name, id and attribute dictionary can be read, the
  point gives exactly one entry whose keys start with \<open>name\<close>, \<open>id\<close> and
  the 53 attribute names in the script's order, each attribute holding its
  converted value or \<open>None\<close> when it is absent or unreadable; a failing
  \<open>CurrentValue()\<close>, point class or server read does not remove it.
\<close>

theorem point_rows_attributes:
  assumes "np_name p = Some (Inr n)" "np_id p = Some (Inr i)" "np_attrs p = Inr attrs"
  shows "\<exists>info. point_rows p = [info]
           \<and> take (2 + length point_attributes) (map fst info) = ''name'' # ''id'' # point_attributes
           \<and> (\<forall>a\<in>set point_attributes. map_of info a = Some (attribute_entry attrs a))
           \<and> map_of info ''name'' = Some (IVal (PyStr n))"
proof -
  define base where "base = [(''name'', IVal (PyStr n)), (''id'', IVal (PyInt i))]"
  define A where "A = add_attributes (Inr attrs) base"
  define info where "info = add_server (np_server p) (add_class (np_class p) (add_current (np_current p) A))"
  have rows: "point_rows p = [info]"
    using assms by (simp add: point_rows_def info_def A_def base_def opt_val_def)
  have kA: "map fst A = [''name'', ''id''] @ point_attributes"
    using point_attributes_facts(1-3)
    by (simp add: A_def add_attributes_def base_def fold_dict_set_keys)
  obtain t1 t2 t3 where "map fst info = ((map fst A @ t1) @ t2) @ t3"
    using add_keys_prefix(1) [of "np_current p" A] add_keys_prefix(2) [of "np_class p"]
      add_keys_prefix(3) [of "np_server p"] by (metis info_def)
  then have keys: "take (2 + length point_attributes) (map fst info) = ''name'' # ''id'' # point_attributes"
    using kA by simp
  have "map_of info a = Some (attribute_entry attrs a)" if "a \<in> set point_attributes" for a
  proof -
    have "a \<noteq> ''current_value''" "a \<noteq> ''point_class''" "a \<noteq> ''server_name''"
      using that point_attributes_facts(4-6) by auto
    then show ?thesis
      using that by (simp add: info_def add_lookup_other A_def add_attributes_def fold_dict_set_lookup)
  qed
  moreover have "map_of info ''name'' = Some (IVal (PyStr n))"
    by (simp add: info_def A_def point_info_name base_def)
  ultimately show ?thesis using rows keys by blast
qed

theorem point_rows_attributes_witness:
  "\<exists>info. point_rows demo_net_point = [info]
      \<and> map_of info ''zero'' = Some (IVal (PyFloat 0.5))
      \<and> map_of info ''step'' = Some (IVal PyNone)
      \<and> map_of info ''recno'' = Some (IVal PyNone)"
proof -
  obtain info where i: "point_rows demo_net_point = [info]"
    and l: "\<forall>a\<in>set point_attributes. map_of info a
              = Some (attribute_entry [(''tag'', Inr (AttrPy (PyStr ''SINUSOID''))),
                      (''zero'', Inr (AttrNet (Inr ''0.5'') (Inr 0.5) (Inl ValueError) (Inr ''0.5''))), (''step'', Inl TypeError)] a)"
    using point_rows_attributes [of demo_net_point "''SINUSOID''" 12] by (auto simp: demo_net_point_def)
  have "''zero'' \<in> set point_attributes" "''step'' \<in> set point_attributes" "''recno'' \<in> set point_attributes"
    by (simp_all add: point_attributes_def)
  with l have "map_of info ''zero'' = Some (IVal (PyFloat 0.5))" "map_of info ''step'' = Some (IVal PyNone)"
    "map_of info ''recno'' = Some (IVal PyNone)"
    by (simp_all add: attribute_entry_def except_value_type_def)
  with i show ?thesis by blast
qed

text \<open>
  C24: \<open>extract_pi_points\<close> returns, in search order, one entry per point whose
  name can be read (the name, or \<open>Unknown\<close> when the handle has no name);
  only a point whose name read raises twice is dropped.
\<close>

theorem extract_pi_points_rows:
  "extract_pi_points open_conn search_points srv pattern max_count = Inr rows \<Longrightarrow>
   \<exists>pts. search_points pattern max_count = Inr pts
     \<and> map (\<lambda>info. map_of info ''name'') rows = map (\<lambda>n. Some (IVal (PyStr n))) (List.map_filter shown_name pts)"
  by (auto simp: extract_pi_points_def rbind_Inr_iff rows_names)

theorem extract_pi_points_rows_witness:
  "map (\<lambda>info. map_of info ''name'')
      (projr (extract_pi_points (\<lambda>_. Inr ()) (\<lambda>_ _. Inr demo_net_points) ''GENCOPI'' ''*'' 100000))
   = [Some (IVal (PyStr ''SINUSOID'')), Some (IVal (PyStr ''Unknown'')), Some (IVal (PyStr ''CDT158''))]"
proof -
  obtain rows where r: "extract_pi_points (\<lambda>_. Inr ()) (\<lambda>_ _. Inr demo_net_points) ''GENCOPI'' ''*'' 100000 = Inr rows"
    by (simp add: extract_pi_points_def)
  from extract_pi_points_rows [OF r] r show ?thesis
    by (auto simp: demo_net_points_def shown_name_def map_filter_simps demo_net_point_def)
qed

end
