(* ===== verification/PyExec.thy ===== *)
theory PyExec
  imports Prelude
begin

text \<open>
  Python statements over a dictionary under construction: a computation takes
  the dictionary built so far and returns either a value or the exception it
  raised, together with the dictionary as it stands at that point. Assignments
  made before an exception stay in the dictionary, as in Python; \<open>ex_try\<close>
  is \<open>try: ... except Exception: ...\<close>. Attribute reads on vendor objects
  (\<open>obj.X\<close>, \<open>hasattr(obj, "X")\<close>) are given by \<open>'a net_attr\<close>.

  For the shape of the dictionary, \<open>adds K ks m\<close> says that when \<open>m\<close> returns
  normally from a dictionary whose keys include \<open>K\<close> and exclude \<open>ks\<close>, it has
  appended exactly the keys \<open>ks\<close>; \<open>raise_keeps K m\<close> says that when it
  raises, no key has been added yet. The rules of the collection
  \<open>shape_intros\<close> derive both for a statement from its parts.
\<close>

type_synonym ('s, 'a) pyexec = "'s \<Rightarrow> (py_error + 'a) \<times> 's"

definition ex_return :: "'a \<Rightarrow> ('s, 'a) pyexec" where
  "ex_return x = (\<lambda>s. (Inr x, s))"

definition ex_lift :: "'a py_result \<Rightarrow> ('s, 'a) pyexec" where
  "ex_lift r = (\<lambda>s. (r, s))"

definition ex_raise :: "py_error \<Rightarrow> ('s, 'a) pyexec" where
  "ex_raise e = (\<lambda>s. (Inl e, s))"

definition ex_bind :: "('s, 'a) pyexec \<Rightarrow> ('a \<Rightarrow> ('s, 'b) pyexec) \<Rightarrow> ('s, 'b) pyexec" where
  "ex_bind m f = (\<lambda>s. case m s of (Inl e, s') \<Rightarrow> (Inl e, s') | (Inr a, s') \<Rightarrow> f a s')"

definition ex_try :: "('s, 'a) pyexec \<Rightarrow> (py_error \<Rightarrow> ('s, 'a) pyexec) \<Rightarrow> ('s, 'a) pyexec" where
  "ex_try m h = (\<lambda>s. case m s of (Inl e, s') \<Rightarrow> h e s' | (Inr a, s') \<Rightarrow> (Inr a, s'))"

definition ex_get :: "('s, 's) pyexec" where
  "ex_get = (\<lambda>s. (Inr s, s))"

definition ex_run :: "('s, 'a) pyexec \<Rightarrow> 's \<Rightarrow> 's py_result" where
  "ex_run m s0 = (case m s0 of (Inl e, _) \<Rightarrow> Inl e | (Inr _, s) \<Rightarrow> Inr s)"

text \<open>\<open>d[k] = v\<close> on the dictionary under construction.\<close>

definition assign :: "'k \<Rightarrow> 'v \<Rightarrow> (('k, 'v) pydict, unit) pyexec" where
  "assign k v = (\<lambda>s. (Inr (), dict_set k v s))"

text \<open>Two statements in sequence.\<close>

definition ex_seq :: "('s, 'a) pyexec \<Rightarrow> ('s, 'b) pyexec \<Rightarrow> ('s, 'b) pyexec" where
  "ex_seq m n = ex_bind m (\<lambda>_. n)"

section \<open>Attributes of vendor objects\<close>

text \<open>
  An attribute of a .NET object as Python sees it: absent (reading it raises
  \<open>AttributeError\<close>, \<open>hasattr\<close> is false), a getter that raises another
  exception (which \<open>hasattr\<close> lets through), or a value.
\<close>

datatype 'a net_attr = Absent | Fails py_error | Val 'a

fun getattr :: "'a net_attr \<Rightarrow> 'a py_result" where
  "getattr Absent = Inl AttributeError"
| "getattr (Fails e) = Inl e"
| "getattr (Val x) = Inr x"

fun hasattr :: "'a net_attr \<Rightarrow> bool py_result" where
  "hasattr Absent = Inr False"
| "hasattr (Fails e) = Inl e"
| "hasattr (Val x) = Inr True"

text \<open>\<open>hasattr(o, "X") and o.X\<close> for an attribute holding an object or \<open>None\<close>.\<close>

definition attr_truthy :: "'a option net_attr \<Rightarrow> ('s, 'a option) pyexec" where
  "attr_truthy p =
     ex_bind (ex_lift (hasattr p)) (\<lambda>h. if h then ex_lift (getattr p) else ex_return None)"

text \<open>\<open>f(o.X) if hasattr(o, "X") else d\<close>.\<close>

definition attr_or :: "'a net_attr \<Rightarrow> ('a \<Rightarrow> ('s, 'b) pyexec) \<Rightarrow> ('s, 'b) pyexec \<Rightarrow> ('s, 'b) pyexec" where
  "attr_or p f d = ex_bind (ex_lift (hasattr p)) (\<lambda>h. if h then ex_bind (ex_lift (getattr p)) f else d)"

section \<open>Shape of the dictionary\<close>

definition adds :: "'k set \<Rightarrow> 'k list \<Rightarrow> (('k, 'v) pydict, 'a) pyexec \<Rightarrow> bool" where
  "adds K ks m \<longleftrightarrow>
     (\<forall>s a s'. K \<subseteq> set (map fst s) \<longrightarrow> set ks \<inter> set (map fst s) = {} \<longrightarrow>
        m s = (Inr a, s') \<longrightarrow> map fst s' = map fst s @ ks)"

definition raise_keeps :: "'k set \<Rightarrow> (('k, 'v) pydict, 'a) pyexec \<Rightarrow> bool" where
  "raise_keeps K m \<longleftrightarrow>
     (\<forall>s e s'. K \<subseteq> set (map fst s) \<longrightarrow> m s = (Inl e, s') \<longrightarrow> map fst s' = map fst s)"

named_theorems shape_intros

lemma ex_simps [simp]:
  "ex_return x s = (Inr x, s)"
  "ex_lift r s = (r, s)"
  "ex_get s = (Inr s, s)"
  "ex_raise e s = (Inl e, s)"
  "assign k v s = (Inr (), dict_set k v s)"
  by (simp_all add: ex_return_def ex_lift_def ex_get_def ex_raise_def assign_def)

lemma ex_bind_apply [simp]:
  "ex_bind m f s = (case m s of (Inl e, s') \<Rightarrow> (Inl e, s') | (Inr a, s') \<Rightarrow> f a s')"
  by (simp add: ex_bind_def)

lemma ex_seq_apply [simp]:
  "ex_seq m n s = (case m s of (Inl e, s') \<Rightarrow> (Inl e, s') | (Inr a, s') \<Rightarrow> n s')"
  by (simp add: ex_seq_def)

lemma ex_try_apply [simp]:
  "ex_try m h s = (case m s of (Inl e, s') \<Rightarrow> h e s' | (Inr a, s') \<Rightarrow> (Inr a, s'))"
  by (simp add: ex_try_def)

lemma adds_return [shape_intros]: "ks = [] \<Longrightarrow> adds K ks (ex_return x)"
  and adds_lift [shape_intros]: "ks = [] \<Longrightarrow> adds K ks (ex_lift r)"
  and adds_get [shape_intros]: "ks = [] \<Longrightarrow> adds K ks ex_get"
  and raise_keeps_return [shape_intros]: "raise_keeps K (ex_return x)"
  and raise_keeps_lift [shape_intros]: "raise_keeps K (ex_lift r)"
  and raise_keeps_get [shape_intros]: "raise_keeps K ex_get"
  by (simp_all add: adds_def raise_keeps_def)

lemma raise_shape [shape_intros]: "adds K ks (ex_raise e)" "raise_keeps K (ex_raise e)"
  by (simp_all add: adds_def raise_keeps_def)

lemma let_shape [shape_intros]:
  "adds K ks (f x) \<Longrightarrow> adds K ks (Let x f)" "raise_keeps K (f x) \<Longrightarrow> raise_keeps K (Let x f)"
  by simp_all

lemma adds_assign [shape_intros]: "ks = (if k \<in> K then [] else [k]) \<Longrightarrow> adds K ks (assign k v)"
  by (auto simp: adds_def)

lemma raise_keeps_assign [shape_intros]: "raise_keeps K (assign k v)"
  by (simp add: raise_keeps_def)

lemma addsD:
  "adds K ks m \<Longrightarrow> K \<subseteq> set (map fst s) \<Longrightarrow> set ks \<inter> set (map fst s) = {} \<Longrightarrow>
   m s = (Inr a, s') \<Longrightarrow> map fst s' = map fst s @ ks"
  unfolding adds_def by blast

lemma raise_keepsD:
  "raise_keeps K m \<Longrightarrow> K \<subseteq> set (map fst s) \<Longrightarrow> m s = (Inl e, s') \<Longrightarrow> map fst s' = map fst s"
  unfolding raise_keeps_def by blast

lemma adds_bind_append:
  assumes "adds K ks1 m" "\<And>a. adds (K \<union> set ks1) ks2 (f a)" "set ks1 \<inter> set ks2 = {}"
  shows "adds K (ks1 @ ks2) (ex_bind m f)"
  unfolding adds_def
proof (intro allI impI)
  fix s b s'
  assume K: "K \<subseteq> set (map fst s)" and fr: "set (ks1 @ ks2) \<inter> set (map fst s) = {}"
    and run: "ex_bind m f s = (Inr b, s')"
  then obtain a s1 where m: "m s = (Inr a, s1)" and f: "f a s1 = (Inr b, s')"
    by (auto split: prod.splits sum.splits)
  have k1: "map fst s1 = map fst s @ ks1" using addsD [OF assms(1) K _ m] fr by auto
  have "K \<union> set ks1 \<subseteq> set (map fst s1)" "set ks2 \<inter> set (map fst s1) = {}"
    using k1 K fr assms(3) by auto
  from addsD [OF assms(2) this f] k1 show "map fst s' = map fst s @ ks1 @ ks2" by simp
qed

lemma adds_bind [shape_intros]:
  "adds K ks1 m \<Longrightarrow> (\<And>a. adds (K \<union> set ks1) ks2 (f a)) \<Longrightarrow> set ks1 \<inter> set ks2 = {} \<Longrightarrow>
   ks = ks1 @ ks2 \<Longrightarrow> adds K ks (ex_bind m f)"
  using adds_bind_append by blast

lemma adds_seq [shape_intros]:
  "adds K ks1 m \<Longrightarrow> adds (K \<union> set ks1) ks2 n \<Longrightarrow> set ks1 \<inter> set ks2 = {} \<Longrightarrow>
   ks = ks1 @ ks2 \<Longrightarrow> adds K ks (ex_seq m n)"
  using adds_bind_append [of K ks1 m ks2 "\<lambda>_. n"] by (simp add: ex_seq_def)

lemma raise_keeps_bind [shape_intros]:
  assumes "raise_keeps K m" "adds K [] m" "\<And>a. raise_keeps K (f a)"
  shows "raise_keeps K (ex_bind m f)"
  unfolding raise_keeps_def
proof (intro allI impI)
  fix s e s'
  assume K: "K \<subseteq> set (map fst s)" and run: "ex_bind m f s = (Inl e, s')"
  show "map fst s' = map fst s"
  proof (cases "m s")
    case (Pair r s1)
    show ?thesis
    proof (cases r)
      case (Inl e')
      with Pair run raise_keepsD [OF assms(1) K] show ?thesis by auto
    next
      case (Inr a)
      with Pair have m: "m s = (Inr a, s1)" by simp
      then have k: "map fst s1 = map fst s" using addsD [OF assms(2) K] by simp
      with K have "K \<subseteq> set (map fst s1)" by simp
      moreover have "f a s1 = (Inl e, s')" using run m by simp
      ultimately show ?thesis using raise_keepsD [OF assms(3)] k by metis
    qed
  qed
qed

lemma raise_keeps_seq [shape_intros]:
  "raise_keeps K m \<Longrightarrow> adds K [] m \<Longrightarrow> raise_keeps K n \<Longrightarrow> raise_keeps K (ex_seq m n)"
  unfolding ex_seq_def by (rule raise_keeps_bind)

lemma adds_try [shape_intros]:
  assumes "adds K ks m" "raise_keeps K m" "\<And>e. adds K ks (h e)"
  shows "adds K ks (ex_try m h)"
  unfolding adds_def
proof (intro allI impI)
  fix s a s'
  assume K: "K \<subseteq> set (map fst s)" and fr: "set ks \<inter> set (map fst s) = {}"
    and run: "ex_try m h s = (Inr a, s')"
  show "map fst s' = map fst s @ ks"
  proof (cases "m s")
    case (Pair r s1)
    show ?thesis
    proof (cases r)
      case (Inl e)
      with Pair have m: "m s = (Inl e, s1)" by simp
      then have k: "map fst s1 = map fst s" using raise_keepsD [OF assms(2) K] by simp
      have "h e s1 = (Inr a, s')" using run m by simp
      moreover have "K \<subseteq> set (map fst s1)" "set ks \<inter> set (map fst s1) = {}" using k K fr by simp_all
      ultimately show ?thesis using addsD [OF assms(3)] k by metis
    next
      case (Inr b)
      with Pair run addsD [OF assms(1) K fr] show ?thesis by auto
    qed
  qed
qed

lemma raise_keeps_try [shape_intros]:
  assumes "raise_keeps K m" "\<And>e. raise_keeps K (h e)"
  shows "raise_keeps K (ex_try m h)"
  unfolding raise_keeps_def
proof (intro allI impI)
  fix s e s'
  assume K: "K \<subseteq> set (map fst s)" and run: "ex_try m h s = (Inl e, s')"
  then obtain e1 s1 where m: "m s = (Inl e1, s1)" and h: "h e1 s1 = (Inl e, s')"
    by (auto split: prod.splits sum.splits)
  have k: "map fst s1 = map fst s" using raise_keepsD [OF assms(1) K m] .
  with K have "K \<subseteq> set (map fst s1)" by simp
  from raise_keepsD [OF assms(2) this h] k show "map fst s' = map fst s" by simp
qed

lemma adds_if [shape_intros]: "adds K ks m1 \<Longrightarrow> adds K ks m2 \<Longrightarrow> adds K ks (if b then m1 else m2)"
  and raise_keeps_if [shape_intros]:
    "raise_keeps K m1 \<Longrightarrow> raise_keeps K m2 \<Longrightarrow> raise_keeps K (if b then m1 else m2)"
  by simp_all

lemma adds_case_option [shape_intros]:
  "adds K ks m1 \<Longrightarrow> (\<And>y. adds K ks (m2 y)) \<Longrightarrow> adds K ks (case x of None \<Rightarrow> m1 | Some y \<Rightarrow> m2 y)"
  and raise_keeps_case_option [shape_intros]:
  "raise_keeps K m1 \<Longrightarrow> (\<And>y. raise_keeps K (m2 y)) \<Longrightarrow>
   raise_keeps K (case x of None \<Rightarrow> m1 | Some y \<Rightarrow> m2 y)"
  by (cases x; simp)+

lemma attr_truthy_shape [shape_intros]:
  "ks = [] \<Longrightarrow> adds K ks (attr_truthy p)" "raise_keeps K (attr_truthy p)"
  by (cases p; simp add: adds_def raise_keeps_def attr_truthy_def)+

lemma attr_or_shape [shape_intros]:
  "(\<And>x. adds K ks (f x)) \<Longrightarrow> adds K ks d \<Longrightarrow> adds K ks (attr_or p f d)"
  "(\<And>x. raise_keeps K (f x)) \<Longrightarrow> raise_keeps K d \<Longrightarrow> raise_keeps K (attr_or p f d)"
  by (cases p; simp add: adds_def raise_keeps_def attr_or_def)+

lemma adds_run:
  assumes "adds {} ks m" "ex_run m [] = Inr info"
  shows "map fst info = ks"
  using assms addsD [OF assms(1), of "[]"] by (auto simp: ex_run_def split: prod.splits sum.splits)

section \<open>Statements that never raise\<close>

definition never_raises :: "('s, 'a) pyexec \<Rightarrow> bool" where
  "never_raises m \<longleftrightarrow> (\<forall>s e s'. m s \<noteq> (Inl e, s'))"

named_theorems total_intros

lemma never_raises_basic [total_intros]:
  "never_raises (ex_return x)" "never_raises ex_get" "never_raises (assign k v)"
  "never_raises (ex_lift (Inr x))"
  by (simp_all add: never_raises_def ex_return_def ex_get_def ex_lift_def assign_def)

lemma never_raises_bind [total_intros]:
  "never_raises m \<Longrightarrow> (\<And>a. never_raises (f a)) \<Longrightarrow> never_raises (ex_bind m f)"
  unfolding never_raises_def by (auto split: prod.splits sum.splits)

lemma never_raises_seq [total_intros]:
  "never_raises m \<Longrightarrow> never_raises n \<Longrightarrow> never_raises (ex_seq m n)"
  unfolding ex_seq_def by (rule never_raises_bind)

lemma never_raises_try [total_intros]:
  "(\<And>e. never_raises (h e)) \<Longrightarrow> never_raises (ex_try m h)"
  unfolding never_raises_def by (auto split: prod.splits sum.splits)

lemma never_raises_if [total_intros]:
  "never_raises m1 \<Longrightarrow> never_raises m2 \<Longrightarrow> never_raises (if b then m1 else m2)"
  and never_raises_let [total_intros]: "never_raises (f x) \<Longrightarrow> never_raises (Let x f)"
  by simp_all

lemma never_raises_case_option [total_intros]:
  "never_raises m1 \<Longrightarrow> (\<And>y. never_raises (m2 y)) \<Longrightarrow> never_raises (case x of None \<Rightarrow> m1 | Some y \<Rightarrow> m2 y)"
  by (cases x) simp_all

text \<open>A statement followed by one that never raises raises exactly when the first does.\<close>

lemma ex_run_seq_raises:
  "never_raises n \<Longrightarrow> ex_run (ex_seq m n) s = Inl e \<longleftrightarrow> (\<exists>s'. m s = (Inl e, s'))"
  unfolding never_raises_def ex_run_def
  by (auto split: prod.splits sum.splits)

section \<open>Keys a statement may write\<close>

text \<open>\<open>writes_only K m\<close>: whether \<open>m\<close> returns or raises, every key outside \<open>K\<close> keeps its value.\<close>

definition writes_only :: "'k set \<Rightarrow> (('k, 'v) pydict, 'a) pyexec \<Rightarrow> bool" where
  "writes_only K m \<longleftrightarrow> (\<forall>s r s' k. m s = (r, s') \<longrightarrow> k \<notin> K \<longrightarrow> map_of s' k = map_of s k)"

named_theorems frame_intros

lemma writes_only_basic [frame_intros]:
  "writes_only K (ex_return x)" "writes_only K ex_get" "writes_only K (ex_lift r)"
  "writes_only K (ex_raise e)" "writes_only K (attr_truthy p)"
  by (cases p; simp add: writes_only_def attr_truthy_def ex_return_def ex_get_def ex_lift_def ex_raise_def)+

lemma writes_only_assign [frame_intros]: "k \<in> K \<Longrightarrow> writes_only K (assign k v)"
  by (auto simp: writes_only_def update_conv')

lemma writes_only_bind [frame_intros]:
  "writes_only K m \<Longrightarrow> (\<And>a. writes_only K (f a)) \<Longrightarrow> writes_only K (ex_bind m f)"
  unfolding writes_only_def by (auto split: prod.splits sum.splits)

lemma writes_only_seq [frame_intros]:
  "writes_only K m \<Longrightarrow> writes_only K n \<Longrightarrow> writes_only K (ex_seq m n)"
  unfolding ex_seq_def by (rule writes_only_bind)

lemma writes_only_try [frame_intros]:
  "writes_only K m \<Longrightarrow> (\<And>e. writes_only K (h e)) \<Longrightarrow> writes_only K (ex_try m h)"
  unfolding writes_only_def by (auto split: prod.splits sum.splits)

lemma writes_only_if [frame_intros]:
  "writes_only K m1 \<Longrightarrow> writes_only K m2 \<Longrightarrow> writes_only K (if b then m1 else m2)"
  and writes_only_let [frame_intros]: "writes_only K (f x) \<Longrightarrow> writes_only K (Let x f)"
  by simp_all

lemma writes_only_case_option [frame_intros]:
  "writes_only K m1 \<Longrightarrow> (\<And>y. writes_only K (m2 y)) \<Longrightarrow>
   writes_only K (case x of None \<Rightarrow> m1 | Some y \<Rightarrow> m2 y)"
  by (cases x) simp_all

lemma writes_only_attr_or [frame_intros]:
  "(\<And>x. writes_only K (f x)) \<Longrightarrow> writes_only K d \<Longrightarrow> writes_only K (attr_or p f d)"
  unfolding attr_or_def by (rule frame_intros | assumption)+

lemma writes_onlyD:
  "writes_only K m \<Longrightarrow> m s = (r, s') \<Longrightarrow> k \<notin> K \<Longrightarrow> map_of s' k = map_of s k"
  unfolding writes_only_def by blast

text \<open>Running two statements in sequence to a normal end.\<close>

lemma ex_seq_InrE:
  assumes "ex_seq m n s = (Inr a, s'')"
  obtains b s' where "m s = (Inr b, s')" "n s' = (Inr a, s'')"
  using assms by (auto split: prod.splits sum.splits)

section \<open>Pre- and postconditions of a normal end\<close>

definition post :: "('s \<Rightarrow> bool) \<Rightarrow> ('s, 'a) pyexec \<Rightarrow> ('s \<Rightarrow> bool) \<Rightarrow> bool" where
  "post P m Q \<longleftrightarrow> (\<forall>s a s'. P s \<longrightarrow> m s = (Inr a, s') \<longrightarrow> Q s')"

lemma post_seq:
  "post P m R \<Longrightarrow> post R n Q \<Longrightarrow> post P (ex_seq m n) Q"
  unfolding post_def by (auto split: prod.splits sum.splits)

lemma post_true: "post P m (\<lambda>_. True)"
  by (simp add: post_def)

lemma post_keep:
  "writes_only K m \<Longrightarrow> k \<notin> K \<Longrightarrow> post (\<lambda>s. map_of s k = x) m (\<lambda>s. map_of s k = x)"
  unfolding post_def using writes_onlyD by metis

lemma post_run:
  "post (\<lambda>_. True) m Q \<Longrightarrow> ex_run m s0 = Inr s \<Longrightarrow> Q s"
  unfolding post_def ex_run_def by (auto split: prod.splits sum.splits)

end
