(* ===== verification/AnalysisInfo.thy ===== *)
theory AnalysisInfo
  imports Analyses PiPoints PyExec
begin

text \<open>
  The dictionary \<open>extract_analysis_info_raw\<close> and \<open>extract_analysis_info\<close>
  build for one AF analysis in \<open>src/examples/extract_analyses.py\<close>. The
  analysis and the objects it reaches (analysis rule, time rule, plug-ins,
  rule configuration) are records of attributes (\<open>'a net_attr\<close>: absent,
  raising, or a value; an object attribute holds \<open>None\<close> or the object). Each
  commented block of the source is one definition over the statement model of
  \<open>PyExec\<close>, so that an exception inside a \<open>try\<close> block keeps the
  assignments made before it, as in Python. Only the first three reads
  (\<open>Name\<close>, \<open>ID\<close>, \<open>Description\<close>) are outside any \<open>try\<close>.
\<close>

section \<open>The vendor objects\<close>

record af_time_rule =
  tr_plugin :: "py_obj net_attr option net_attr"
  tr_name :: "py_obj net_attr"

record rule_config =
  cfg_true_for :: "py_obj net_attr"
  cfg_severity :: "py_obj net_attr"

text \<open>
  A \<open>TimeSpan\<close> attribute is \<open>None\<close> or the object with its text and, when it
  has one, its \<open>TotalSeconds\<close>. \<open>GetConfiguration\<close> is the outcome of the
  call; \<open>VariableMapping\<close> and \<open>Outputs\<close> are \<open>None\<close> or the length of the
  collection.
\<close>

record af_rule =
  ar_config_string :: "py_obj net_attr"
  ar_expression :: "py_obj net_attr"
  ar_true_for :: "(py_obj \<times> real option) option net_attr"
  ar_true_for_ending :: "(py_obj \<times> real option) option net_attr"
  ar_end_expression :: "py_obj net_attr"
  ar_severity :: "py_obj net_attr"
  ar_plugin :: "py_obj net_attr option net_attr"
  ar_get_configuration :: "rule_config option py_result net_attr"
  ar_variable_mapping :: "nat option net_attr"
  ar_outputs :: "nat option net_attr"
  ar_rollup_type :: "py_obj net_attr"
  ar_rollup_source :: "py_obj net_attr"

text \<open>
  The analysis. \<open>Target\<close> holds the outcome of \<open>GetPath()\<close>; \<open>Version\<close> holds
  what \<open>int(analysis.Version)\<close> gives (\<open>None\<close> when it raises); the dates
  hold \<open>LocalTime\<close> of the .NET value.
\<close>

record af_analysis =
  an_name :: "py_obj net_attr"
  an_id :: "py_obj net_attr"
  an_description :: "py_obj net_attr"
  an_plugin :: "py_obj net_attr option net_attr"
  an_target :: "py_obj py_result option net_attr"
  an_template :: "py_obj net_attr option net_attr"
  an_rule :: "af_rule option net_attr"
  an_status :: "py_obj net_attr"
  an_time_rule :: "af_time_rule option net_attr"
  an_severity :: "py_obj net_attr"
  an_version :: "int option net_attr"
  an_is_checked_out :: "bool net_attr"
  an_checked_out_by :: "py_obj net_attr"
  an_checked_in_date :: "net_datetime option net_attr"
  an_is_dirty :: "bool net_attr"
  an_creation_date :: "net_datetime option net_attr"
  an_created_by :: "py_obj net_attr"
  an_modify_date :: "net_datetime option net_attr"
  an_modified_by :: "py_obj net_attr"

type_synonym analysis_info = "(string, info_value) pydict"

type_synonym stmt = "(analysis_info, unit) pyexec"

section \<open>Value helpers\<close>

text \<open>Python truthiness of an object: \<open>None\<close> and the empty string are false.\<close>

fun obj_truthy :: "py_obj \<Rightarrow> bool" where
  "obj_truthy ObjNone = False"
| "obj_truthy (ObjStr s) = (s \<noteq> [])"
| "obj_truthy ObjStrRaises = True"

definition ostr :: "string option \<Rightarrow> info_value" where
  "ostr x = IVal (case x of Some s \<Rightarrow> PyStr s | None \<Rightarrow> PyNone)"

definition oint :: "int option \<Rightarrow> info_value" where
  "oint x = IVal (case x of Some i \<Rightarrow> PyInt i | None \<Rightarrow> PyNone)"

definition obool :: "bool option \<Rightarrow> info_value" where
  "obool x = IVal (case x of Some b \<Rightarrow> PyBool b | None \<Rightarrow> PyNone)"

abbreviation none_val :: info_value where
  "none_val \<equiv> IVal PyNone"

text \<open>\<open>safe_str(o.X) if hasattr(o, "X") else None\<close>, and \<open>if hasattr(o, "X"): f(o.X)\<close>.\<close>

definition safe_attr :: "py_obj net_attr \<Rightarrow> (analysis_info, string option) pyexec" where
  "safe_attr p = attr_or p (\<lambda>v. ex_return (safe_str v)) (ex_return None)"

definition with_attr :: "'a net_attr \<Rightarrow> ('a \<Rightarrow> stmt) \<Rightarrow> stmt" where
  "with_attr p f = attr_or p f (ex_return ())"

text \<open>\<open>info["k"] = safe_str(x.Name)\<close> when \<open>hasattr(o, "X") and o.X\<close> holds an object, else \<open>None\<close>.\<close>

definition named_object :: "string \<Rightarrow> py_obj net_attr option net_attr \<Rightarrow> stmt" where
  "named_object k p =
     ex_try (ex_bind (attr_truthy p) (\<lambda>po.
               case po of
                 Some obj \<Rightarrow> ex_bind (ex_lift (getattr obj)) (\<lambda>nm. assign k (ostr (safe_str nm)))
               | None \<Rightarrow> assign k none_val))
            (\<lambda>_. assign k none_val)"

text \<open>\<open>element_path = info.get("ElementPath") or ""\<close>.\<close>

fun path_text :: "info_value \<Rightarrow> string" where
  "path_text (IVal (PyStr s)) = s"
| "path_text _ = []"

text \<open>A \<open>TimeSpan\<close> is reported when it has no \<open>TotalSeconds\<close> or a positive one.\<close>

fun time_span_text :: "py_obj \<times> real option \<Rightarrow> string option option" where
  "time_span_text (obj, None) = Some (safe_str obj)"
| "time_span_text (obj, Some secs) = (if 0 < secs then Some (safe_str obj) else None)"

definition count_of :: "nat option \<Rightarrow> info_value" where
  "count_of x = IVal (PyInt (case x of Some n \<Rightarrow> int n | None \<Rightarrow> 0))"

section \<open>The blocks of the extraction\<close>

text \<open>Basic identification: the three reads outside any \<open>try\<close>.\<close>

definition ai_identity :: "af_analysis \<Rightarrow> stmt" where
  "ai_identity a =
     ex_bind (ex_lift (getattr (an_name a))) (\<lambda>n. ex_seq (assign ''Name'' (ostr (safe_str n)))
    (ex_bind (safe_attr (an_id a)) (\<lambda>i. ex_seq (assign ''Id'' (ostr i))
    (ex_bind (ex_lift (getattr (an_description a))) (\<lambda>d.
       assign ''Description'' (ostr (if obj_truthy d then safe_str d else None)))))))"

definition ai_plugin :: "af_analysis \<Rightarrow> stmt" where
  "ai_plugin a =
     ex_seq (named_object ''AnalysisRulePlugInName'' (an_plugin a))
    (ex_bind ex_get (\<lambda>info. assign ''AnalysisType'' (dict_get_default info ''AnalysisRulePlugInName'' none_val)))"

definition ai_element :: "af_analysis \<Rightarrow> stmt" where
  "ai_element a =
     ex_seq (ex_try (ex_bind (attr_truthy (an_target a)) (\<lambda>t.
                       case t of
                         Some get_path \<Rightarrow> ex_bind (ex_lift get_path) (\<lambda>po. assign ''ElementPath'' (ostr (safe_str po)))
                       | None \<Rightarrow> assign ''ElementPath'' none_val))
                    (\<lambda>_. assign ''ElementPath'' none_val))
    (ex_bind ex_get (\<lambda>info.
       let element_path = path_text (dict_get_default info ''ElementPath'' none_val) in
       ex_seq (assign ''PlantName'' (ostr (extract_plant_name element_path)))
              (assign ''PlantCategory'' (oint (determine_plant_category element_path)))))"

definition ai_template :: "af_analysis \<Rightarrow> stmt" where
  "ai_template a = named_object ''TemplateName'' (an_template a)"

definition ai_eft :: "af_analysis \<Rightarrow> stmt" where
  "ai_eft a =
     ex_seq (assign ''EventFrameTemplateName'' none_val)
    (ex_try (ex_bind (attr_truthy (an_rule a)) (\<lambda>r.
               case r of
                 None \<Rightarrow> ex_return ()
               | Some ar \<Rightarrow> with_attr (ar_config_string ar) (\<lambda>cs.
                   case eft_name_of (safe_str cs) of
                     Some eft_name \<Rightarrow> assign ''EventFrameTemplateName'' (IVal (PyStr eft_name))
                   | None \<Rightarrow> ex_return ())))
            (\<lambda>_. ex_return ()))"

definition ai_config_expression :: "af_analysis \<Rightarrow> stmt" where
  "ai_config_expression a =
     ex_try (ex_bind (attr_truthy (an_rule a)) (\<lambda>r.
               case r of
                 Some ar \<Rightarrow> ex_bind (safe_attr (ar_config_string ar)) (\<lambda>c. assign ''ConfigExpression'' (ostr c))
               | None \<Rightarrow> assign ''ConfigExpression'' none_val))
            (\<lambda>_. assign ''ConfigExpression'' none_val)"

definition ai_status :: "af_analysis \<Rightarrow> stmt" where
  "ai_status a =
     ex_try (attr_or (an_status a)
               (\<lambda>status. assign ''IsEnabled'' (obool (is_enabled_of (safe_str status))))
               (assign ''IsEnabled'' none_val))
            (\<lambda>_. assign ''IsEnabled'' none_val)"

definition ai_schedule :: "af_analysis \<Rightarrow> stmt" where
  "ai_schedule a =
     ex_try (ex_bind (attr_truthy (an_time_rule a)) (\<lambda>t.
               case t of
                 Some tr \<Rightarrow>
                   ex_bind (attr_truthy (tr_plugin tr)) (\<lambda>po.
                     case po of
                       Some pl \<Rightarrow> ex_bind (ex_lift (getattr pl)) (\<lambda>nm. assign ''ScheduleType'' (ostr (safe_str nm)))
                     | None \<Rightarrow> ex_bind (safe_attr (tr_name tr)) (\<lambda>nm. assign ''ScheduleType'' (ostr nm)))
               | None \<Rightarrow> assign ''ScheduleType'' none_val))
            (\<lambda>_. assign ''ScheduleType'' none_val)"

text \<open>
  The event-frame rule properties. A configuration read through
  \<open>GetConfiguration()\<close> (only for a plug-in whose name contains
  \<open>EventFrame\<close>) overrides \<open>TrueFor\<close> and \<open>Severity\<close>.
\<close>

definition rule_configuration :: "af_rule \<Rightarrow> stmt" where
  "rule_configuration ar =
     with_attr (ar_get_configuration ar) (\<lambda>call.
       ex_try (ex_bind (ex_lift call) (\<lambda>config.
                 case config of
                   None \<Rightarrow> ex_return ()
                 | Some c \<Rightarrow>
                     ex_seq (with_attr (cfg_true_for c) (\<lambda>v. assign ''TrueFor'' (ostr (safe_str v))))
                            (with_attr (cfg_severity c) (\<lambda>v. assign ''Severity'' (ostr (safe_str v))))))
              (\<lambda>_. ex_return ()))"

definition set_time_span :: "string \<Rightarrow> (py_obj \<times> real option) option \<Rightarrow> stmt" where
  "set_time_span k tf =
     (case tf of
        None \<Rightarrow> ex_return ()
      | Some t \<Rightarrow> (case time_span_text t of Some v \<Rightarrow> assign k (ostr v) | None \<Rightarrow> ex_return ()))"

text \<open>
  \<open>log_verbose(f"... {x} ...")\<close> with \<open>VERBOSE_LOGGING = True\<close> formats the raw
  object with \<open>str()\<close>, which raises when the object's text does (lines 325
  and 354); the exception leaves the rule block.
\<close>

definition log_obj :: "py_obj \<Rightarrow> stmt" where
  "log_obj v = (if v = ObjStrRaises then ex_raise (SDKError ''ToString'') else ex_return ())"

definition log_time_span :: "(py_obj \<times> real option) option \<Rightarrow> stmt" where
  "log_time_span tf = (case tf of Some t \<Rightarrow> log_obj (fst t) | None \<Rightarrow> ex_return ())"

definition rule_properties :: "af_rule \<Rightarrow> stmt" where
  "rule_properties ar =
     ex_seq (with_attr (ar_expression ar) (\<lambda>v. assign ''StartTrigger'' (ostr (safe_str v))))
    (ex_seq (with_attr (ar_true_for ar) (\<lambda>tf.
               ex_seq (log_time_span tf) (set_time_span ''TrueFor'' tf)))
    (ex_seq (ex_bind (attr_truthy (ar_true_for_ending ar)) (set_time_span ''TrueForEnding''))
    (ex_seq (with_attr (ar_end_expression ar) (\<lambda>v. assign ''EndTrigger'' (ostr (safe_str v))))
    (ex_seq (with_attr (ar_severity ar) (\<lambda>v.
               ex_seq (log_obj v)
                      (if obj_truthy v then assign ''Severity'' (ostr (safe_str v)) else ex_return ())))
    (ex_bind (attr_truthy (ar_plugin ar)) (\<lambda>po.
       case po of
         None \<Rightarrow> ex_return ()
       | Some pl \<Rightarrow> ex_bind (safe_attr pl) (\<lambda>plugin_name.
           case plugin_name of
             Some n \<Rightarrow> if py_in ''EventFrame'' n then rule_configuration ar else ex_return ()
           | None \<Rightarrow> ex_return ())))))))"

definition ai_rule :: "af_analysis \<Rightarrow> stmt" where
  "ai_rule a =
     ex_seq (assign ''StartTrigger'' none_val)
    (ex_seq (assign ''EndTrigger'' none_val)
    (ex_seq (assign ''TrueFor'' none_val)
    (ex_seq (assign ''TrueForEnding'' none_val)
    (ex_seq (assign ''Severity'' none_val)
    (ex_try (ex_bind (attr_truthy (an_rule a)) (\<lambda>r.
               case r of None \<Rightarrow> ex_return () | Some ar \<Rightarrow> rule_properties ar))
            (\<lambda>_. ex_return ()))))))"

definition ai_counts :: "af_analysis \<Rightarrow> stmt" where
  "ai_counts a =
     ex_seq (assign ''InputCount'' (IVal (PyInt 0)))
    (ex_seq (assign ''OutputCount'' (IVal (PyInt 0)))
    (ex_try (ex_bind (attr_truthy (an_rule a)) (\<lambda>r.
               case r of
                 None \<Rightarrow> ex_return ()
               | Some ar \<Rightarrow>
                   ex_seq (with_attr (ar_variable_mapping ar) (\<lambda>vm. assign ''InputCount'' (count_of vm)))
                          (with_attr (ar_outputs ar) (\<lambda>outs. assign ''OutputCount'' (count_of outs)))))
            (\<lambda>_. ex_return ())))"

definition ai_rollup_defaults :: stmt where
  "ai_rollup_defaults =
     ex_seq (assign ''RollupType'' none_val)
    (ex_seq (assign ''RollupSource'' none_val)
    (ex_seq (assign ''RollupInputAttribute'' none_val)
            (assign ''RollupOutputAttribute'' none_val)))"

text \<open>\<open>extract_analysis_info\<close> also reads the rollup type and source from the rule.\<close>

definition ai_rollup :: "af_analysis \<Rightarrow> stmt" where
  "ai_rollup a =
     ex_seq ai_rollup_defaults
    (ex_try (ex_bind (attr_truthy (an_rule a)) (\<lambda>r.
               case r of
                 None \<Rightarrow> ex_return ()
               | Some ar \<Rightarrow>
                   ex_seq (with_attr (ar_rollup_type ar) (\<lambda>v. assign ''RollupType'' (ostr (safe_str v))))
                          (with_attr (ar_rollup_source ar) (\<lambda>v. assign ''RollupSource'' (ostr (safe_str v))))))
            (\<lambda>_. ex_return ()))"

definition ai_severity :: "af_analysis \<Rightarrow> stmt" where
  "ai_severity a =
     ex_bind ex_get (\<lambda>info.
       if dict_get_default info ''Severity'' none_val = none_val then
         ex_try (with_attr (an_severity a) (\<lambda>v.
                   if obj_truthy v then assign ''Severity'' (ostr (safe_str v)) else ex_return ()))
                (\<lambda>_. ex_return ())
       else ex_return ())"

definition ai_version :: "af_analysis \<Rightarrow> stmt" where
  "ai_version a =
     ex_try (attr_or (an_version a)
               (\<lambda>v. case v of Some n \<Rightarrow> assign ''Version'' (IVal (PyInt n)) | None \<Rightarrow> ex_raise ValueError)
               (assign ''Version'' (IVal (PyInt 0))))
            (\<lambda>_. assign ''Version'' (IVal (PyInt 0)))"

text \<open>
  The script's own copy of \<open>convert_net_datetime\<close> (the two scripts do not
  share code); its body is the one of \<open>extract_pipoints.py\<close>.
\<close>

definition ea_convert_net_datetime :: "net_datetime \<Rightarrow> datetime option" where
  "ea_convert_net_datetime nd =
     (let us = nd_millisecond nd * 1000 in
      if datetime_args_ok (nd_year nd) (nd_month nd) (nd_day nd) (nd_hour nd) (nd_minute nd)
           (nd_second nd) us
      then Some \<lparr>dt_year = nat (nd_year nd), dt_month = nat (nd_month nd), dt_day = nat (nd_day nd),
                 dt_hour = nat (nd_hour nd), dt_minute = nat (nd_minute nd),
                 dt_second = nat (nd_second nd), dt_microsecond = nat us\<rparr>
      else None)"

definition set_date :: "string \<Rightarrow> net_datetime option \<Rightarrow> stmt" where
  "set_date k d = (case d of Some nd \<Rightarrow> assign k (IDate (ea_convert_net_datetime nd)) | None \<Rightarrow> ex_return ())"

definition ai_checkout :: "af_analysis \<Rightarrow> stmt" where
  "ai_checkout a =
     ex_seq (assign ''IsCheckedOut'' (IVal (PyBool False)))
    (ex_seq (assign ''CheckedOutBy'' none_val)
    (ex_seq (assign ''CheckedInDate'' none_val)
    (ex_try (ex_seq (with_attr (an_is_checked_out a) (\<lambda>b. assign ''IsCheckedOut'' (IVal (PyBool b))))
            (ex_seq (with_attr (an_checked_out_by a) (\<lambda>v. assign ''CheckedOutBy'' (ostr (safe_str v))))
                    (ex_bind (attr_truthy (an_checked_in_date a)) (set_date ''CheckedInDate''))))
            (\<lambda>_. ex_return ()))))"

definition ai_dirty :: "af_analysis \<Rightarrow> stmt" where
  "ai_dirty a =
     ex_try (attr_or (an_is_dirty a) (\<lambda>b. assign ''IsDirty'' (IVal (PyBool b)))
               (assign ''IsDirty'' (IVal (PyBool False))))
            (\<lambda>_. assign ''IsDirty'' (IVal (PyBool False)))"

definition ai_created :: "af_analysis \<Rightarrow> stmt" where
  "ai_created a =
     ex_seq (assign ''CreateDate'' none_val)
    (ex_seq (assign ''CreatedBy'' none_val)
    (ex_seq (assign ''ModifyDate'' none_val)
    (ex_seq (assign ''ModifiedBy'' none_val)
    (ex_try (ex_seq (ex_bind (attr_truthy (an_creation_date a)) (set_date ''CreateDate''))
            (ex_seq (with_attr (an_created_by a) (\<lambda>v. assign ''CreatedBy'' (ostr (safe_str v))))
            (ex_seq (ex_bind (attr_truthy (an_modify_date a)) (set_date ''ModifyDate''))
                    (with_attr (an_modified_by a) (\<lambda>v. assign ''ModifiedBy'' (ostr (safe_str v)))))))
            (\<lambda>_. ex_return ())))))"

text \<open>The blocks between the identification and the rollup, shared by both functions.\<close>

definition ai_details :: "af_analysis \<Rightarrow> stmt" where
  "ai_details a =
     ex_seq (ai_plugin a) (ex_seq (ai_element a) (ex_seq (ai_template a) (ex_seq (ai_eft a)
    (ex_seq (ai_config_expression a) (ex_seq (ai_status a) (ex_seq (ai_schedule a)
    (ex_seq (ai_rule a) (ai_counts a))))))))"

definition ai_tail :: "af_analysis \<Rightarrow> string \<Rightarrow> stmt" where
  "ai_tail a extraction_time =
     ex_seq (ai_severity a) (ex_seq (ai_version a) (ex_seq (ai_checkout a) (ex_seq (ai_dirty a)
    (ex_seq (ai_created a) (assign ''ExtractedAt'' (IVal (PyStr extraction_time)))))))"

definition extract_analysis_info_raw :: "af_analysis \<Rightarrow> string \<Rightarrow> string \<Rightarrow> analysis_info py_result" where
  "extract_analysis_info_raw analysis extraction_time database_name =
     ex_run (ex_seq (ai_identity analysis)
            (ex_seq (assign ''DatabaseName'' (IVal (PyStr database_name)))
            (ex_seq (ai_details analysis)
            (ex_seq ai_rollup_defaults
                    (ai_tail analysis extraction_time))))) []"

definition extract_analysis_info :: "af_analysis \<Rightarrow> string \<Rightarrow> analysis_info py_result" where
  "extract_analysis_info analysis extraction_time =
     ex_run (ex_seq (ai_identity analysis)
            (ex_seq (ai_details analysis)
            (ex_seq (ai_rollup analysis)
                    (ai_tail analysis extraction_time)))) []"

text \<open>The schema of the result: its keys in insertion order.\<close>

definition detail_keys :: "string list" where
  "detail_keys =
     [''AnalysisRulePlugInName'', ''AnalysisType'', ''ElementPath'', ''PlantName'', ''PlantCategory'',
      ''TemplateName'', ''EventFrameTemplateName'', ''ConfigExpression'', ''IsEnabled'', ''ScheduleType'',
      ''StartTrigger'', ''EndTrigger'', ''TrueFor'', ''TrueForEnding'', ''Severity'',
      ''InputCount'', ''OutputCount'',
      ''RollupType'', ''RollupSource'', ''RollupInputAttribute'', ''RollupOutputAttribute'',
      ''Version'', ''IsCheckedOut'', ''CheckedOutBy'', ''CheckedInDate'', ''IsDirty'',
      ''CreateDate'', ''CreatedBy'', ''ModifyDate'', ''ModifiedBy'', ''ExtractedAt'']"

definition raw_keys :: "string list" where
  "raw_keys = [''Name'', ''Id'', ''Description'', ''DatabaseName''] @ detail_keys"

definition info_keys :: "string list" where
  "info_keys = [''Name'', ''Id'', ''Description''] @ detail_keys"


text \<open>
  The reads outside any \<open>try\<close>: the exception, if any, that escapes the
  extraction of one analysis.
\<close>

definition identity_error :: "af_analysis \<Rightarrow> py_error option" where
  "identity_error a =
     (case getattr (an_name a) of
        Inl e \<Rightarrow> Some e
      | Inr _ \<Rightarrow> (case hasattr (an_id a) of
                  Inl e \<Rightarrow> Some e
                | Inr _ \<Rightarrow> (case getattr (an_description a) of Inl e \<Rightarrow> Some e | Inr _ \<Rightarrow> None)))"

text \<open>
  The per-analysis \<open>try ... except Exception\<close> of the batch loops: a raising
  extraction contributes no row.
\<close>

definition raw_row :: "string \<Rightarrow> af_analysis \<Rightarrow> string \<Rightarrow> analysis_info option" where
  "raw_row extraction_time analysis database_name =
     (case extract_analysis_info_raw analysis extraction_time database_name of Inr info \<Rightarrow> Some info | Inl _ \<Rightarrow> None)"

definition info_row :: "string \<Rightarrow> af_analysis \<Rightarrow> analysis_info option" where
  "info_row extraction_time analysis =
     (case extract_analysis_info analysis extraction_time of Inr info \<Rightarrow> Some info | Inl _ \<Rightarrow> None)"

section \<open>Concrete inputs for the witnesses\<close>

definition demo_rule :: af_rule where
  "demo_rule =
     \<lparr>ar_config_string = Val (ObjStr ''EFTNAME=Trip;Severity=2''), ar_expression = Val (ObjStr ''T > 90''),
      ar_true_for = Val (Some (ObjStr ''00:05:00'', Some 300)), ar_true_for_ending = Val None,
      ar_end_expression = Absent, ar_severity = Val ObjNone,
      ar_plugin = Val (Some (Val (ObjStr ''EventFrame''))),
      ar_get_configuration = Val (Inl (SDKError ''config'')),
      ar_variable_mapping = Val (Some 3), ar_outputs = Fails (SDKError ''outputs''),
      ar_rollup_type = Absent, ar_rollup_source = Absent\<rparr>"

definition demo_analysis :: af_analysis where
  "demo_analysis =
     \<lparr>an_name = Val (ObjStr ''Trip detection''), an_id = Val (ObjStr ''a1''), an_description = Val (ObjStr []),
      an_plugin = Val (Some (Val (ObjStr ''EventFrame''))),
      an_target = Val (Some (Inr (ObjStr (bslash # bslash # py_join [bslash] [''GENCOPI'', ''Fleet'', ''Hydro'', ''Plant1''])))),
      an_template = Val None, an_rule = Val (Some demo_rule), an_status = Val (ObjStr ''Enabled''),
      an_time_rule = Fails (SDKError ''timerule''), an_severity = Val (ObjStr ''Major''),
      an_version = Val None, an_is_checked_out = Val False, an_checked_out_by = Val ObjNone,
      an_checked_in_date = Val None, an_is_dirty = Absent,
      an_creation_date = Val (Some \<lparr>nd_year = 2024, nd_month = 2, nd_day = 29, nd_hour = 10,
                                    nd_minute = 0, nd_second = 5, nd_millisecond = 250\<rparr>),
      an_created_by = Val (ObjStr ''admin''), an_modify_date = Absent, an_modified_by = Absent\<rparr>"

section \<open>Shape, errors and fields of the result\<close>


text \<open>Both scripts convert a .NET \<open>DateTime\<close> alike.\<close>

lemma ea_convert_net_datetime_eq: "ea_convert_net_datetime = convert_net_datetime"
  by (rule ext) (simp only: ea_convert_net_datetime_def convert_net_datetime_def)

lemma safe_attr_shape [shape_intros]: "ks = [] \<Longrightarrow> adds K ks (safe_attr p)" "raise_keeps K (safe_attr p)"
  unfolding safe_attr_def by (rule shape_intros | simp)+

lemma with_attr_shape [shape_intros]:
  "(\<And>x. adds K [] (f x)) \<Longrightarrow> ks = [] \<Longrightarrow> adds K ks (with_attr p f)"
  "(\<And>x. raise_keeps K (f x)) \<Longrightarrow> raise_keeps K (with_attr p f)"
  unfolding with_attr_def by (rule shape_intros | simp)+

lemma named_object_shape [shape_intros]:
  "ks = (if k \<in> K then [] else [k]) \<Longrightarrow> adds K ks (named_object k p)"
  "raise_keeps K (named_object k p)"
  unfolding named_object_def by (rule shape_intros | simp)+

lemma ai_identity_shape [shape_intros]: "adds {} [''Name'', ''Id'', ''Description''] (ai_identity a)"
  unfolding ai_identity_def by (rule shape_intros | simp)+

lemma ai_plugin_shape [shape_intros]:
  "''AnalysisRulePlugInName'' \<notin> K \<Longrightarrow> ''AnalysisType'' \<notin> K \<Longrightarrow>
   adds K [''AnalysisRulePlugInName'', ''AnalysisType''] (ai_plugin a)"
  unfolding ai_plugin_def by (rule shape_intros | simp)+

lemma ai_element_shape [shape_intros]:
  "''ElementPath'' \<notin> K \<Longrightarrow> ''PlantName'' \<notin> K \<Longrightarrow> ''PlantCategory'' \<notin> K \<Longrightarrow>
   adds K [''ElementPath'', ''PlantName'', ''PlantCategory''] (ai_element a)"
  unfolding ai_element_def by (rule shape_intros | simp)+
lemma set_time_span_shape [shape_intros]:
  "k \<in> K \<Longrightarrow> ks = [] \<Longrightarrow> adds K ks (set_time_span k tf)" "raise_keeps K (set_time_span k tf)"
  unfolding set_time_span_def by (rule shape_intros | simp)+

lemma set_date_shape [shape_intros]:
  "k \<in> K \<Longrightarrow> ks = [] \<Longrightarrow> adds K ks (set_date k d)" "raise_keeps K (set_date k d)"
  unfolding set_date_def by (rule shape_intros | simp)+

lemma rule_configuration_shape [shape_intros]:
  "''TrueFor'' \<in> K \<Longrightarrow> ''Severity'' \<in> K \<Longrightarrow> ks = [] \<Longrightarrow> adds K ks (rule_configuration ar)"
  "''TrueFor'' \<in> K \<Longrightarrow> ''Severity'' \<in> K \<Longrightarrow> raise_keeps K (rule_configuration ar)"
  unfolding rule_configuration_def by (rule shape_intros | simp)+

lemma log_obj_shape [shape_intros]: "ks = [] \<Longrightarrow> adds K ks (log_obj v)" "raise_keeps K (log_obj v)"
  unfolding log_obj_def by (rule shape_intros | simp)+

lemma log_time_span_shape [shape_intros]:
  "ks = [] \<Longrightarrow> adds K ks (log_time_span tf)" "raise_keeps K (log_time_span tf)"
  unfolding log_time_span_def by (rule shape_intros | simp)+

lemma rule_properties_shape [shape_intros]:
  "{''StartTrigger'', ''EndTrigger'', ''TrueFor'', ''TrueForEnding'', ''Severity''} \<subseteq> K \<Longrightarrow>
   ks = [] \<Longrightarrow> adds K ks (rule_properties ar)"
  "{''StartTrigger'', ''EndTrigger'', ''TrueFor'', ''TrueForEnding'', ''Severity''} \<subseteq> K \<Longrightarrow>
   raise_keeps K (rule_properties ar)"
  unfolding rule_properties_def by (rule shape_intros | simp)+

lemma ai_blocks_shape [shape_intros]:
  "''TemplateName'' \<notin> K \<Longrightarrow> ks = [''TemplateName''] \<Longrightarrow> adds K ks (ai_template a)"
  "''EventFrameTemplateName'' \<notin> K \<Longrightarrow> ks = [''EventFrameTemplateName''] \<Longrightarrow> adds K ks (ai_eft a)"
  "''ConfigExpression'' \<notin> K \<Longrightarrow> ks = [''ConfigExpression''] \<Longrightarrow> adds K ks (ai_config_expression a)"
  "''IsEnabled'' \<notin> K \<Longrightarrow> ks = [''IsEnabled''] \<Longrightarrow> adds K ks (ai_status a)"
  "''ScheduleType'' \<notin> K \<Longrightarrow> ks = [''ScheduleType''] \<Longrightarrow> adds K ks (ai_schedule a)"
  "set [''StartTrigger'', ''EndTrigger'', ''TrueFor'', ''TrueForEnding'', ''Severity''] \<inter> K = {} \<Longrightarrow>
   ks = [''StartTrigger'', ''EndTrigger'', ''TrueFor'', ''TrueForEnding'', ''Severity''] \<Longrightarrow> adds K ks (ai_rule a)"
  "set [''InputCount'', ''OutputCount''] \<inter> K = {} \<Longrightarrow> ks = [''InputCount'', ''OutputCount''] \<Longrightarrow>
   adds K ks (ai_counts a)"
  unfolding ai_template_def ai_eft_def ai_config_expression_def ai_status_def ai_schedule_def
    ai_rule_def ai_counts_def
  by (rule shape_intros | simp)+

lemma ai_rollup_shape [shape_intros]:
  "set [''RollupType'', ''RollupSource'', ''RollupInputAttribute'', ''RollupOutputAttribute''] \<inter> K = {} \<Longrightarrow>
   ks = [''RollupType'', ''RollupSource'', ''RollupInputAttribute'', ''RollupOutputAttribute''] \<Longrightarrow>
   adds K ks ai_rollup_defaults"
  "set [''RollupType'', ''RollupSource'', ''RollupInputAttribute'', ''RollupOutputAttribute''] \<inter> K = {} \<Longrightarrow>
   ks = [''RollupType'', ''RollupSource'', ''RollupInputAttribute'', ''RollupOutputAttribute''] \<Longrightarrow>
   adds K ks (ai_rollup a)"
  unfolding ai_rollup_defaults_def ai_rollup_def by (rule shape_intros | simp)+

lemma ai_tail_shape [shape_intros]:
  "''Severity'' \<in> K \<Longrightarrow>
   set [''Version'', ''IsCheckedOut'', ''CheckedOutBy'', ''CheckedInDate'', ''IsDirty'',
        ''CreateDate'', ''CreatedBy'', ''ModifyDate'', ''ModifiedBy'', ''ExtractedAt''] \<inter> K = {} \<Longrightarrow>
   ks = [''Version'', ''IsCheckedOut'', ''CheckedOutBy'', ''CheckedInDate'', ''IsDirty'',
        ''CreateDate'', ''CreatedBy'', ''ModifyDate'', ''ModifiedBy'', ''ExtractedAt''] \<Longrightarrow>
   adds K ks (ai_tail a t)"
  unfolding ai_tail_def ai_severity_def ai_version_def ai_checkout_def ai_dirty_def ai_created_def
  by (rule shape_intros | simp)+

lemma ai_details_shape [shape_intros]:
  "set (take 17 detail_keys) \<inter> K = {} \<Longrightarrow> ks = take 17 detail_keys \<Longrightarrow> adds K ks (ai_details a)"
  unfolding ai_details_def detail_keys_def by (rule shape_intros | simp)+

text \<open>
  C26: whenever \<open>extract_analysis_info_raw\<close> returns, its dictionary has exactly
  the 35 keys of the script's schema, in the script's order, whichever of the
  guarded reads failed.
\<close>

lemma raw_keys_shape:
  "adds {} raw_keys
     (ex_seq (ai_identity a) (ex_seq (assign ''DatabaseName'' (IVal (PyStr db)))
     (ex_seq (ai_details a) (ex_seq ai_rollup_defaults (ai_tail a t)))))"
  unfolding raw_keys_def by (rule shape_intros | simp add: detail_keys_def)+

theorem analysis_info_raw_schema:
  "extract_analysis_info_raw a t db = Inr info \<Longrightarrow> map fst info = raw_keys"
  unfolding extract_analysis_info_raw_def by (rule adds_run [OF raw_keys_shape])

lemma named_object_total [total_intros]: "never_raises (named_object k p)"
  unfolding named_object_def by (rule total_intros)+

lemma ai_blocks_total [total_intros]:
  "never_raises (ai_plugin a)" "never_raises (ai_element a)" "never_raises (ai_template a)"
  "never_raises (ai_eft a)" "never_raises (ai_config_expression a)" "never_raises (ai_status a)"
  "never_raises (ai_schedule a)" "never_raises (ai_rule a)" "never_raises (ai_counts a)"
  "never_raises ai_rollup_defaults" "never_raises (ai_rollup a)" "never_raises (ai_severity a)"
  "never_raises (ai_version a)" "never_raises (ai_checkout a)" "never_raises (ai_dirty a)"
  "never_raises (ai_created a)"
  unfolding ai_plugin_def ai_element_def ai_template_def ai_eft_def ai_config_expression_def
    ai_status_def ai_schedule_def ai_rule_def ai_counts_def ai_rollup_defaults_def ai_rollup_def
    ai_severity_def ai_version_def ai_checkout_def ai_dirty_def ai_created_def
  by (rule total_intros)+

lemma ai_details_total [total_intros]: "never_raises (ai_details a)" "never_raises (ai_tail a t)"
  unfolding ai_details_def ai_tail_def by (rule total_intros)+

lemma ai_identity_raises:
  "(\<exists>s'. ai_identity a s = (Inl e, s')) \<longleftrightarrow> identity_error a = Some e"
  by (cases "an_name a"; cases "an_id a"; cases "an_description a")
     (simp_all add: ai_identity_def identity_error_def safe_attr_def attr_or_def)

text \<open>
  C27: \<open>extract_analysis_info_raw\<close> raises exactly the exception of the first
  failing read among \<open>Name\<close>, \<open>hasattr(ID)\<close> and \<open>Description\<close>; every
  other failure is absorbed by its block.
\<close>

theorem analysis_info_raw_raises:
  "extract_analysis_info_raw a t db = Inl e \<longleftrightarrow> identity_error a = Some e"
  unfolding extract_analysis_info_raw_def
  by (subst ex_run_seq_raises) (rule total_intros | simp add: ai_identity_raises)+

lemma helper_frames [frame_intros]:
  "writes_only K (safe_attr p)"
  "(\<And>x. writes_only K (f x)) \<Longrightarrow> writes_only K (with_attr q f)"
  "k \<in> K \<Longrightarrow> writes_only K (set_date k d)"
  unfolding safe_attr_def with_attr_def set_date_def by (rule frame_intros | simp)+

lemma tail_frames:
  "writes_only (- {''Severity''}) (ai_counts a)" "writes_only (- {''Severity''}) ai_rollup_defaults"
  "writes_only (- {''Severity''}) (ai_version a)" "writes_only (- {''Severity''}) (ai_checkout a)"
  "writes_only (- {''Severity''}) (ai_dirty a)" "writes_only (- {''Severity''}) (ai_created a)"
  "writes_only (- {''Severity''}) (assign ''ExtractedAt'' v)"
  unfolding ai_counts_def ai_rollup_defaults_def ai_version_def ai_checkout_def ai_dirty_def ai_created_def
  by (rule frame_intros | simp)+

lemma post_keep_severity:
  "writes_only (- {''Severity''}) m \<Longrightarrow> post (\<lambda>s. map_of s ''Severity'' = x) m (\<lambda>s. map_of s ''Severity'' = x)"
  using post_keep [of "- {''Severity''}" m "''Severity''" x] by simp

lemma ai_rule_no_rule:
  "an_rule a = Val None \<Longrightarrow> post (\<lambda>_. True) (ai_rule a) (\<lambda>s. map_of s ''Severity'' = Some none_val)"
  by (simp add: post_def ai_rule_def attr_truthy_def update_conv')

lemma ai_severity_fallback:
  "an_severity a = Val (ObjStr sev) \<Longrightarrow> sev \<noteq> [] \<Longrightarrow>
   post (\<lambda>s. map_of s ''Severity'' = Some none_val) (ai_severity a)
        (\<lambda>s. map_of s ''Severity'' = Some (IVal (PyStr sev)))"
  by (auto simp: post_def ai_severity_def with_attr_def attr_or_def dict_get_default_def ostr_def update_conv')

text \<open>
  C28: for an analysis without an analysis rule, the reported \<open>Severity\<close> is the
  analysis's own non-empty severity text (the fallback after the rule block).
\<close>

theorem analysis_severity_fallback:
  assumes "an_rule a = Val None" "an_severity a = Val (ObjStr sev)" "sev \<noteq> []"
    and "extract_analysis_info_raw a t db = Inr info"
  shows "map_of info ''Severity'' = Some (IVal (PyStr sev))"
proof -
  let ?none = "\<lambda>s. map_of s ''Severity'' = Some none_val"
  let ?sev = "\<lambda>s. map_of s ''Severity'' = Some (IVal (PyStr sev))"
  have details: "post (\<lambda>_. True) (ai_details a) ?none"
    unfolding ai_details_def
    by (intro post_seq [OF ai_rule_no_rule [OF assms(1)]] post_seq [OF post_true]
              post_keep_severity tail_frames)
  have tail: "post ?none (ai_tail a t) ?sev"
    unfolding ai_tail_def
    by (intro post_seq [OF ai_severity_fallback [OF assms(2,3)]] post_seq [OF post_keep_severity]
              post_keep_severity tail_frames)
  have "post (\<lambda>_. True)
          (ex_seq (ai_identity a) (ex_seq (assign ''DatabaseName'' (IVal (PyStr db)))
          (ex_seq (ai_details a) (ex_seq ai_rollup_defaults (ai_tail a t))))) ?sev"
    by (intro post_seq [OF post_true] post_seq [OF details] post_seq [OF post_keep_severity tail] tail_frames)
  then show ?thesis using assms(4) unfolding extract_analysis_info_raw_def by (rule post_run)
qed

lemma analysis_info_raw_ok:
  "identity_error a = None \<Longrightarrow> \<exists>info. extract_analysis_info_raw a t db = Inr info"
proof -
  assume ok: "identity_error a = None"
  have "extract_analysis_info_raw a t db \<noteq> Inl e" for e
    unfolding extract_analysis_info_raw_def
    by (subst ex_run_seq_raises) (rule total_intros | simp add: ai_identity_raises ok)+
  then show ?thesis by (cases "extract_analysis_info_raw a t db") auto
qed

lemma analysis_info_ok:
  "identity_error a = None \<Longrightarrow> \<exists>info. extract_analysis_info a t = Inr info"
proof -
  assume ok: "identity_error a = None"
  have "extract_analysis_info a t \<noteq> Inl e" for e
    unfolding extract_analysis_info_def
    by (subst ex_run_seq_raises) (rule total_intros | simp add: ai_identity_raises ok)+
  then show ?thesis by (cases "extract_analysis_info a t") auto
qed

lemma analysis_info_schema:
  "extract_analysis_info a t = Inr info \<Longrightarrow> map fst info = info_keys"
proof -
  have "adds {} info_keys
          (ex_seq (ai_identity a) (ex_seq (ai_details a) (ex_seq (ai_rollup a) (ai_tail a t))))"
    unfolding info_keys_def by (rule shape_intros | simp add: detail_keys_def)+
  then show "extract_analysis_info a t = Inr info \<Longrightarrow> map fst info = info_keys"
    unfolding extract_analysis_info_def by (rule adds_run)
qed

lemma raw_row_schema: "raw_row t a db = Some r \<Longrightarrow> map fst r = raw_keys"
  using adds_run [OF raw_keys_shape]
  by (auto simp: raw_row_def extract_analysis_info_raw_def split: sum.splits)

lemma info_row_schema: "info_row t a = Some r \<Longrightarrow> map fst r = info_keys"
  using analysis_info_schema by (auto simp: info_row_def split: sum.splits)

lemma search_rows_from: "r \<in> set (search_analyses_in_elements ext limit roots) \<Longrightarrow> \<exists>a. ext a = Some r"
proof -
  assume "r \<in> set (search_analyses_in_elements ext limit roots)"
  then have "r \<in> set (walk_elements ext roots)"
    using traverse_elements_subseq [of ext limit 0 roots]
    by (auto simp: search_analyses_in_elements_def dest: list_emb_set split: if_splits)
  then show ?thesis by (auto simp: walk_elements_map_filter set_map_filter_iff)
qed

lemma extract_analyses_keys:
  "extract_analyses systems open_db (raw_row t) (info_row t) limit srv database = (ev, Inr rows) \<Longrightarrow>
   r \<in> set rows \<Longrightarrow> map fst r = (if database = None then raw_keys else info_keys)"
  by (auto simp: extract_analyses_def extract_analyses_from_all_databases_def rbind_Inr_iff
                 set_map_filter_iff raw_row_schema info_row_schema
           split: option.splits sum.splits py_error.splits dest!: search_rows_from databases_rows_from)

text \<open>
  C29: every row returned by \<open>extract_analyses\<close> has the schema of the function
  that built it: the raw schema (with \<open>DatabaseName\<close>) for the all-databases
  path, the connection schema for a named database, also when the rows come
  from the element traversal.
\<close>

theorem extract_analyses_row_schema:
  "extract_analyses systems open_db (raw_row t) (info_row t) limit srv database = (ev, Inr rows) \<Longrightarrow>
   r \<in> set rows \<Longrightarrow> map fst r = (if database = None then raw_keys else info_keys)"
  by (rule extract_analyses_keys)

theorem analysis_info_raw_schema_witness:
  "\<exists>info. extract_analysis_info_raw demo_analysis ''T0'' ''DB1'' = Inr info \<and> map fst info = raw_keys"
proof -
  obtain info where r: "extract_analysis_info_raw demo_analysis ''T0'' ''DB1'' = Inr info"
    using analysis_info_raw_ok by (fastforce simp: identity_error_def demo_analysis_def)
  with analysis_info_raw_schema [OF r] show ?thesis by blast
qed

theorem analysis_severity_fallback_witness:
  "\<exists>info. extract_analysis_info_raw (demo_analysis\<lparr>an_rule := Val None\<rparr>) ''T0'' ''DB1'' = Inr info
     \<and> map_of info ''Severity'' = Some (IVal (PyStr ''Major''))"
proof -
  obtain info where r: "extract_analysis_info_raw (demo_analysis\<lparr>an_rule := Val None\<rparr>) ''T0'' ''DB1'' = Inr info"
    using analysis_info_raw_ok by (fastforce simp: identity_error_def demo_analysis_def)
  have "map_of info ''Severity'' = Some (IVal (PyStr ''Major''))"
    using analysis_severity_fallback [of "demo_analysis\<lparr>an_rule := Val None\<rparr>" "''Major''" "''T0''" "''DB1''" info] r
    by (simp add: demo_analysis_def)
  with r show ?thesis by blast
qed

theorem extract_analyses_row_schema_witness:
  "\<exists>rows. extract_analyses (\<lambda>_. None)
        (\<lambda>_ _. Inr \<lparr>db_name = Inr ''DB1'', db_analyses = Inr [demo_analysis], db_elements = []\<rparr>)
        (raw_row ''T0'') (info_row ''T0'') 10 ''GENCOPI'' (Some ''DB1'') = ([Connect, Disconnect], Inr rows)
      \<and> rows \<noteq> [] \<and> map fst (hd rows) = info_keys"
proof -
  obtain info where i: "extract_analysis_info demo_analysis ''T0'' = Inr info"
    using analysis_info_ok by (fastforce simp: identity_error_def demo_analysis_def)
  have run: "extract_analyses (\<lambda>_. None)
        (\<lambda>_ _. Inr \<lparr>db_name = Inr ''DB1'', db_analyses = Inr [demo_analysis], db_elements = []\<rparr>)
        (raw_row ''T0'') (info_row ''T0'') 10 ''GENCOPI'' (Some ''DB1'') = ([Connect, Disconnect], Inr [info])"
    using i by (simp add: extract_analyses_def info_row_def map_filter_simps)
  have "map fst info = info_keys" using extract_analyses_row_schema [OF run] by simp
  with run show ?thesis by auto
qed

end
