(* ===== verification/Cache.thy ===== *)
theory Cache
  imports Prelude "HOL-Library.While_Combinator"
begin

text \<open>
  The caching layer the package re-exports from \<open>src/src/pipolars/cache/__init__.py\<close>
  (\<open>MemoryCache\<close>, \<open>TTLStrategy\<close>, \<open>SlidingWindowStrategy\<close>); its modules are
  not in the source tree, so the model follows the specification (sections
  4.1, 4.2 and 8): query fingerprints by canonical serialisation, an in-memory
  backend kept in least-recently-used order with a size limit, expiry by a
  time-to-live from insertion or a sliding window from the last access, and
  hit, miss and eviction counters. Times are whole seconds.
\<close>

section \<open>Query fingerprints\<close>

text \<open>
  A fingerprint serialises every dimension of a query (series, start, end,
  kind, parameters); strings and lists are length-prefixed, so the
  serialisation parses back.
\<close>

datatype query_kind = QRecorded | QInterpolated | QPlot | QSummary | QSummaries | QSnapshot

record cache_query =
  q_tags :: "string list"
  q_start :: string
  q_end :: string
  q_kind :: query_kind
  q_params :: "(string \<times> string) list"

fun kind_name :: "query_kind \<Rightarrow> string" where
  "kind_name QRecorded = ''recorded''"
| "kind_name QInterpolated = ''interpolated''"
| "kind_name QPlot = ''plot''"
| "kind_name QSummary = ''summary''"
| "kind_name QSummaries = ''summaries''"
| "kind_name QSnapshot = ''snapshot''"

definition kind_of_name :: "string \<Rightarrow> query_kind option" where
  "kind_of_name s =
     map_of [(''recorded'', QRecorded), (''interpolated'', QInterpolated), (''plot'', QPlot),
             (''summary'', QSummary), (''summaries'', QSummaries), (''snapshot'', QSnapshot)] s"

definition enc_nat :: "nat \<Rightarrow> string" where
  "enc_nat n = string_of_nat n @ [CHR '':'']"

definition enc_str :: "string \<Rightarrow> string" where
  "enc_str s = enc_nat (length s) @ s"

definition enc_list :: "('a \<Rightarrow> string) \<Rightarrow> 'a list \<Rightarrow> string" where
  "enc_list f xs = enc_nat (length xs) @ concat (map f xs)"

definition enc_pair :: "string \<times> string \<Rightarrow> string" where
  "enc_pair p = enc_str (fst p) @ enc_str (snd p)"

definition fingerprint :: "cache_query \<Rightarrow> string" where
  "fingerprint q =
     enc_list enc_str (q_tags q) @ enc_str (q_start q) @ enc_str (q_end q) @
     enc_str (kind_name (q_kind q)) @ enc_list enc_pair (q_params q)"

definition dec_nat :: "string \<Rightarrow> (nat \<times> string) option" where
  "dec_nat t =
     (let ds = takeWhile is_digit t; rest = dropWhile is_digit t in
      if ds \<noteq> [] \<and> rest \<noteq> [] \<and> hd rest = CHR '':'' then Some (nat_of_digits ds, tl rest) else None)"

definition dec_str :: "string \<Rightarrow> (string \<times> string) option" where
  "dec_str t =
     (case dec_nat t of
        Some (n, body) \<Rightarrow> if n \<le> length body then Some (take n body, drop n body) else None
      | None \<Rightarrow> None)"

fun dec_items :: "(string \<Rightarrow> ('a \<times> string) option) \<Rightarrow> nat \<Rightarrow> string \<Rightarrow> ('a list \<times> string) option" where
  "dec_items d 0 t = Some ([], t)"
| "dec_items d (Suc n) t =
     (case d t of
        None \<Rightarrow> None
      | Some (x, t') \<Rightarrow> (case dec_items d n t' of None \<Rightarrow> None | Some (xs, t'') \<Rightarrow> Some (x # xs, t'')))"

definition dec_list :: "(string \<Rightarrow> ('a \<times> string) option) \<Rightarrow> string \<Rightarrow> ('a list \<times> string) option" where
  "dec_list d t = (case dec_nat t of Some (n, body) \<Rightarrow> dec_items d n body | None \<Rightarrow> None)"

definition dec_pair :: "string \<Rightarrow> ((string \<times> string) \<times> string) option" where
  "dec_pair t =
     (case dec_str t of
        None \<Rightarrow> None
      | Some (a, t1) \<Rightarrow> (case dec_str t1 of None \<Rightarrow> None | Some (b, t2) \<Rightarrow> Some ((a, b), t2)))"

definition parse_fingerprint :: "string \<Rightarrow> (cache_query \<times> string) option" where
  "parse_fingerprint t =
     (case dec_list dec_str t of
        None \<Rightarrow> None
      | Some (tags, t1) \<Rightarrow>
     (case dec_str t1 of
        None \<Rightarrow> None
      | Some (start, t2) \<Rightarrow>
     (case dec_str t2 of
        None \<Rightarrow> None
      | Some (stop, t3) \<Rightarrow>
     (case dec_str t3 of
        None \<Rightarrow> None
      | Some (kn, t4) \<Rightarrow>
     (case kind_of_name kn of
        None \<Rightarrow> None
      | Some kind \<Rightarrow>
     (case dec_list dec_pair t4 of
        None \<Rightarrow> None
      | Some (params, t5) \<Rightarrow>
          Some (\<lparr>q_tags = tags, q_start = start, q_end = stop, q_kind = kind, q_params = params\<rparr>, t5)))))))"

definition decode_fingerprint :: "string \<Rightarrow> cache_query option" where
  "decode_fingerprint t =
     (case parse_fingerprint t of Some (q, []) \<Rightarrow> Some q | _ \<Rightarrow> None)"

section \<open>The memory backend\<close>

record 'v cache_entry =
  ce_value :: 'v
  ce_inserted :: nat
  ce_accessed :: nat
  ce_ttl :: nat

datatype expiry = TTLStrategy | SlidingWindowStrategy

record cache_stats =
  st_hits :: nat
  st_misses :: nat
  st_evictions :: nat

text \<open>
  The entries in least-recently-used order (an \<open>OrderedDict\<close>: the first
  entry is the next to be evicted), the size limit, the strategy and the
  counters of \<open>stats()\<close>.
\<close>

record 'v memory_cache =
  mc_entries :: "(string \<times> 'v cache_entry) list"
  mc_max_size :: nat
  mc_strategy :: expiry
  mc_stats :: cache_stats

fun deadline :: "expiry \<Rightarrow> 'v cache_entry \<Rightarrow> nat" where
  "deadline TTLStrategy e = ce_inserted e + ce_ttl e"
| "deadline SlidingWindowStrategy e = ce_accessed e + ce_ttl e"

definition expired :: "expiry \<Rightarrow> 'v cache_entry \<Rightarrow> nat \<Rightarrow> bool" where
  "expired st e now \<longleftrightarrow> deadline st e \<le> now"

definition count_hit :: "cache_stats \<Rightarrow> cache_stats" where
  "count_hit st = st\<lparr>st_hits := Suc (st_hits st)\<rparr>"

definition count_miss :: "cache_stats \<Rightarrow> cache_stats" where
  "count_miss st = st\<lparr>st_misses := Suc (st_misses st)\<rparr>"

text \<open>\<open>get(key)\<close>: a live entry is a hit and becomes the most recently used; an expired one is dropped.\<close>

definition cache_get :: "string \<Rightarrow> nat \<Rightarrow> 'v memory_cache \<Rightarrow> 'v option \<times> 'v memory_cache" where
  "cache_get key now c =
     (case map_of (mc_entries c) key of
        None \<Rightarrow> (None, c\<lparr>mc_stats := count_miss (mc_stats c)\<rparr>)
      | Some e \<Rightarrow>
          if expired (mc_strategy c) e now
          then (None, c\<lparr>mc_entries := AList.delete key (mc_entries c), mc_stats := count_miss (mc_stats c)\<rparr>)
          else (Some (ce_value e),
                c\<lparr>mc_entries := AList.delete key (mc_entries c) @ [(key, e\<lparr>ce_accessed := now\<rparr>)],
                  mc_stats := count_hit (mc_stats c)\<rparr>))"

definition over_capacity :: "'v memory_cache \<Rightarrow> bool" where
  "over_capacity c \<longleftrightarrow> mc_max_size c < length (mc_entries c)"

definition evict_step :: "'v memory_cache \<Rightarrow> 'v memory_cache" where
  "evict_step c =
     c\<lparr>mc_entries := tl (mc_entries c),
       mc_stats := (mc_stats c)\<lparr>st_evictions := Suc (st_evictions (mc_stats c))\<rparr>\<rparr>"

text \<open>\<open>while len(entries) > max_size: entries.popitem(last=False)\<close>.\<close>

definition evict_lru :: "'v memory_cache \<Rightarrow> 'v memory_cache" where
  "evict_lru c = while over_capacity evict_step c"

text \<open>The state after \<open>j\<close> evictions.\<close>

definition evicted :: "'v memory_cache \<Rightarrow> nat \<Rightarrow> 'v memory_cache" where
  "evicted c j = c\<lparr>mc_entries := drop j (mc_entries c),
     mc_stats := (mc_stats c)\<lparr>st_evictions := st_evictions (mc_stats c) + j\<rparr>\<rparr>"

definition cache_set :: "string \<Rightarrow> 'v \<Rightarrow> nat \<Rightarrow> nat \<Rightarrow> 'v memory_cache \<Rightarrow> 'v memory_cache" where
  "cache_set key v ttl now c =
     evict_lru (c\<lparr>mc_entries := AList.delete key (mc_entries c) @
                   [(key, \<lparr>ce_value = v, ce_inserted = now, ce_accessed = now, ce_ttl = ttl\<rparr>)]\<rparr>)"

definition cache_invalidate :: "string \<Rightarrow> 'v memory_cache \<Rightarrow> 'v memory_cache" where
  "cache_invalidate key c = c\<lparr>mc_entries := AList.delete key (mc_entries c)\<rparr>"

definition cache_clear :: "'v memory_cache \<Rightarrow> 'v memory_cache" where
  "cache_clear c = c\<lparr>mc_entries := []\<rparr>"

definition empty_cache :: "nat \<Rightarrow> expiry \<Rightarrow> 'v memory_cache" where
  "empty_cache max_size st =
     \<lparr>mc_entries = [], mc_max_size = max_size, mc_strategy = st,
      mc_stats = \<lparr>st_hits = 0, st_misses = 0, st_evictions = 0\<rparr>\<rparr>"

text \<open>The backend's operations as a step system.\<close>

datatype 'v cache_op = CGet string nat | CSet string 'v nat nat | CInvalidate string | CClear

fun cache_apply :: "'v cache_op \<Rightarrow> 'v memory_cache \<Rightarrow> 'v memory_cache" where
  "cache_apply (CGet k now) c = snd (cache_get k now c)"
| "cache_apply (CSet k v ttl now) c = cache_set k v ttl now c"
| "cache_apply (CInvalidate k) c = cache_invalidate k c"
| "cache_apply CClear c = cache_clear c"

inductive cache_reach :: "'v memory_cache \<Rightarrow> 'v memory_cache \<Rightarrow> bool" for c0 where
  start: "cache_reach c0 c0"
| step: "cache_reach c0 c \<Longrightarrow> cache_reach c0 (cache_apply op c)"

definition cache_wf :: "'v memory_cache \<Rightarrow> bool" where
  "cache_wf c \<longleftrightarrow> distinct (map fst (mc_entries c)) \<and> length (mc_entries c) \<le> mc_max_size c"

section \<open>The cached query\<close>

text \<open>
  The extractor's use of the cache: look the query's fingerprint up; on a miss
  ask the source and store its answer.
\<close>

definition cached_query ::
  "(cache_query \<Rightarrow> 'v) \<Rightarrow> nat \<Rightarrow> cache_query \<Rightarrow> nat \<Rightarrow> 'v memory_cache \<Rightarrow> 'v \<times> 'v memory_cache" where
  "cached_query source ttl q now c =
     (let key = fingerprint q in
      case cache_get key now c of
        (Some v, c') \<Rightarrow> (v, c')
      | (None, c') \<Rightarrow> let v = source q in (v, cache_set key v ttl now c'))"

definition consistent :: "(cache_query \<Rightarrow> 'v) \<Rightarrow> 'v memory_cache \<Rightarrow> bool" where
  "consistent source c \<longleftrightarrow>
     (\<forall>(k, e) \<in> set (mc_entries c). \<exists>q. k = fingerprint q \<and> ce_value e = source q)"

text \<open>A query and a source for the examples below.\<close>

definition demo_query :: cache_query where
  "demo_query = \<lparr>q_tags = [''SINUSOID''], q_start = ''*-1d'', q_end = ''*'', q_kind = QRecorded, q_params = []\<rparr>"

definition demo_source :: "cache_query \<Rightarrow> nat" where
  "demo_source q = length (q_tags q) + length (q_params q)"

section \<open>Fingerprints parse back\<close>

lemma colon_not_digit [simp]: "\<not> is_digit CHR '':''"
  by (simp add: is_digit_def)

lemma dec_nat_enc [simp]: "dec_nat (enc_nat n @ r) = Some (n, r)"
proof -
  have d: "list_all is_digit (string_of_nat n)" "string_of_nat n \<noteq> []"
    using string_of_nat_digits by auto
  then have "takeWhile is_digit (string_of_nat n @ CHR '':'' # r) = string_of_nat n"
    "dropWhile is_digit (string_of_nat n @ CHR '':'' # r) = CHR '':'' # r"
    by (simp_all add: takeWhile_append2 dropWhile_append2 list_all_iff)
  with d show ?thesis by (simp add: dec_nat_def enc_nat_def nat_of_digits_string_of_nat)
qed

lemma dec_str_enc [simp]: "dec_str (enc_str s @ r) = Some (s, r)"
  by (simp add: dec_str_def enc_str_def)

lemma dec_items_enc:
  "(\<And>x r. d (f x @ r) = Some (x, r)) \<Longrightarrow> dec_items d (length xs) (concat (map f xs) @ r) = Some (xs, r)"
  by (induction xs) simp_all

lemma dec_list_enc:
  "(\<And>x r. d (f x @ r) = Some (x, r)) \<Longrightarrow> dec_list d (enc_list f xs @ r) = Some (xs, r)"
  by (simp add: dec_list_def enc_list_def dec_items_enc)

lemma dec_pair_enc [simp]: "dec_pair (enc_pair p @ r) = Some (p, r)"
  by (cases p) (simp add: dec_pair_def enc_pair_def)

lemma kind_of_name_kind_name [simp]: "kind_of_name (kind_name k) = Some k"
  by (cases k) (simp_all add: kind_of_name_def)

lemma parse_fingerprint_append: "parse_fingerprint (fingerprint q @ r) = Some (q, r)"
  by (simp add: parse_fingerprint_def fingerprint_def dec_list_enc)

text \<open>
  Round trip of the query fingerprint: the canonical serialisation of a
  query (series, start, end, kind, parameters) decodes back to the same query.
\<close>

theorem fingerprint_roundtrip: "decode_fingerprint (fingerprint q) = Some q"
  using parse_fingerprint_append [of q "[]"] by (simp add: decode_fingerprint_def)

lemma fingerprint_inj: "fingerprint q1 = fingerprint q2 \<longleftrightarrow> q1 = q2"
  by (metis parse_fingerprint_append append_Nil2 option.inject prod.inject)

section \<open>The eviction loop terminates\<close>

lemma evict_step_evicted: "evict_step (evicted c j) = evicted c (Suc j)"
  by (simp add: evict_step_def evicted_def drop_Suc tl_drop)

lemma over_capacity_evicted:
  "over_capacity (evicted c j) \<longleftrightarrow> j + mc_max_size c < length (mc_entries c)"
  by (auto simp: over_capacity_def evicted_def)

lemma length_evicted: "length (mc_entries (evicted c j)) = length (mc_entries c) - j"
  by (simp add: evicted_def)

lemma evict_lru_while:
  "while_option over_capacity evict_step c = Some (evicted c (length (mc_entries c) - mc_max_size c))"
proof -
  let ?n = "length (mc_entries c) - mc_max_size c"
  define I where "I d \<longleftrightarrow> (\<exists>j. j \<le> ?n \<and> d = evicted c j)" for d
  have step: "I (evict_step d) \<and> length (mc_entries (evict_step d)) < length (mc_entries d)"
    if "I d" "over_capacity d" for d
  proof -
    from that(1) obtain j where j: "j \<le> ?n" and d: "d = evicted c j" unfolding I_def by blast
    from that(2) d have lt: "j + mc_max_size c < length (mc_entries c)" by (simp add: over_capacity_evicted)
    have e: "evict_step d = evicted c (Suc j)" using d by (simp only: evict_step_evicted)
    have "I (evict_step d)" unfolding I_def e using lt by (intro exI [of _ "Suc j"]) simp
    moreover have "length (mc_entries (evict_step d)) < length (mc_entries d)"
      using lt by (simp only: d evict_step_evicted length_evicted)
    ultimately show ?thesis ..
  qed
  have start: "I c" unfolding I_def by (intro exI [of _ 0]) (simp add: evicted_def)
  obtain d where d1: "while_option over_capacity evict_step c = Some d"
    using measure_while_option_Some [where P = I and f = "\<lambda>d. length (mc_entries d)", OF step start]
    by blast
  have d: "while_option over_capacity evict_step c = Some d" "I d" "\<not> over_capacity d"
    using d1 while_option_rule [where P = I, OF _ d1 start] step while_option_stop [OF d1] by blast+
  then obtain j where j: "j \<le> ?n" and dj: "d = evicted c j" unfolding I_def by blast
  with d(3) have "j = ?n" by (simp add: over_capacity_evicted)
  with d(1) dj show ?thesis by simp
qed

text \<open>
  Termination of the eviction loop \<open>while len(entries) > max_size: popitem(last=False)\<close>:
  from every cache state the loop stops, in a state within the size limit.
\<close>

theorem evict_lru_terminates:
  "\<exists>c'. while_option over_capacity evict_step c = Some c' \<and> \<not> over_capacity c'"
  by (simp add: evict_lru_while over_capacity_evicted)

lemma evict_lru_eq: "evict_lru c = evicted c (length (mc_entries c) - mc_max_size c)"
  by (simp add: evict_lru_def while_def evict_lru_while)

lemma evict_lru_simps [simp]:
  "mc_entries (evict_lru c) = drop (length (mc_entries c) - mc_max_size c) (mc_entries c)"
  "mc_max_size (evict_lru c) = mc_max_size c"
  "mc_strategy (evict_lru c) = mc_strategy c"
  by (simp_all add: evict_lru_eq evicted_def)

lemma cache_set_simps [simp]:
  "mc_strategy (cache_set k v ttl t c) = mc_strategy c"
  "mc_max_size (cache_set k v ttl t c) = mc_max_size c"
  by (simp_all add: cache_set_def)



section \<open>Behaviour of the backend\<close>

subsection \<open>Lookups after \<open>set\<close> and \<open>get\<close>\<close>

lemma cache_set_lookup:
  "map_of (mc_entries (cache_set k v ttl t c)) k =
     (if 0 < mc_max_size c then Some \<lparr>ce_value = v, ce_inserted = t, ce_accessed = t, ce_ttl = ttl\<rparr> else None)"
proof -
  have nk: "k \<notin> set (map fst (AList.delete k (mc_entries c)))" by (simp add: map_fst_delete)
  have "Suc (length (AList.delete k (mc_entries c))) - mc_max_size c \<le> length (AList.delete k (mc_entries c))
        \<longleftrightarrow> 0 < mc_max_size c" (is "?j \<le> _ \<longleftrightarrow> _") by arith
  moreover have "mc_entries (cache_set k v ttl t c) =
      drop ?j (AList.delete k (mc_entries c) @ [(k, \<lparr>ce_value = v, ce_inserted = t, ce_accessed = t, ce_ttl = ttl\<rparr>)])"
    by (simp add: cache_set_def)
  ultimately show ?thesis by (simp only: map_of_drop_snoc [OF nk])
qed

lemma cache_get_hit:
  assumes "map_of (mc_entries c) k = Some e" "\<not> expired (mc_strategy c) e now"
  shows "fst (cache_get k now c) = Some (ce_value e)"
    and "map_of (mc_entries (snd (cache_get k now c))) k = Some (e\<lparr>ce_accessed := now\<rparr>)"
    and "mc_strategy (snd (cache_get k now c)) = mc_strategy c"
  using assms by (simp_all add: cache_get_def map_add_def delete_conv)

subsection \<open>Hits, misses and the sliding window\<close>

text \<open>
  A value stored with a time-to-live is a hit for the same key at any time
  before its deadline, whatever the strategy (a backend with room for at least one entry).
\<close>

theorem cache_hit_within_ttl:
  "0 < mc_max_size c \<Longrightarrow> now < t + ttl \<Longrightarrow>
   fst (cache_get k now (cache_set k v ttl t c)) = Some v"
  using cache_set_lookup [of k v ttl t c]
  by (cases "mc_strategy c") (simp_all add: cache_get_def expired_def)

text \<open>
  A value stored with a time-to-live is a miss for the same key once its
  deadline has passed, whatever the strategy.
\<close>

theorem cache_miss_after_ttl:
  "t + ttl \<le> now \<Longrightarrow> fst (cache_get k now (cache_set k v ttl t c)) = None"
  using cache_set_lookup [of k v ttl t c]
  by (cases "mc_strategy c") (simp_all add: cache_get_def expired_def)

text \<open>
  Under the sliding-window strategy each hit extends the deadline: a second
  read within the time-to-live of the first read hits, even after the deadline
  counted from insertion.
\<close>

theorem sliding_window_extends:
  assumes "mc_strategy c = SlidingWindowStrategy" "0 < mc_max_size c" "tr < t + ttl" "tn < tr + ttl"
  shows "fst (cache_get k tn (snd (cache_get k tr (cache_set k v ttl t c)))) = Some v"
proof -
  let ?c1 = "cache_set k v ttl t c"
  let ?e = "\<lparr>ce_value = v, ce_inserted = t, ce_accessed = t, ce_ttl = ttl\<rparr>"
  have l1: "map_of (mc_entries ?c1) k = Some ?e" and n1: "\<not> expired (mc_strategy ?c1) ?e tr"
    using cache_set_lookup [of k v ttl t c] assms by (simp_all add: expired_def)
  have "\<not> expired (mc_strategy (snd (cache_get k tr ?c1))) (?e\<lparr>ce_accessed := tr\<rparr>) tn"
    using cache_get_hit(3) [OF l1 n1] assms by (simp add: expired_def)
  from cache_get_hit(1) [OF cache_get_hit(2) [OF l1 n1] this] show ?thesis by simp
qed


subsection \<open>Keys and least-recently-used order\<close>

lemma cache_set_keys:
  "map fst (mc_entries (cache_set k v ttl t c)) =
     drop (Suc (length (removeAll k (map fst (mc_entries c)))) - mc_max_size c)
          (removeAll k (map fst (mc_entries c)) @ [k])"
proof -
  have "length (AList.delete k (mc_entries c)) = length (removeAll k (map fst (mc_entries c)))"
    by (metis length_map map_fst_delete)
  then show ?thesis by (simp add: cache_set_def drop_map [symmetric] map_fst_delete del: drop_append)
qed

lemma cache_get_keys:
  "map fst (mc_entries (snd (cache_get k now c))) =
     (case map_of (mc_entries c) k of
        None \<Rightarrow> map fst (mc_entries c)
      | Some e \<Rightarrow> if expired (mc_strategy c) e now then removeAll k (map fst (mc_entries c))
                  else removeAll k (map fst (mc_entries c)) @ [k])"
  by (simp add: cache_get_def map_fst_delete split: option.split)

lemma cache_get_frame [simp]:
  "mc_max_size (snd (cache_get k now c)) = mc_max_size c"
  "mc_strategy (snd (cache_get k now c)) = mc_strategy c"
  by (simp_all add: cache_get_def split: option.split)

lemma cache_wf_keys:
  "cache_wf c \<longleftrightarrow> distinct (map fst (mc_entries c)) \<and> length (map fst (mc_entries c)) \<le> mc_max_size c"
  by (simp add: cache_wf_def)

lemma cache_wf_get:
  assumes "cache_wf c"
  shows "cache_wf (snd (cache_get k now c))"
proof (cases "map_of (mc_entries c) k")
  case None
  then show ?thesis using assms by (simp add: cache_get_def cache_wf_def)
next
  case (Some e)
  let ?K = "map fst (mc_entries c)"
  have "k \<in> set ?K" using Some by (force dest: map_of_SomeD)
  moreover then have "?K \<noteq> []" by auto
  ultimately have "length (removeAll k ?K) < length ?K"
    using assms by (simp add: cache_wf_keys length_removeAll_mem)
  with assms show ?thesis
    using Some by (simp add: cache_wf_keys cache_get_keys [of k now c] distinct_removeAll del: length_map)
qed

lemma cache_wf_set:
  assumes "cache_wf c"
  shows "cache_wf (cache_set k v ttl t c)"
proof -
  let ?ys = "removeAll k (map fst (mc_entries c)) @ [k]"
  have "map fst (mc_entries (cache_set k v ttl t c)) = drop (length ?ys - mc_max_size c) ?ys"
    by (simp add: cache_set_keys del: drop_append)
  moreover have "distinct ?ys" using assms by (simp add: cache_wf_def distinct_removeAll)
  ultimately show ?thesis by (simp add: cache_wf_keys del: drop_append length_map)
qed

lemma cache_wf_invalidate: "cache_wf c \<Longrightarrow> cache_wf (cache_invalidate k c)"
  using le_trans [OF length_removeAll_less_eq [of k "map fst (mc_entries c)"]]
  by (simp add: cache_wf_keys cache_invalidate_def map_fst_delete distinct_removeAll del: length_map)

lemma cache_wf_apply: "cache_wf c \<Longrightarrow> cache_wf (cache_apply op c)"
  by (cases op) (simp_all add: cache_wf_get cache_wf_set cache_wf_invalidate, simp add: cache_wf_def cache_clear_def)

text \<open>
  Invariant of the memory backend: along any sequence of \<open>get\<close>, \<open>set\<close>,
  \<open>invalidate\<close> and \<open>clear\<close> operations from a well-formed cache, the keys stay
  distinct and the number of entries never exceeds the size limit.
\<close>

theorem cache_reach_wf: "cache_reach c0 c \<Longrightarrow> cache_wf c0 \<Longrightarrow> cache_wf c"
  by (induction rule: cache_reach.induct) (simp_all add: cache_wf_apply)

lemma cache_get_lookup:
  "map_of (mc_entries (snd (cache_get k now c))) k =
     (case map_of (mc_entries c) k of
        None \<Rightarrow> None
      | Some e \<Rightarrow> if expired (mc_strategy c) e now then None else Some (e\<lparr>ce_accessed := now\<rparr>))"
  by (simp add: cache_get_def delete_conv map_add_def split: option.split)

lemma cache_get_result:
  "fst (cache_get k now c) =
     (case map_of (mc_entries c) k of
        None \<Rightarrow> None
      | Some e \<Rightarrow> if expired (mc_strategy c) e now then None else Some (ce_value e))"
  by (simp add: cache_get_def split: option.split)

text \<open>
  Least-recently-used eviction: inserting a new key into a full cache drops
  exactly the least recently used key (the first in order) and appends the new key.
\<close>

theorem cache_set_evicts_lru:
  assumes "k \<notin> set (map fst (mc_entries c))" "length (mc_entries c) = mc_max_size c" "0 < mc_max_size c"
  shows "map fst (mc_entries (cache_set k v ttl t c)) = tl (map fst (mc_entries c)) @ [k]"
proof -
  have "map fst (mc_entries c) \<noteq> []" using assms(2,3) by auto
  then show ?thesis using assms by (simp add: cache_set_keys removeAll_id tl_append2 drop_Suc)
qed

text \<open>
  The counters of \<open>stats()\<close>: every lookup counts exactly one hit (when it
  returns a value) or one miss (when it does not), and never an eviction.
\<close>

theorem cache_get_stats:
  "st_hits (mc_stats (snd (cache_get k now c))) =
     st_hits (mc_stats c) + (if fst (cache_get k now c) = None then 0 else 1) \<and>
   st_misses (mc_stats (snd (cache_get k now c))) =
     st_misses (mc_stats c) + (if fst (cache_get k now c) = None then 1 else 0) \<and>
   st_evictions (mc_stats (snd (cache_get k now c))) = st_evictions (mc_stats c)"
  by (simp add: cache_get_def count_hit_def count_miss_def split: option.split)

text \<open>
  Under the fixed time-to-live strategy an access does not extend the
  deadline: any lookup at or after insertion time plus time-to-live misses,
  even after an intermediate read.
\<close>

theorem ttl_not_extended:
  assumes "mc_strategy c = TTLStrategy" "t + ttl \<le> tn"
  shows "fst (cache_get k tn (snd (cache_get k tr (cache_set k v ttl t c)))) = None"
  using assms cache_set_lookup [of k v ttl t c] cache_get_lookup [of k tr "cache_set k v ttl t c"]
  by (simp add: cache_get_result expired_def)

lemma empty_cache_set_keys:
  "set (map fst (mc_entries (cache_set k v ttl t (empty_cache m st)))) \<subseteq> {k}"
  using set_drop_subset [of _ "[k]"] by (simp add: cache_set_keys empty_cache_def)

text \<open>
  Queries that differ in any dimension do not share an entry: after storing
  the answer to one query, a lookup of any other query misses.
\<close>

theorem distinct_query_miss:
  assumes "q' \<noteq> q"
  shows "fst (cache_get (fingerprint q') now (cache_set (fingerprint q) v ttl t (empty_cache m st))) = None"
proof -
  have "fingerprint q' \<notin> set (map fst (mc_entries (cache_set (fingerprint q) v ttl t (empty_cache m st))))"
  proof
    assume "fingerprint q' \<in> set (map fst (mc_entries (cache_set (fingerprint q) v ttl t (empty_cache m st))))"
    with empty_cache_set_keys have "fingerprint q' = fingerprint q" by (rule subsetD [THEN singletonD])
    with assms show False by (simp add: fingerprint_inj)
  qed
  then have "map_of (mc_entries (cache_set (fingerprint q) v ttl t (empty_cache m st))) (fingerprint q') = None"
    by (simp add: map_of_eq_None_iff)
  then show ?thesis by (simp only: cache_get_result option.case)
qed

section \<open>The cached query refines the source\<close>

lemma consistent_sub:
  assumes "consistent source c" "set (mc_entries c') \<subseteq> set (mc_entries c) \<union> {(k, e)}"
    and "\<exists>q. k = fingerprint q \<and> ce_value e = source q"
  shows "consistent source c'"
  unfolding consistent_def
proof (intro ballI, clarify)
  fix k' e' assume "(k', e') \<in> set (mc_entries c')"
  with assms(2) have "(k', e') \<in> set (mc_entries c) \<or> (k', e') = (k, e)" by blast
  then show "\<exists>q. k' = fingerprint q \<and> ce_value e' = source q"
    using assms(1,3) unfolding consistent_def by auto
qed

lemma consistent_get:
  assumes "consistent source c"
  shows "consistent source (snd (cache_get k now c))"
proof (cases "map_of (mc_entries c) k")
  case None
  with assms show ?thesis by (simp add: cache_get_def consistent_def)
next
  case (Some e)
  then have ke: "(k, e) \<in> set (mc_entries c)" by (rule map_of_SomeD)
  with assms have "\<exists>q. k = fingerprint q \<and> ce_value (e\<lparr>ce_accessed := now\<rparr>) = source q"
    unfolding consistent_def by auto
  moreover have "set (mc_entries (snd (cache_get k now c))) \<subseteq> set (mc_entries c) \<union> {(k, e\<lparr>ce_accessed := now\<rparr>)}"
    using Some set_delete_sub [of k "mc_entries c"] by (auto simp: cache_get_def)
  ultimately show ?thesis using consistent_sub [OF assms] by blast
qed

lemma consistent_set:
  assumes "consistent source c"
  shows "consistent source (cache_set (fingerprint q) (source q) ttl now c)"
proof (rule consistent_sub [OF assms])
  let ?e = "\<lparr>ce_value = source q, ce_inserted = now, ce_accessed = now, ce_ttl = ttl\<rparr>"
  show "set (mc_entries (cache_set (fingerprint q) (source q) ttl now c)) \<subseteq> set (mc_entries c) \<union> {(fingerprint q, ?e)}"
    using set_drop_subset [of _ "AList.delete (fingerprint q) (mc_entries c) @ [(fingerprint q, ?e)]"]
      set_delete_sub [of "fingerprint q" "mc_entries c"]
    by (fastforce simp: cache_set_def simp del: drop_append)
  show "\<exists>q'. fingerprint q = fingerprint q' \<and> ce_value ?e = source q'" by auto
qed

lemma cache_get_SomeD:
  "fst (cache_get k now c) = Some v \<Longrightarrow> \<exists>e. (k, e) \<in> set (mc_entries c) \<and> v = ce_value e"
  by (auto simp: cache_get_result split: option.splits if_splits dest: map_of_SomeD)

text \<open>
  Refinement of the query source by the cached query: when every stored
  entry holds the source's answer for the query whose fingerprint is its key,
  the cached query returns exactly what the source returns, and the cache stays
  consistent. A hit can only come from the same query, because fingerprints are
  injective.
\<close>

theorem cached_query_refines:
  assumes "consistent source c"
  shows "fst (cached_query source ttl q now c) = source q \<and> consistent source (snd (cached_query source ttl q now c))"
proof (cases "fst (cache_get (fingerprint q) now c)")
  case None
  then obtain c' where g: "cache_get (fingerprint q) now c = (None, c')" by (cases "cache_get (fingerprint q) now c") auto
  have "consistent source c'" using consistent_get [OF assms, of "fingerprint q" now] g by simp
  then show ?thesis using g by (simp add: cached_query_def Let_def consistent_set)
next
  case (Some v)
  then obtain c' where g: "cache_get (fingerprint q) now c = (Some v, c')" by (cases "cache_get (fingerprint q) now c") auto
  obtain e where "(fingerprint q, e) \<in> set (mc_entries c)" "v = ce_value e"
    using cache_get_SomeD [OF Some] by blast
  with assms obtain q' where "fingerprint q = fingerprint q'" "v = source q'"
    unfolding consistent_def by fastforce
  then have "v = source q" by (simp add: fingerprint_inj)
  moreover have "consistent source c'" using consistent_get [OF assms, of "fingerprint q" now] g by simp
  ultimately show ?thesis using g by (simp add: cached_query_def)
qed

section \<open>Examples\<close>

theorem cached_query_refines_witness:
  "consistent demo_source (empty_cache 2 TTLStrategy) \<and>
   fst (cached_query demo_source 60 demo_query 0 (empty_cache 2 TTLStrategy)) = demo_source demo_query \<and>
   consistent demo_source (snd (cached_query demo_source 60 demo_query 0 (empty_cache 2 TTLStrategy)))"
proof -
  have c: "consistent demo_source (empty_cache 2 TTLStrategy)" by (simp add: consistent_def empty_cache_def)
  show ?thesis using cached_query_refines [OF c, of 60 demo_query 0] c by simp
qed

theorem cache_reach_wf_witness:
  "cache_reach (empty_cache 1 SlidingWindowStrategy)
     (cache_apply (CSet ''b'' (2::nat) 60 1) (cache_apply (CSet ''a'' 1 60 0) (empty_cache 1 SlidingWindowStrategy))) \<and>
   cache_wf (empty_cache 1 SlidingWindowStrategy :: nat memory_cache) \<and>
   cache_wf (cache_apply (CSet ''b'' (2::nat) 60 1) (cache_apply (CSet ''a'' 1 60 0) (empty_cache 1 SlidingWindowStrategy)))"
proof -
  have r: "cache_reach (empty_cache 1 SlidingWindowStrategy)
     (cache_apply (CSet ''b'' (2::nat) 60 1) (cache_apply (CSet ''a'' 1 60 0) (empty_cache 1 SlidingWindowStrategy)))"
    by (intro cache_reach.step cache_reach.start)
  have w: "cache_wf (empty_cache 1 SlidingWindowStrategy :: nat memory_cache)"
    by (simp add: cache_wf_def empty_cache_def)
  show ?thesis using cache_reach_wf [OF r w] r w by simp
qed

theorem cache_hit_within_ttl_witness:
  "0 < mc_max_size (empty_cache 2 TTLStrategy :: nat memory_cache) \<and> (30::nat) < 0 + 60 \<and>
   fst (cache_get ''k'' 30 (cache_set ''k'' (7::nat) 60 0 (empty_cache 2 TTLStrategy))) = Some 7"
  using cache_hit_within_ttl [where c = "empty_cache 2 TTLStrategy" and now = 30 and t = 0 and ttl = 60 and k = "''k''" and v = 7]
  by (simp add: empty_cache_def)

theorem cache_miss_after_ttl_witness:
  "(0::nat) + 60 \<le> 90 \<and> fst (cache_get ''k'' 90 (cache_set ''k'' (7::nat) 60 0 (empty_cache 2 TTLStrategy))) = None"
  using cache_miss_after_ttl [where c = "empty_cache 2 TTLStrategy" and now = 90 and t = 0 and ttl = 60 and k = "''k''" and v = "7::nat"]
  by simp

theorem distinct_query_miss_witness:
  "demo_query\<lparr>q_end := ''*-1h''\<rparr> \<noteq> demo_query \<and>
   fst (cache_get (fingerprint (demo_query\<lparr>q_end := ''*-1h''\<rparr>)) 10
          (cache_set (fingerprint demo_query) (1::nat) 60 0 (empty_cache 2 TTLStrategy))) = None"
proof -
  have d: "demo_query\<lparr>q_end := ''*-1h''\<rparr> \<noteq> demo_query" by (simp add: demo_query_def)
  show ?thesis using distinct_query_miss [OF d, of 10 "1::nat" 60 0 2 TTLStrategy] d by simp
qed

theorem sliding_window_extends_witness:
  "mc_strategy (empty_cache 2 SlidingWindowStrategy :: nat memory_cache) = SlidingWindowStrategy \<and>
   0 < mc_max_size (empty_cache 2 SlidingWindowStrategy :: nat memory_cache) \<and> (50::nat) < 0 + 60 \<and> (100::nat) < 50 + 60 \<and>
   fst (cache_get ''k'' 100 (snd (cache_get ''k'' 50 (cache_set ''k'' (7::nat) 60 0 (empty_cache 2 SlidingWindowStrategy))))) = Some 7"
  using sliding_window_extends [where c = "empty_cache 2 SlidingWindowStrategy" and t = 0 and ttl = 60 and tr = 50 and tn = 100 and k = "''k''" and v = "7::nat"]
  by (simp add: empty_cache_def)

theorem ttl_not_extended_witness:
  "mc_strategy (empty_cache 2 TTLStrategy :: nat memory_cache) = TTLStrategy \<and> (0::nat) + 60 \<le> 100 \<and>
   fst (cache_get ''k'' 100 (snd (cache_get ''k'' 50 (cache_set ''k'' (7::nat) 60 0 (empty_cache 2 TTLStrategy))))) = None"
  using ttl_not_extended [where c = "empty_cache 2 TTLStrategy" and t = 0 and ttl = 60 and tr = 50 and tn = 100 and k = "''k''" and v = "7::nat"]
  by (simp add: empty_cache_def)

theorem cache_set_evicts_lru_witness:
  "''c'' \<notin> set (map fst (mc_entries (cache_set ''b'' (2::nat) 60 1 (cache_set ''a'' 1 60 0 (empty_cache 2 TTLStrategy))))) \<and>
   length (mc_entries (cache_set ''b'' (2::nat) 60 1 (cache_set ''a'' 1 60 0 (empty_cache 2 TTLStrategy)))) =
     mc_max_size (cache_set ''b'' (2::nat) 60 1 (cache_set ''a'' 1 60 0 (empty_cache 2 TTLStrategy))) \<and>
   0 < mc_max_size (cache_set ''b'' (2::nat) 60 1 (cache_set ''a'' 1 60 0 (empty_cache 2 TTLStrategy))) \<and>
   map fst (mc_entries (cache_set ''c'' 3 60 2 (cache_set ''b'' (2::nat) 60 1 (cache_set ''a'' 1 60 0 (empty_cache 2 TTLStrategy))))) =
     [''b'', ''c'']"
proof -
  let ?c = "cache_set ''b'' (2::nat) 60 1 (cache_set ''a'' 1 60 0 (empty_cache 2 TTLStrategy))"
  have e: "map fst (mc_entries ?c) = [''a'', ''b'']" "mc_max_size ?c = 2"
    by (simp_all add: cache_set_keys empty_cache_def)
  moreover have "length (mc_entries ?c) = 2" using arg_cong [OF e(1), of length] by simp
  ultimately have p: "''c'' \<notin> set (map fst (mc_entries ?c))" "length (mc_entries ?c) = mc_max_size ?c" "0 < mc_max_size ?c"
    by simp_all
  show ?thesis using cache_set_evicts_lru [OF p, of 3 60 2] p e by simp
qed

end
