(* ===== verification/Export.thy ===== *)
theory Export
  imports AnalysisInfo "HOL-Library.Monad_Syntax"
begin

text \<open>
  The output stage of both scripts (\<open>src/examples/extract_analyses.py\<close> and
  \<open>src/examples/extract_pipoints.py\<close>): \<open>serialize_datetime\<close>, the hook
  \<open>json.dump(rows, f, default=serialize_datetime)\<close> calls for every object it
  cannot encode; the encoding of the rows as a JSON tree (the text layout of
  \<open>indent=2\<close> is not modelled); and \<open>main\<close>, which extracts, writes the file and
  prints a summary, resetting the list when anything in its \<open>try\<close> raises. The
  reader side, \<open>datetime.fromisoformat\<close>, is the library's parser for the text
  \<open>isoformat\<close> prints.
\<close>

section \<open>Reading a date back: \<open>datetime.fromisoformat\<close>\<close>

text \<open>Fixed-width decimal fields and literal separators, as \<open>isoformat\<close> writes them.\<close>


definition dec_fixed :: "nat \<Rightarrow> string \<Rightarrow> (nat \<times> string) option" where
  "dec_fixed w s =
     (if w \<le> length s \<and> list_all is_digit (take w s) then Some (nat_of_digits (take w s), drop w s) else None)"

definition dec_lit :: "char \<Rightarrow> string \<Rightarrow> string option" where
  "dec_lit c s = (case s of d # r \<Rightarrow> if d = c then Some r else None | [] \<Rightarrow> None)"

definition dec_fraction :: "string \<Rightarrow> nat option" where
  "dec_fraction s =
     (if s = [] then Some 0
      else do { r \<leftarrow> dec_lit CHR ''.'' s; (us, r') \<leftarrow> dec_fixed 6 r; if r' = [] then Some us else None })"

definition from_isoformat :: "string \<Rightarrow> datetime option" where
  "from_isoformat s = do {
     (y, s) \<leftarrow> dec_fixed 4 s; s \<leftarrow> dec_lit CHR ''-'' s;
     (mo, s) \<leftarrow> dec_fixed 2 s; s \<leftarrow> dec_lit CHR ''-'' s;
     (d, s) \<leftarrow> dec_fixed 2 s; s \<leftarrow> dec_lit CHR ''T'' s;
     (h, s) \<leftarrow> dec_fixed 2 s; s \<leftarrow> dec_lit CHR '':'' s;
     (mi, s) \<leftarrow> dec_fixed 2 s; s \<leftarrow> dec_lit CHR '':'' s;
     (sec, s) \<leftarrow> dec_fixed 2 s;
     us \<leftarrow> dec_fraction s;
     if datetime_args_ok (int y) (int mo) (int d) (int h) (int mi) (int sec) (int us)
     then Some \<lparr>dt_year = y, dt_month = mo, dt_day = d, dt_hour = h, dt_minute = mi,
                dt_second = sec, dt_microsecond = us\<rparr>
     else None }"


section \<open>\<open>serialize_datetime\<close> and \<open>json.dump\<close>\<close>

text \<open>An object \<open>json\<close> cannot encode natively, handed to the \<open>default\<close> hook.\<close>

datatype dump_obj = DumpDatetime datetime | DumpOther string

definition serialize_datetime :: "dump_obj \<Rightarrow> string py_result" where
  "serialize_datetime obj = (case obj of DumpDatetime d \<Rightarrow> Inr (isoformat d) | DumpOther _ \<Rightarrow> Inl TypeError)"

text \<open>
  The document \<open>json.dump\<close> writes, as a tree: objects keep the insertion order
  of the dictionaries. A row value is encoded as the encoder does it: Python
  primitives directly, an error message (\<open>str(e)\<close>, given by \<open>msg\<close>) as a string,
  a date through the \<open>default\<close> hook, a nested dictionary as an object.
\<close>

datatype json = JNull | JBool bool | JInt int | JFloat real | JStr string | JArr "json list"
  | JObj "(string \<times> json) list"

fun json_of_value :: "py_value \<Rightarrow> json" where
  "json_of_value (PyFloat r) = JFloat r"
| "json_of_value (PyInt i) = JInt i"
| "json_of_value (PyStr s) = JStr s"
| "json_of_value (PyBool b) = JBool b"
| "json_of_value PyNone = JNull"

fun json_of_info :: "(py_error \<Rightarrow> string) \<Rightarrow> info_value \<Rightarrow> json py_result"
and json_of_fields :: "(py_error \<Rightarrow> string) \<Rightarrow> (string \<times> info_value) list \<Rightarrow> (string \<times> json) list py_result" where
  "json_of_info msg (IVal v) = Inr (json_of_value v)"
| "json_of_info msg (IErr e) = Inr (JStr (msg e))"
| "json_of_info msg (IDate None) = Inr JNull"
| "json_of_info msg (IDate (Some d)) = rbind (serialize_datetime (DumpDatetime d)) (\<lambda>s. Inr (JStr s))"
| "json_of_info msg (IDict kvs) = rbind (json_of_fields msg kvs) (\<lambda>fs. Inr (JObj fs))"
| "json_of_fields msg [] = Inr []"
| "json_of_fields msg ((k, v) # kvs) =
     rbind (json_of_info msg v) (\<lambda>j. rbind (json_of_fields msg kvs) (\<lambda>fs. Inr ((k, j) # fs)))"

fun json_dump_rows :: "(py_error \<Rightarrow> string) \<Rightarrow> (string, info_value) pydict list \<Rightarrow> json list py_result" where
  "json_dump_rows msg [] = Inr []"
| "json_dump_rows msg (r # rs) =
     rbind (json_of_fields msg r) (\<lambda>fs. rbind (json_dump_rows msg rs) (\<lambda>js. Inr (JObj fs # js)))"

section \<open>\<open>main\<close>\<close>

text \<open>
  \<open>main\<close>: inside one \<open>try\<close>, extract, open the output file (it may not be
  writable), dump the rows into it; any exception resets the list to \<open>[]\<close>, and
  the summary prints its length. A \<open>TypeError\<close> from the hook would leave a
  partly written file.
\<close>

datatype output_file = NoFile | Written json | Truncated

record main_result =
  mr_file :: output_file
  mr_reported :: nat

definition script_main ::
  "bool \<Rightarrow> (py_error \<Rightarrow> string) \<Rightarrow> (string, info_value) pydict list py_result \<Rightarrow> main_result" where
  "script_main writable msg extracted =
     (case extracted of
        Inl e \<Rightarrow> \<lparr>mr_file = NoFile, mr_reported = 0\<rparr>
      | Inr rows \<Rightarrow>
          if \<not> writable then \<lparr>mr_file = NoFile, mr_reported = 0\<rparr>
          else (case json_dump_rows msg rows of
                  Inl e \<Rightarrow> \<lparr>mr_file = Truncated, mr_reported = 0\<rparr>
                | Inr js \<Rightarrow> \<lparr>mr_file = Written (JArr js), mr_reported = length rows\<rparr>))"

text \<open>The two scripts' \<open>main\<close>: all databases of server \<open>GENCOPI\<close>; all points of \<open>GENCOPI\<close> with the defaults \<open>pattern="*"\<close>, \<open>max_count=100000\<close>.\<close>

definition analyses_main ::
  "(string \<Rightarrow> af_analysis pi_system option) \<Rightarrow> (string \<Rightarrow> string \<Rightarrow> af_analysis af_database py_result) \<Rightarrow> nat \<Rightarrow> string
   \<Rightarrow> bool \<Rightarrow> (py_error \<Rightarrow> string) \<Rightarrow> main_result" where
  "analyses_main systems open_db limit extraction_time writable msg =
     script_main writable msg
       (snd (extract_analyses systems open_db (raw_row extraction_time) (info_row extraction_time) limit ''GENCOPI'' None))"

definition pipoints_main ::
  "(string \<Rightarrow> unit py_result) \<Rightarrow> (string \<Rightarrow> int \<Rightarrow> net_point list py_result) \<Rightarrow> bool \<Rightarrow> (py_error \<Rightarrow> string) \<Rightarrow> main_result" where
  "pipoints_main open_conn search_points writable msg =
     script_main writable msg (extract_pi_points open_conn search_points ''GENCOPI'' ''*'' 100000)"

text \<open>A server with one database holding one analysis, for the examples.\<close>

definition demo_af_systems :: "string \<Rightarrow> af_analysis pi_system option" where
  "demo_af_systems s =
     (if s = ''GENCOPI''
      then Some \<lparr>sys_connect = Inr (),
                 sys_databases = Inr [\<lparr>db_name = Inr ''DB1'', db_analyses = Inr [demo_analysis], db_elements = []\<rparr>]\<rparr>
      else None)"

section \<open>Properties\<close>

subsection \<open>Dates survive the JSON file\<close>

lemma zpad_facts:
  assumes "length (string_of_nat n) \<le> w"
  shows "length (zpad w n) = w" "list_all is_digit (zpad w n)" "nat_of_digits (zpad w n) = n"
  using assms string_of_nat_digits [of n] digits_zeros [of "w - length (string_of_nat n)"]
  by (simp_all add: zpad_def nat_of_digits_zeros nat_of_digits_string_of_nat)

lemma dec_fixed_zpad [simp]:
  assumes "length (string_of_nat n) \<le> w"
  shows "dec_fixed w (zpad w n @ r) = Some (n, r)"
  using zpad_facts [OF assms] by (simp add: dec_fixed_def)

lemma dec_lit_Cons [simp]: "dec_lit c (c # r) = Some r"
  by (simp add: dec_lit_def)

lemma dec_fraction_iso:
  assumes "us < 1000000"
  shows "dec_fraction (if us = 0 then [] else ''.'' @ zpad 6 us) = Some us"
proof -
  have "length (string_of_nat us) \<le> 6" using assms by (intro length_string_of_nat_le) simp_all
  then show ?thesis using dec_fixed_zpad [of us 6 "[]"] by (simp add: dec_fraction_def)
qed

lemma from_isoformat_isoformat:
  assumes ok: "datetime_args_ok (int (dt_year d)) (int (dt_month d)) (int (dt_day d)) (int (dt_hour d))
                 (int (dt_minute d)) (int (dt_second d)) (int (dt_microsecond d))"
  shows "from_isoformat (isoformat d) = Some d"
proof -
  have b: "dt_year d < 10 ^ 4" "dt_month d < 10 ^ 2" "dt_day d < 10 ^ 2" "dt_hour d < 10 ^ 2"
      "dt_minute d < 10 ^ 2" "dt_second d < 10 ^ 2" "dt_microsecond d < 1000000"
    using ok by (auto simp: datetime_args_ok_def days_in_month_def split: if_splits)
  have l: "length (string_of_nat (dt_year d)) \<le> 4" "length (string_of_nat (dt_month d)) \<le> 2"
      "length (string_of_nat (dt_day d)) \<le> 2" "length (string_of_nat (dt_hour d)) \<le> 2"
      "length (string_of_nat (dt_minute d)) \<le> 2" "length (string_of_nat (dt_second d)) \<le> 2"
    using b(1-6) by (auto intro: length_string_of_nat_le)
  show ?thesis
    using ok dec_fraction_iso [OF b(7)]
    by (simp add: from_isoformat_def isoformat_def l)
qed
text \<open>
  C31. Round trip of the timestamps written to the JSON files: for a .NET
  date that passes the range checks of \<open>datetime(...)\<close> (every .NET
  \<open>DateTime\<close> does), the value \<open>convert_net_datetime\<close> stores is written by
  the \<open>default\<close> hook as a JSON string that \<open>datetime.fromisoformat\<close> reads
  back with the .NET fields: year to second unchanged, the milliseconds as
  microseconds.
\<close>

theorem json_datetime_roundtrip:
  assumes "datetime_args_ok (nd_year nd) (nd_month nd) (nd_day nd) (nd_hour nd) (nd_minute nd)
             (nd_second nd) (nd_millisecond nd * 1000)"
  shows "\<exists>s d. json_of_info msg (IDate (convert_net_datetime nd)) = Inr (JStr s) \<and> from_isoformat s = Some d \<and>
           (int (dt_year d), int (dt_month d), int (dt_day d), int (dt_hour d), int (dt_minute d),
            int (dt_second d), int (dt_microsecond d))
         = (nd_year nd, nd_month nd, nd_day nd, nd_hour nd, nd_minute nd, nd_second nd, nd_millisecond nd * 1000)"
proof -
  let ?d = "\<lparr>dt_year = nat (nd_year nd), dt_month = nat (nd_month nd), dt_day = nat (nd_day nd),
             dt_hour = nat (nd_hour nd), dt_minute = nat (nd_minute nd),
             dt_second = nat (nd_second nd), dt_microsecond = nat (nd_millisecond nd * 1000)\<rparr>"
  have c: "convert_net_datetime nd = Some ?d" using assms by (simp add: convert_net_datetime_def)
  have f: "(int (dt_year ?d), int (dt_month ?d), int (dt_day ?d), int (dt_hour ?d), int (dt_minute ?d),
            int (dt_second ?d), int (dt_microsecond ?d))
         = (nd_year nd, nd_month nd, nd_day nd, nd_hour nd, nd_minute nd, nd_second nd, nd_millisecond nd * 1000)"
    using assms by (simp add: datetime_args_ok_def)
  then have "datetime_args_ok (int (dt_year ?d)) (int (dt_month ?d)) (int (dt_day ?d)) (int (dt_hour ?d))
          (int (dt_minute ?d)) (int (dt_second ?d)) (int (dt_microsecond ?d))"
    using assms by (simp only: prod.inject)
  from from_isoformat_isoformat [OF this] c f show ?thesis by (simp add: serialize_datetime_def)
qed

subsection \<open>Encoding and \<open>main\<close>\<close>

lemma json_of_total:
  "\<exists>j. json_of_info msg v = Inr j"
  "\<exists>fs. json_of_fields msg kvs = Inr fs \<and> map fst fs = map fst kvs"
  by (induction msg v and msg kvs rule: json_of_info_json_of_fields.induct)
     (auto simp: serialize_datetime_def)

lemma json_dump_rows_total:
  "\<exists>js. json_dump_rows msg rows = Inr js \<and>
     list_all2 (\<lambda>j r. \<exists>fs. j = JObj fs \<and> json_of_fields msg r = Inr fs \<and> map fst fs = map fst r) js rows"
proof (induction rows)
  case (Cons r rs)
  then show ?case using json_of_total(2) [of msg r] by fastforce
qed simp

lemma script_main_written:
  assumes "writable"
  shows "\<exists>js. script_main writable msg (Inr rows) = \<lparr>mr_file = Written (JArr js), mr_reported = length rows\<rparr> \<and>
           list_all2 (\<lambda>j r. \<exists>fs. j = JObj fs \<and> map fst fs = map fst r) js rows"
proof -
  obtain js where "json_dump_rows msg rows = Inr js"
    and a: "list_all2 (\<lambda>j r. \<exists>fs. j = JObj fs \<and> json_of_fields msg r = Inr fs \<and> map fst fs = map fst r) js rows"
    using json_dump_rows_total by blast
  moreover have "list_all2 (\<lambda>j r. \<exists>fs. j = JObj fs \<and> map fst fs = map fst r) js rows"
    using a by (rule list_all2_mono) blast
  ultimately show ?thesis using assms by (simp add: script_main_def)
qed

text \<open>
  C32. The analyses script saves what it extracts: when the extraction over all
  databases succeeds and the file is writable, the file holds one JSON object
  per extracted analysis, each with exactly the keys of the raw schema in order,
  and the summary reports that many analyses.
\<close>

theorem analyses_main_saves_rows:
  assumes "snd (extract_analyses systems open_db (raw_row t) (info_row t) limit ''GENCOPI'' None) = Inr rows"
  shows "\<exists>js. analyses_main systems open_db limit t True msg = \<lparr>mr_file = Written (JArr js), mr_reported = length rows\<rparr> \<and>
           length js = length rows \<and> list_all (\<lambda>j. \<exists>fs. j = JObj fs \<and> map fst fs = raw_keys) js"
proof -
  obtain js where w: "script_main True msg (Inr rows) = \<lparr>mr_file = Written (JArr js), mr_reported = length rows\<rparr>"
    and a: "list_all2 (\<lambda>j r. \<exists>fs. j = JObj fs \<and> map fst fs = map fst r) js rows"
    using script_main_written [of True msg rows] by blast
  have e: "extract_analyses systems open_db (raw_row t) (info_row t) limit ''GENCOPI'' None =
      (fst (extract_analyses systems open_db (raw_row t) (info_row t) limit ''GENCOPI'' None), Inr rows)"
    using assms by (metis prod.collapse)
  have "\<forall>r\<in>set rows. map fst r = raw_keys" using extract_analyses_keys [OF e] by simp
  with a have "list_all (\<lambda>j. \<exists>fs. j = JObj fs \<and> map fst fs = raw_keys) js"
    by (auto simp: list_all2_conv_all_nth list_all_length)
  moreover have "length js = length rows" using a by (rule list_all2_lengthD)
  ultimately show ?thesis using w assms by (simp add: analyses_main_def)
qed

text \<open>
  C33. Error behaviour of the point script's \<open>main\<close>: it writes no file and
  reports zero points exactly when the output file cannot be opened or the
  extraction raises (connection or search failure); otherwise the file is
  written.
\<close>

theorem pipoints_main_no_file:
  "pipoints_main open_conn search_points writable msg = \<lparr>mr_file = NoFile, mr_reported = 0\<rparr> \<longleftrightarrow>
   \<not> writable \<or> (\<exists>e. extract_pi_points open_conn search_points ''GENCOPI'' ''*'' 100000 = Inl e)"
proof (cases "extract_pi_points open_conn search_points ''GENCOPI'' ''*'' 100000")
  case (Inl e)
  then show ?thesis by (simp add: pipoints_main_def script_main_def)
next
  case (Inr rows)
  then show ?thesis
    using script_main_written [of writable msg rows]
    by (cases writable) (auto simp: pipoints_main_def script_main_def)
qed

section \<open>Examples\<close>

theorem json_datetime_roundtrip_witness:
  "datetime_args_ok 2024 2 29 10 30 5 (250 * 1000) \<and>
   (\<exists>s. json_of_info (\<lambda>_. []) (IDate (convert_net_datetime \<lparr>nd_year = 2024, nd_month = 2, nd_day = 29,
       nd_hour = 10, nd_minute = 30, nd_second = 5, nd_millisecond = 250\<rparr>)) = Inr (JStr s) \<and>
     from_isoformat s = Some \<lparr>dt_year = 2024, dt_month = 2, dt_day = 29, dt_hour = 10,
       dt_minute = 30, dt_second = 5, dt_microsecond = 250000\<rparr>)"
proof -
  let ?nd = "\<lparr>nd_year = 2024, nd_month = 2, nd_day = 29, nd_hour = 10, nd_minute = 30, nd_second = 5,
               nd_millisecond = 250\<rparr>"
  have h: "datetime_args_ok (nd_year ?nd) (nd_month ?nd) (nd_day ?nd) (nd_hour ?nd) (nd_minute ?nd)
             (nd_second ?nd) (nd_millisecond ?nd * 1000)"
    by (simp add: datetime_args_ok_def days_in_month_def is_leap_def)
  obtain s d where j: "json_of_info (\<lambda>_. []) (IDate (convert_net_datetime ?nd)) = Inr (JStr s)"
    and p: "from_isoformat s = Some d"
    and f: "(int (dt_year d), int (dt_month d), int (dt_day d), int (dt_hour d), int (dt_minute d),
            int (dt_second d), int (dt_microsecond d)) = (2024, 2, 29, 10, 30, 5, 250 * 1000)"
    using json_datetime_roundtrip [OF h, of "\<lambda>_. []"] by auto
  have "d = \<lparr>dt_year = 2024, dt_month = 2, dt_day = 29, dt_hour = 10, dt_minute = 30, dt_second = 5,
             dt_microsecond = 250000\<rparr>"
    using f by simp
  with h j p show ?thesis by auto
qed

theorem analyses_main_saves_rows_witness:
  "snd (extract_analyses demo_af_systems (\<lambda>_ _. Inl ValueError) (raw_row ''T0'') (info_row ''T0'') 10 ''GENCOPI'' None) =
     Inr (List.map_filter (\<lambda>a. raw_row ''T0'' a ''DB1'') [demo_analysis]) \<and>
   (\<exists>js. analyses_main demo_af_systems (\<lambda>_ _. Inl ValueError) 10 ''T0'' True (\<lambda>_. '''') =
      \<lparr>mr_file = Written (JArr js), mr_reported = length (List.map_filter (\<lambda>a. raw_row ''T0'' a ''DB1'') [demo_analysis])\<rparr> \<and>
      length js = length (List.map_filter (\<lambda>a. raw_row ''T0'' a ''DB1'') [demo_analysis]) \<and>
      list_all (\<lambda>j. \<exists>fs. j = JObj fs \<and> map fst fs = raw_keys) js)"
proof -
  have h: "snd (extract_analyses demo_af_systems (\<lambda>_ _. Inl ValueError) (raw_row ''T0'') (info_row ''T0'') 10 ''GENCOPI'' None) =
     Inr (List.map_filter (\<lambda>a. raw_row ''T0'' a ''DB1'') [demo_analysis])"
    by (simp add: extract_analyses_def extract_analyses_from_all_databases_def demo_af_systems_def db_rows_def)
  show ?thesis using analyses_main_saves_rows [OF h, of "\<lambda>_. ''''"] h by blast
qed

theorem pipoints_main_no_file_witness:
  "pipoints_main (\<lambda>_. Inl (SDKError ''Connect'')) (\<lambda>_ _. Inr []) True (\<lambda>_. '''') =
     \<lparr>mr_file = NoFile, mr_reported = 0\<rparr>"
  using pipoints_main_no_file [of "\<lambda>_. Inl (SDKError ''Connect'')" "\<lambda>_ _. Inr []" True "\<lambda>_. ''''"]
  by (simp add: extract_pi_points_def)

end
