(* ===== verification/Client.thy ===== *)
theory Client
  imports Prelude
begin

text \<open>
  The client's configuration surface: \<open>PIClient(server=None, config=None)\<close>
  of \<open>pipolars.api.client\<close> and the records \<open>PIServerConfig\<close> and \<open>PIConfig\<close>
  of \<open>pipolars.core.config\<close>. Those modules are not in the source tree; the
  model follows the specification (server-name defaulting: an empty,
  whitespace-only, \<open>None\<close> or omitted server resolves to \<open>localhost\<close>, a
  non-blank name is used verbatim, a full configuration object takes
  precedence). The unit tests that pin this behaviour are in the tree
  (\<open>src/tests/unit/test_client.py\<close>, \<open>src/test_default_server.py\<close>) and are
  modelled as the boolean conditions they assert.
\<close>

section \<open>Configuration records and the constructor\<close>

record server_config =
  sc_host :: string

text \<open>\<open>PIServerConfig()\<close>: the host defaults to \<open>localhost\<close>.\<close>

definition default_server_config :: server_config where
  "default_server_config = \<lparr>sc_host = ''localhost''\<rparr>"

record pi_config =
  cfg_server :: server_config

text \<open>The \<open>server\<close> argument: omitted or \<open>None\<close>, a name, or a \<open>PIServerConfig\<close>.\<close>

datatype server_arg = SrvNone | SrvName string | SrvConfig server_config

definition resolve_server :: "server_arg \<Rightarrow> server_config" where
  "resolve_server server =
     (case server of
        SrvNone \<Rightarrow> default_server_config
      | SrvName s \<Rightarrow> if strip_ws s = [] then default_server_config else \<lparr>sc_host = s\<rparr>
      | SrvConfig sc \<Rightarrow> sc)"

definition pi_client_config :: "server_arg \<Rightarrow> pi_config option \<Rightarrow> pi_config" where
  "pi_client_config server config =
     (case config of Some c \<Rightarrow> c | None \<Rightarrow> \<lparr>cfg_server = resolve_server server\<rparr>)"

abbreviation client_host :: "server_arg \<Rightarrow> pi_config option \<Rightarrow> string" where
  "client_host server config \<equiv> sc_host (cfg_server (pi_client_config server config))"

section \<open>The unit tests\<close>

text \<open>\<open>tests/unit/test_client.py\<close>, class \<open>TestPIClientInitialization\<close> (the connection is patched out).\<close>

definition test_blank_server_uses_default :: bool where
  "test_blank_server_uses_default \<longleftrightarrow> client_host (SrvName '''') None = ''localhost''"

definition test_whitespace_server_uses_default :: bool where
  "test_whitespace_server_uses_default \<longleftrightarrow> client_host (SrvName ''   '') None = ''localhost''"

definition test_none_server_uses_default :: bool where
  "test_none_server_uses_default \<longleftrightarrow> client_host SrvNone None = ''localhost''"

definition test_no_args_uses_default :: bool where
  "test_no_args_uses_default \<longleftrightarrow> client_host SrvNone None = ''localhost''"

definition test_explicit_server_name :: bool where
  "test_explicit_server_name \<longleftrightarrow> client_host (SrvName ''my-pi-server'') None = ''my-pi-server''"

definition test_server_config_object :: bool where
  "test_server_config_object \<longleftrightarrow>
     client_host (SrvConfig \<lparr>sc_host = ''config-server''\<rparr>) None = ''config-server''"

definition test_full_config_object :: bool where
  "test_full_config_object \<longleftrightarrow>
     client_host SrvNone (Some \<lparr>cfg_server = \<lparr>sc_host = ''full-config-server''\<rparr>\<rparr>) = ''full-config-server''"

definition test_config_takes_precedence_over_server :: bool where
  "test_config_takes_precedence_over_server \<longleftrightarrow>
     client_host (SrvName ''server-arg'') (Some \<lparr>cfg_server = \<lparr>sc_host = ''config-host''\<rparr>\<rparr>) = ''config-host''"

definition test_client_suite :: bool where
  "test_client_suite \<longleftrightarrow>
     test_blank_server_uses_default \<and> test_whitespace_server_uses_default \<and>
     test_none_server_uses_default \<and> test_no_args_uses_default \<and> test_explicit_server_name \<and>
     test_server_config_object \<and> test_full_config_object \<and> test_config_takes_precedence_over_server"

text \<open>\<open>test_default_server.py\<close>: six checks run in order by its \<open>__main__\<close> block, which exits with status 1 on the first failed assertion.\<close>

definition test_config_default :: bool where
  "test_config_default \<longleftrightarrow> sc_host default_server_config = ''localhost''"

definition test_client_empty_string :: bool where
  "test_client_empty_string \<longleftrightarrow> client_host (SrvName '''') None = ''localhost''"

definition test_client_whitespace :: bool where
  "test_client_whitespace \<longleftrightarrow> client_host (SrvName ''   '') None = ''localhost''"

definition test_client_none :: bool where
  "test_client_none \<longleftrightarrow> client_host SrvNone None = ''localhost''"

definition test_client_no_args :: bool where
  "test_client_no_args \<longleftrightarrow> client_host SrvNone None = ''localhost''"

definition test_client_explicit :: bool where
  "test_client_explicit \<longleftrightarrow> client_host (SrvName ''my-pi-server'') None = ''my-pi-server''"

definition default_server_exit_status :: nat where
  "default_server_exit_status =
     (if test_config_default \<and> test_client_empty_string \<and> test_client_whitespace \<and>
         test_client_none \<and> test_client_no_args \<and> test_client_explicit
      then 0 else 1)"

section \<open>Properties\<close>

lemma resolve_server_name:
  "resolve_server (SrvName s) = (if strip_ws s = [] then default_server_config else \<lparr>sc_host = s\<rparr>)"
  by (simp add: resolve_server_def)

lemma client_host_simps [simp]:
  "client_host server (Some c) = sc_host (cfg_server c)"
  "client_host SrvNone None = ''localhost''"
  "client_host (SrvName s) None = (if strip_ws s = [] then ''localhost'' else s)"
  "client_host (SrvConfig sc) None = sc_host sc"
  by (simp_all add: pi_client_config_def resolve_server_def default_server_config_def)

text \<open>
  The model of \<open>PIClient\<close>, taken from the specification, agrees with the
  tests: all eight initialisation tests of \<open>test_client.py\<close> hold, and the
  script \<open>test_default_server.py\<close> runs its six checks and exits with status 0.
\<close>

lemma client_tests_pass: "test_client_suite \<and> default_server_exit_status = 0"
  by (simp add: test_client_suite_def default_server_exit_status_def
      test_blank_server_uses_default_def test_whitespace_server_uses_default_def
      test_none_server_uses_default_def test_no_args_uses_default_def test_explicit_server_name_def
      test_server_config_object_def test_full_config_object_def test_config_takes_precedence_over_server_def
      test_config_default_def test_client_empty_string_def test_client_whitespace_def test_client_none_def
      test_client_no_args_def test_client_explicit_def default_server_config_def strip_ws_def is_space_def)

end
