(* ===== verification/Converters.thy ===== *)
theory Converters
  imports Recorded "HOL-Library.Multiset"
begin

text \<open>
  The converters of \<open>pipolars.transform\<close> (\<open>values_to_dataframe\<close>,
  \<open>multi_tag_to_dataframe\<close>), of which only the re-export module
  \<open>src/src/pipolars/transform/__init__.py\<close> is in the source tree. The model
  follows the specification (4.4 and 8): the long form, the wide form pivoted
  on exact timestamps with nulls for missing combinations, and un-pivoting; and
  the composition with the extractor, a batch of \<open>recorded_values\<close> calls
  reshaped into a table.
\<close>


section \<open>Long and wide tables\<close>

text \<open>Long form (4.4): one row per (series, timestamp, value, quality).\<close>

record long_row =
  lr_series :: string
  lr_timestamp :: instant
  lr_value :: py_value
  lr_quality :: data_quality

definition long_form :: "(string \<times> pi_value list) list \<Rightarrow> long_row list" where
  "long_form series =
     concat (map (\<lambda>(s, vs). map (\<lambda>v. \<lparr>lr_series = s, lr_timestamp = pv_timestamp v,
                                       lr_value = pv_value v, lr_quality = pv_quality v\<rparr>) vs) series)"

text \<open>
  Wide (pivot) form: one row per distinct timestamp in ascending order, one
  column per series in order of first appearance; a missing combination is
  null. Alignment is by exact timestamp equality.
\<close>

record wide_table =
  wt_series :: "string list"
  wt_rows :: "(instant \<times> (py_value \<times> data_quality) option list) list"

definition cell :: "long_row list \<Rightarrow> string \<Rightarrow> instant \<Rightarrow> (py_value \<times> data_quality) option" where
  "cell rows s t =
     map_option (\<lambda>r. (lr_value r, lr_quality r)) (find (\<lambda>r. lr_series r = s \<and> lr_timestamp r = t) rows)"

definition pivot :: "long_row list \<Rightarrow> wide_table" where
  "pivot rows =
     (let cols = remdups (map lr_series rows); ts = sort (remdups (map lr_timestamp rows)) in
      \<lparr>wt_series = cols, wt_rows = map (\<lambda>t. (t, map (\<lambda>s. cell rows s t) cols)) ts\<rparr>)"

text \<open>Un-pivoting: the long rows of the non-null cells, row by row.\<close>

definition mk_row :: "string \<Rightarrow> instant \<Rightarrow> py_value \<times> data_quality \<Rightarrow> long_row" where
  "mk_row s t c = \<lparr>lr_series = s, lr_timestamp = t, lr_value = fst c, lr_quality = snd c\<rparr>"

definition unpivot :: "wide_table \<Rightarrow> long_row list" where
  "unpivot w =
     concat (map (\<lambda>(t, cells). List.map_filter (\<lambda>(s, c). map_option (mk_row s t) c) (zip (wt_series w) cells))
       (wt_rows w))"

text \<open>
  The batch the multi-series converters reshape: \<open>recorded_values\<close> for each
  tag in turn, the first exception ending the batch.
\<close>

fun recorded_batch ::
  "extractor \<Rightarrow> string list \<Rightarrow> pi_timestamp \<Rightarrow> pi_timestamp \<Rightarrow> recorded_values_options
   \<Rightarrow> (string \<times> pi_value list) list py_result" where
  "recorded_batch ex [] start stop opts = Inr []"
| "recorded_batch ex (t # ts) start stop opts =
     rbind (recorded_values ex t start stop (Some opts)) (\<lambda>vs.
     rbind (recorded_batch ex ts start stop opts) (\<lambda>rest. Inr ((t, vs) # rest)))"

abbreviation row_key :: "long_row \<Rightarrow> instant \<times> string" where
  "row_key r \<equiv> (lr_timestamp r, lr_series r)"

text \<open>The long row a cell of the pivot of \<open>rows\<close> stands for.\<close>

definition cell_row :: "long_row list \<Rightarrow> instant \<times> string \<Rightarrow> long_row option" where
  "cell_row rows k = map_option (mk_row (snd k) (fst k)) (cell rows (snd k) (fst k))"

section \<open>Properties\<close>

lemma cell_None_iff: "cell rows s t = None \<longleftrightarrow> (t, s) \<notin> set (map row_key rows)"
  by (auto simp: cell_def find_None_iff)

lemma unpivot_pivot:
  "unpivot (pivot rows) =
     List.map_filter (cell_row rows) (List.product (sort (remdups (map lr_timestamp rows))) (remdups (map lr_series rows)))"
  by (simp add: unpivot_def pivot_def Let_def product_concat_map map_filter_concat map_filter_zip_map
      map_filter_map_comp o_def cell_row_def)

lemma mk_row_eta [simp]: "mk_row (lr_series r) (lr_timestamp r) (lr_value r, lr_quality r) = r"
  by (simp add: mk_row_def)

lemma cell_row_SomeD:
  assumes "cell_row rows k = Some r"
  shows "r \<in> set rows \<and> row_key r = k"
proof -
  obtain r0 where f: "find (\<lambda>y. lr_series y = snd k \<and> lr_timestamp y = fst k) rows = Some r0"
    and r: "r = mk_row (snd k) (fst k) (lr_value r0, lr_quality r0)"
    using assms by (auto simp: cell_row_def cell_def)
  from f have "r0 \<in> set rows" "lr_series r0 = snd k" "lr_timestamp r0 = fst k"
    by (auto simp: find_Some_iff)
  with r show ?thesis by (metis mk_row_eta prod.collapse)
qed

lemma cell_row_key:
  assumes "distinct (map row_key rows)" "r \<in> set rows"
  shows "cell_row rows (row_key r) = Some r"
proof -
  have "(\<lambda>y. row_key y = row_key r) = (\<lambda>y. lr_series y = lr_series r \<and> lr_timestamp y = lr_timestamp r)"
    by auto
  with find_key [OF assms]
  have "find (\<lambda>y. lr_series y = lr_series r \<and> lr_timestamp y = lr_timestamp r) rows = Some r" by simp
  then show ?thesis by (simp add: cell_row_def cell_def mk_row_def)
qed

lemma pivot_unpivot_roundtrip:
  assumes "distinct (map row_key rows)"
  shows "mset (unpivot (pivot rows)) = mset rows"
proof -
  let ?ks = "List.product (sort (remdups (map lr_timestamp rows))) (remdups (map lr_series rows))"
  have d1: "distinct (unpivot (pivot rows))"
    unfolding unpivot_pivot
    by (rule distinct_map_filter_key [where key = row_key]) (auto simp: distinct_product dest: cell_row_SomeD)
  have d2: "distinct rows" using assms by (rule distinct_map [THEN iffD1, THEN conjunct1])
  have "set (unpivot (pivot rows)) = set rows"
  proof
    show "set (unpivot (pivot rows)) \<subseteq> set rows"
      unfolding unpivot_pivot by (auto simp: set_map_filter_iff dest: cell_row_SomeD)
  next
    show "set rows \<subseteq> set (unpivot (pivot rows))"
    proof
      fix r assume r: "r \<in> set rows"
      then have "row_key r \<in> set ?ks" by auto
      with cell_row_key [OF assms r] show "r \<in> set (unpivot (pivot rows))"
        unfolding unpivot_pivot set_map_filter_iff by (metis set_map_filter_iff)
    qed
  qed
  with d1 d2 show ?thesis by (simp add: set_eq_iff_mset_eq_distinct)
qed

lemma recorded_batch_ok:
  assumes "\<forall>t\<in>set tags. \<exists>vs. recorded_values ex t start stop (Some opts) = Inr vs \<and> P vs"
  shows "\<exists>series. recorded_batch ex tags start stop opts = Inr series \<and> map fst series = tags \<and>
           (\<forall>x\<in>set series. P (snd x))"
  using assms by (induction tags) auto

lemma long_form_Cons:
  "long_form ((s, vs) # rest) =
     map (\<lambda>v. \<lparr>lr_series = s, lr_timestamp = pv_timestamp v, lr_value = pv_value v, lr_quality = pv_quality v\<rparr>) vs
     @ long_form rest"
  by (simp add: long_form_def)

lemma long_form_series: "lr_series ` set (long_form series) \<subseteq> set (map fst series)"
  by (force simp: long_form_def)

lemma long_form_keys_distinct:
  "distinct (map fst series) \<Longrightarrow> \<forall>x\<in>set series. distinct (map pv_timestamp (snd x)) \<Longrightarrow>
   distinct (map row_key (long_form series))"
proof (induction series)
  case (Cons a rest)
  obtain s vs where a: "a = (s, vs)" by (cases a)
  have "distinct (map (\<lambda>v. (pv_timestamp v, s)) vs)"
    using Cons.prems a by (simp add: distinct_map inj_on_def)
  moreover have "s \<notin> lr_series ` set (long_form rest)"
    using Cons.prems a long_form_series [of rest] by auto
  ultimately show ?case using Cons a by (auto simp: long_form_Cons o_def)
qed (simp add: long_form_def)

lemma pivot_ascending: "sorted_wrt (<) (map fst (wt_rows (pivot rows)))"
  by (simp add: pivot_def Let_def o_def strict_sorted_iff)

text \<open>
  Extraction composed with the converters: for distinct tags whose points are
  answered by the reference archive (a shared time parser, filter and
  interpolation, a range not reversed and a boundary other than
  \<open>INTERPOLATED\<close>) on a machine whose local clock is strictly monotone, the
  batch of \<open>recorded_values\<close> succeeds with one series per tag, and un-pivoting
  its wide table gives back exactly the long rows, up to order. Without a
  monotone clock two values of one series can share a wall-clock reading
  (\<open>Recorded.recorded_values_dst_not_ascending\<close>), and the pivot keeps only
  the first of them.
\<close>

lemma recorded_batch_pivot_roundtrip:
  assumes "distinct tags"
    and "\<forall>tag\<in>set tags. \<exists>p evs. point_of ex tag = Some p \<and>
           pt_recorded p = archive_recorded resolve keep interp evs \<and> sorted_wrt (<) (map av_timestamp evs)"
    and "create_time_range ex start stop = Inr tr"
    and "resolve (tr_start tr) \<le> resolve (tr_end tr)"
    and "rvo_boundary_type opts \<noteq> INTERPOLATED"
    and "strict_mono (sdk_local_time (ex_sdk ex))"
  shows "\<exists>series. recorded_batch ex tags start stop opts = Inr series \<and> map fst series = tags \<and>
           mset (unpivot (pivot (long_form series))) = mset (long_form series)"
proof -
  have "\<exists>vs. recorded_values ex t start stop (Some opts) = Inr vs \<and> sorted_wrt (<) (map pv_timestamp vs)"
    if tin: "t \<in> set tags" for t
  proof -
    obtain p evs where p: "point_of ex t = Some p" "pt_recorded p = archive_recorded resolve keep interp evs"
      and s: "sorted_wrt (<) (map av_timestamp evs)"
      using assms(2) tin by blast
    let ?ans = "cap_count (rvo_max_count opts) (apply_filter (keep (rvo_filter_expression opts))
        (rvo_include_filtered_values opts)
        (window (boundary_map (rvo_boundary_type opts)) (resolve (tr_start tr)) (resolve (tr_end tr)) evs))"
    have "sorted_wrt (<) (map (sdk_local_time (ex_sdk ex)) (stamps ?ans))"
      using assms(6) sorted_pipeline [OF sorted_window [OF s assms(4)]] by (rule sorted_strict_mono_map)
    then have "sorted_wrt (<) (map pv_timestamp (map (convert_value ex) ?ans))" by (simp only: stamps_convert)
    with recorded_values_archive_run [OF p assms(3,4,5)] show ?thesis by blast
  qed
  from recorded_batch_ok [OF ballI [OF this]] obtain series where
    b: "recorded_batch ex tags start stop opts = Inr series" and f: "map fst series = tags"
    and s: "\<forall>x\<in>set series. sorted_wrt (<) (map pv_timestamp (snd x))" by blast
  have "distinct (map row_key (long_form series))"
    using assms(1) s f by (intro long_form_keys_distinct) (auto simp: strict_sorted_iff)
  then have "mset (unpivot (pivot (long_form series))) = mset (long_form series)"
    by (rule pivot_unpivot_roundtrip)
  with b f show ?thesis by blast
qed

end
