(* ===== verification/Spec2Isabelle.thy ===== *)
theory Spec2Isabelle
  imports Iterator Analyses PiPoints AnalysisInfo Cache Export Client Converters
begin

text \<open>
  \<^bold>\<open>A verification model of pipolars\<close> (the PI System connector of the
  repository aserdargun/pipolars).

  \<^bold>\<open>The program.\<close> The package reads time series and metadata from a PI Data
  Archive through the vendor's .NET SDK and shapes the answers for analysis.
  The source tree holds the point extractor
  \<open>src/src/pipolars/extraction/points.py\<close> (class \<open>PIPointExtractor\<close>), the
  re-export modules of the cache and transform packages, and two extraction
  scripts under \<open>src/examples\<close>. The extractor is given a connection; every
  query looks the tag up on the connection (\<open>get_point\<close>, raising
  \<open>PIPointNotFoundError\<close>), turns the time arguments into SDK time expressions
  (\<open>_parse_time\<close>, \<open>_create_time_range\<close>), makes one SDK call on the point
  handle and converts every returned \<open>AFValue\<close> with \<open>_convert_value\<close>.

  \<^bold>\<open>Theories and what they model.\<close>
  \<^item> \<open>Prelude\<close>: Python values and exceptions (\<open>py_value\<close>, \<open>py_error\<close>,
    results \<open>py_error + 'a\<close> with \<open>rbind\<close>), dictionaries as association
    lists with Python's insertion order (\<open>AList.update\<close>), and the string
    built-ins the code calls: \<open>in\<close>, \<open>lower\<close>, \<open>strip\<close>, \<open>split\<close>/\<open>join\<close>
    (with the round trip \<open>py_join_split\<close>), \<open>str(int)\<close> and \<open>int(str)\<close>
    (with the round trip \<open>py_int_of_str_py_str_int\<close>; the reader takes
    Python's white space and digit-group underscores), \<open>float(str)\<close> with
    digit groups and exponents.
  \<^item> \<open>Types\<close>: the records of \<open>pipolars.core.types\<close> (not in the source
    tree; from the specification and \<open>tests/unit/test_types.py\<close>):
    \<open>PIValue\<close>, \<open>PointConfig\<close>, \<open>SummaryType\<close> with its flag values,
    \<open>BoundaryType\<close>, \<open>AnalysisStatus\<close>, \<open>datetime.isoformat\<close>, \<open>AFTime\<close>.
  \<^item> \<open>Points\<close>: the SDK as an interface (a point handle is a record of the
    query functions the code calls; the connection is a table of handles; the
    SDK's time parser is a predicate; \<open>AFTime.LocalTime\<close> is the machine's
    wall clock \<open>sdk_local_time\<close>, which need not be monotone) and the
    extractor operations
    \<open>convert_value\<close>, \<open>parse_time\<close>, \<open>create_time_range\<close>, \<open>snapshot\<close>,
    \<open>snapshots\<close>, \<open>recorded_values\<close>, \<open>interpolated_values\<close>,
    \<open>plot_values\<close>, \<open>value_at\<close>, each returning \<open>py_error + _\<close>. Lemmas:
    the batch snapshot (C1, C2).
  \<^item> \<open>Summary\<close>: \<open>summary\<close>, \<open>summaries\<close> and \<open>_get_summary_name\<close>. The
    requested types are OR-ed into a 32-bit \<open>AFSummaryTypes\<close> word
    (\<open>sdk_summary_mask\<close>, C3); the SDK's answer is modelled from the
    specification (\<open>summary_reference\<close>: one result per set flag); against
    it \<open>summary\<close> returns exactly the requested names (C4); result names are
    injective (known names never parse as integers, unknown codes print as
    their decimal), so \<open>summaries\<close> gives one row per interval whose
    \<open>timestamp\<close> key holds the interval's wall-clock time and is never
    overwritten (C5). Across all six queries of the extractor the errors
    come in the order of the code: an unknown tag raises
    \<open>PIPointNotFoundError\<close> whatever the other arguments (C34), then a
    rejected start time raises the SDK's parse error (C35).
  \<^item> \<open>Recorded\<close>: a reference archive for \<open>RecordedValues\<close> (from the
    specification and the SDK's documented behaviour: inside and outside
    windows, filter expressions, \<open>max_count\<close>, reverse order for a reversed
    range; interpolated edges are a parameter). Against it the archive
    instants behind \<open>recorded_values\<close> ascend strictly, lie inside the range
    and are capped, and the timestamps are their wall-clock readings, strictly
    ascending under a monotone clock (C6); across the end of daylight saving
    time they need not ascend, contrary to the specification (C7).
  \<^item> \<open>Iterator\<close>: \<open>recorded_values_iterator\<close> as a generator state machine
    (\<open>GenNew\<close>, \<open>GenActive\<close>, \<open>GenDone\<close>; \<open>gen_next\<close> is one \<open>next()\<close>)
    over the SDK's paged enumeration (\<open>pager\<close>: a client buffer and the events
    still on the server). The pager refines a list of pending events; the
    generator drains to \<open>recorded_values\<close> (C8), is paced by its consumer
    (C9), keeps its buffer below the page size in every reachable state, by
    rule induction over \<open>gen_reach\<close> (C10), defers set-up errors to the
    first \<open>next()\<close> (C11).

  \<^item> \<open>Analyses\<close>: the helpers of \<open>src/examples/extract_analyses.py\<close>
    (\<open>safe_str\<close>, \<open>extract_plant_name\<close>, \<open>determine_plant_category\<close>, the
    event-frame template and status parsing), the recursive element traversal
    \<open>traverse_elements\<close> with the interpreter's recursion budget as a parameter
    (a call at the budget raises \<open>RecursionError\<close>, swallowed by the caller),
    the handler's \<open>element.Name\<close> read that can end a level of the traversal,
    the worklist traversal \<open>walk_elements\<close> the specification recommends, and
    the batch functions \<open>extract_analyses_from_all_databases\<close> and
    \<open>extract_analyses\<close> (connect/disconnect trace, per-item failures skipped,
    the database name read outside the per-database \<open>try\<close>,
    \<open>AttributeError\<close> fallback to the traversal). Lemmas: equivalence of the
    two traversals within the budget when no element fails both its
    \<open>Analyses\<close> and \<open>Name\<close> reads (C12), loss of analyses below the budget
    (C13), the recursive result is a subsequence of the worklist one (C14), the
    fallback (C15), the batch rows (C16), path and configuration parsing
    (C17, C18), the category test order (C19), the loss of the later siblings
    after a failing \<open>Name\<close> read (C25), and the loss of every row when one
    database name cannot be read (C30).
  \<^item> \<open>Points\<close> also holds \<open>get_point_config\<close>, with Python's \<open>int\<close>,
    \<open>float\<close> and \<open>str\<close> of a value from the Prelude: defaults for absent
    attributes (C20), a zero typical value reported as unset (C21), a
    non-integer id raising \<open>ValueError\<close> (C22).
  \<^item> \<open>PiPoints\<close>: \<open>src/examples/extract_pipoints.py\<close>: the .NET date
    conversion with the range checks of \<open>datetime\<close>, the attribute conversion,
    the dictionary of one point with its nested \<open>try\<close> blocks and the
    fallback stub, and the batch. Lemmas: the keys and values of a complete
    point entry (C23), one entry per point with a readable name, in order
    (C24). An attribute whose conversion or \<open>ToString()\<close> raises
    otherwise than with \<open>ValueError\<close> or \<open>TypeError\<close> is stored as \<open>None\<close>.
  \<^item> \<open>PyExec\<close>: Python statements over a dictionary under construction,
    with exceptions that keep the assignments made before them
    (\<open>ex_bind\<close>, \<open>ex_seq\<close>, \<open>ex_try\<close>, \<open>assign\<close>), attributes of vendor
    objects (\<open>'a net_attr\<close>: absent, raising, or a value) and three rule
    collections: \<open>shape_intros\<close> (which keys a statement appends),
    \<open>total_intros\<close> (statements that never raise) and \<open>frame_intros\<close>
    (keys a statement may write), with postconditions \<open>post\<close> for
    field-level reasoning.
  \<^item> \<open>AnalysisInfo\<close>: \<open>extract_analysis_info_raw\<close> and
    \<open>extract_analysis_info\<close>, one definition per commented block of the
    source (including the verbose log lines whose \<open>str()\<close> of a raw object can
    raise and end the rule block); dates go through the script's own copy of \<open>convert_net_datetime\<close>
    (\<open>ea_convert_net_datetime\<close>, proved equal to the one of \<open>PiPoints\<close>).
    Lemmas: the fixed schema of every returned dictionary (C26); the
    function raises exactly when one of the three unguarded reads raises (C27);
    the severity fallback (C28); every row of \<open>extract_analyses\<close> has the
    schema of the function that built it (C29).
  \<^item> \<open>Cache\<close>: the caching layer of \<open>src/src/pipolars/cache\<close>, whose modules
    are not in the source tree (only \<open>__init__.py\<close>, its re-exports, is), so
    it follows the specification (4.1, 4.2, 8): query fingerprints by a
    length-prefixed serialisation, the memory backend (\<open>get\<close>, \<open>set\<close>,
    \<open>invalidate\<close>, \<open>clear\<close> on an entry list in least-recently-used order with a
    size limit), TTL and sliding-window expiry, the counters of \<open>stats()\<close>,
    the backend as a step system \<open>cache_reach\<close>, and the extractor's cached
    query. Its lemmas are results about the specification, not claims about
    the source: the fingerprint decodes back, the eviction loop
    (\<open>while\<close> of HOL-Library's While_Combinator) terminates within the limit,
    every reachable cache has distinct keys and respects its limit, hits and
    misses around the deadline under both strategies, LRU eviction order, and
    the cached query refines the source when the cache is consistent.
  \<^item> \<open>Export\<close>: the output stage of both scripts: \<open>serialize_datetime\<close>,
    the JSON document \<open>json.dump\<close> builds from the rows (a tree; objects keep
    insertion order; dates go through the hook), both \<open>main\<close> functions with
    the \<open>try\<close> that resets the list, and \<open>datetime.fromisoformat\<close> as the reader
    of the dates. Lemmas: every .NET date is written as a string that reads
    back with the .NET fields, milliseconds as microseconds (C31); the analyses
    script writes one object per extracted analysis with the raw schema and
    reports that count (C32); the point script writes no file exactly when the
    file is not writable or the extraction raises (C33).

  \<^item> \<open>Client\<close>: \<open>PIClient\<close>'s configuration from the specification
    (\<open>resolve_server\<close>: an empty, whitespace-only or missing server is
    \<open>localhost\<close>, a name is used verbatim, a configuration object takes
    precedence) and the unit tests of \<open>tests/unit/test_client.py\<close> and
    \<open>test_default_server.py\<close> as the conditions they assert; they all hold,
    and the latter script exits with status 0 (a lemma: the model was taken
    from the specification these tests exercise).

  \<^item> \<open>Converters\<close>: the long and wide tables of \<open>pipolars.transform\<close>, from the
    specification (only the re-export module is in the tree): the long form,
    the pivot on exact timestamps with nulls for missing combinations,
    un-pivoting, and a batch of \<open>recorded_values\<close> calls fed to them. Lemma:
    un-pivoting the pivot gives back any long rows with distinct (series,
    timestamp) keys, as multisets; composed with the extractor over the
    reference archive on a machine with a monotone local clock, the batch
    succeeds and round-trips. These are results about the specification.

  \<^bold>\<open>Bounds and fuel.\<close> No definition uses fuel: every recursion is structural
  or has a measure (\<open>split_from\<close>: the length of the unread string;
  \<open>walk_elements\<close>: the total size of the stack); the one loop of the cache,
  eviction, is HOL's \<open>while\<close>, and its termination is proved as
  \<open>while_option \<dots> = Some\<close> with the number of entries as the measure. The
  consumer loop \<open>pull n\<close> is bounded by its argument: C8 shows that any \<open>n\<close>
  larger than the number of values reaches \<open>Stopped\<close>. The flag word has the
  width of the .NET enum (32 bits); every flag lies below bit 14. The recursion budget of the
  element traversal is a parameter: CPython's default limit of 1000 frames,
  less the frames of the caller, bounds it in practice; C12 and C13 hold for
  every budget. The ISO fields have the widths \<open>isoformat\<close> pads to (4, 2 and
  6 digits); the range checks of \<open>datetime\<close> keep every field within them.

  \<^bold>\<open>Not modelled.\<close> The vendor SDK itself (sessions, authentication,
  wire protocol) appears only through the interface records; logging,
  printing and the logging set-up under \<open>__main__\<close>; the text layout of the
  JSON files (\<open>indent=2\<close>, escapes), of which the model keeps the document
  tree; the demonstration script \<open>examples/test_pipolars.py\<close>, a sequence
  of printed calls; the preambles of the two extraction scripts (console
  re-encoding, \<open>sys.path\<close>, imports). The SQLite and Arrow cache backends have no
  source in the tree and no specified behaviour beyond durability, and the
  \<open>DigitalStateMapper\<close> and \<open>TimestampHandler\<close> of
  \<open>src/src/pipolars/transform\<close> are only names in its re-export list.
  Strings are lists of the 256 characters of \<open>char\<close>. Python floats are
  reals (no NaN, infinity or rounding; \<open>float("inf")\<close> reads as an error);
  \<open>lower()\<close> acts on ASCII letters; the text of a float (\<open>repr\<close>) and of an
  exception (\<open>str(e)\<close>) are parameters. In \<open>_convert_value\<close> the
  \<open>float(value)\<close> of a .NET object either succeeds or raises \<open>ValueError\<close>
  or \<open>TypeError\<close>; the truthiness of a .NET object is that of its text.
  The reads of \<open>conn.database.Elements\<close> at the root of the element
  traversal do not raise. \<open>hasattr\<close> on a raising getter lets the exception through, as
  Python 3 does.

  \<^bold>\<open>Plan.\<close> The remaining operations of \<open>pipolars.core.types\<close> that
  \<open>tests/unit/test_types.py\<close> exercises (\<open>AFTime.ago\<close>, the \<open>TimeRange\<close>
  constructors, \<open>to_dict\<close>): their source is not in the tree and the
  specification does not fix their output formats, so they wait for it.
\<close>

end
